theory Spec2Isabelle
  imports Main
begin

section \<open>Key objects, errors and the outside world\<close>

text \<open>
  The module \<^verbatim>\<open>securesystemslib/interface.py\<close> creates key pairs, writes them to
  disk and reads private keys back. Text is modelled as its UTF-8 bytes (\<open>string\<close>), so
  \<^verbatim>\<open>s.encode('utf-8')\<close> is the identity. Calls of \<^verbatim>\<open>logger.debug\<close> have no
  modelled effect.
\<close>

text \<open>A key object is the dictionary the key routines exchange; the fields of
  \<^verbatim>\<open>key['keyval']\<close> are \<^verbatim>\<open>'public'\<close> and \<^verbatim>\<open>'private'\<close>.\<close>

record keyval_dict =
  kv_public :: string
  kv_private :: string

record key_dict =
  keytype :: string
  scheme :: string
  keyid :: string
  keyval :: keyval_dict
  keyid_hash_algorithms :: "string list option"

text \<open>Every exception the module can raise or let through is a value.\<close>

datatype error =
    FormatError string
  | CryptoError string
  | IOError
  | EOFError
  | UnicodeDecodeError

datatype json =
    JString string
  | JObject "(string \<times> json) list"

text \<open>The calls made to the cryptographic routines of \<^verbatim>\<open>securesystemslib.keys\<close>
  are recorded in a log, so that a statement can say which routine ran, and with which
  password.\<close>

datatype call =
    Call_create_rsa_encrypted_pem string string
  | Call_encrypt_key key_dict string
  | Call_decrypt_key string string
  | Call_import_rsakey_from_private_pem string string "string option"

text \<open>
  The collaborators of the module that are not part of it: the schema gates of
  \<^verbatim>\<open>securesystemslib.formats\<close> (each \<^verbatim>\<open>X.check_match(v)\<close> returns or raises), the
  routines of \<^verbatim>\<open>securesystemslib.keys\<close>, the setting
  \<^verbatim>\<open>securesystemslib.settings.HASH_ALGORITHMS\<close>, and Python's \<^verbatim>\<open>json.dumps\<close>,
  \<^verbatim>\<open>repr\<close> and UTF-8 decoder. They are parameters of every function below.
\<close>

record env =
  RSAKEYBITS_SCHEMA_check_match :: "int \<Rightarrow> error + unit"
  PATH_SCHEMA_check_match :: "string \<Rightarrow> error + unit"
  PASSWORD_SCHEMA_check_match :: "string \<Rightarrow> error + unit"
  RSA_SCHEME_SCHEMA_check_match :: "string \<Rightarrow> error + unit"
  generate_rsa_key :: "int \<Rightarrow> key_dict"
  generate_ed25519_key :: key_dict
  generate_ecdsa_key :: key_dict
  create_rsa_encrypted_pem :: "string \<Rightarrow> string \<Rightarrow> error + string"
  encrypt_key :: "key_dict \<Rightarrow> string \<Rightarrow> error + string"
  decrypt_key :: "string \<Rightarrow> string \<Rightarrow> error + key_dict"
  import_rsakey_from_private_pem :: "string \<Rightarrow> string \<Rightarrow> string option \<Rightarrow> error + key_dict"
  HASH_ALGORITHMS :: "string list"
  json_dumps :: "json \<Rightarrow> string"
  repr :: "string \<Rightarrow> string"
  valid_utf8 :: "string \<Rightarrow> bool"

text \<open>
  The state outside the program: the files by path, the directories, the working
  directory, what the user will type at the terminal (entry \<open>n\<close> answers the \<open>n\<close>-th
  password prompt; \<open>None\<close> is end of input), how many entries were read, the prompts
  written to \<^verbatim>\<open>sys.stderr\<close>, the lines printed, the faults the file system will
  raise (one flag per file-system operation, in order; no flag left means no fault), and
  the log of calls.
\<close>

record world =
  files :: "string \<rightharpoonup> string"
  dirs :: "string set"
  cwd :: string
  tty_in :: "nat \<Rightarrow> string option"
  tty_pos :: nat
  stderr :: "string list"
  stdout :: "string list"
  io_faults :: "bool list"
  calls :: "call list"

text \<open>A computation either does not return (\<open>None\<close>), or returns a value or an
  exception together with the world it leaves behind.\<close>

type_synonym 'a io = "world \<Rightarrow> ((error + 'a) \<times> world) option"

definition return_io :: "'a \<Rightarrow> 'a io" where
  "return_io x w = Some (Inr x, w)"

definition lift_io :: "error + 'a \<Rightarrow> 'a io" where
  "lift_io r w = Some (r, w)"

definition bind_io :: "'a io \<Rightarrow> ('a \<Rightarrow> 'b io) \<Rightarrow> 'b io" where
  "bind_io m f w =
     (case m w of
        None \<Rightarrow> None
      | Some (Inl e, w1) \<Rightarrow> Some (Inl e, w1)
      | Some (Inr x, w1) \<Rightarrow> f x w1)"

section \<open>Python and library primitives\<close>

definition DEFAULT_RSA_KEY_BITS :: int where
  "DEFAULT_RSA_KEY_BITS = 3072"

text \<open>\<^verbatim>\<open>colorama.Fore.RED\<close> and \<^verbatim>\<open>colorama.Fore.RESET\<close>: the ANSI sequences
  \<^verbatim>\<open>ESC[31m\<close> and \<^verbatim>\<open>ESC[39m\<close>.\<close>

definition Fore_RED :: string where
  "Fore_RED = CHR 0x1B # ''[31m''"

definition Fore_RESET :: string where
  "Fore_RESET = CHR 0x1B # ''[39m''"

text \<open>\<^verbatim>\<open>os.path.join(a, b)\<close>, \<^verbatim>\<open>os.path.basename(p)\<close> and
  \<^verbatim>\<open>os.path.dirname(p)\<close> of \<^verbatim>\<open>posixpath\<close>.\<close>

definition starts_with_slash :: "string \<Rightarrow> bool" where
  "starts_with_slash b = (case b of [] \<Rightarrow> False | c # _ \<Rightarrow> c = CHR ''/'')"

definition ends_with_slash :: "string \<Rightarrow> bool" where
  "ends_with_slash a = (case rev a of [] \<Rightarrow> False | c # _ \<Rightarrow> c = CHR ''/'')"

definition os_path_join :: "string \<Rightarrow> string \<Rightarrow> string" where
  "os_path_join a b =
     (if starts_with_slash b then b
      else if a = [] \<or> ends_with_slash a then a @ b
      else a @ ''/'' @ b)"

definition os_path_basename :: "string \<Rightarrow> string" where
  "os_path_basename p = rev (takeWhile (\<lambda>c. c \<noteq> CHR ''/'') (rev p))"

definition os_path_dirname :: "string \<Rightarrow> string" where
  "os_path_dirname p =
     (let head = rev (dropWhile (\<lambda>c. c \<noteq> CHR ''/'') (rev p))
      in if filter (\<lambda>c. c \<noteq> CHR ''/'') head = [] then head
         else rev (dropWhile (\<lambda>c. c = CHR ''/'') (rev head)))"

text \<open>\<^verbatim>\<open>getpass.getpass(prompt, sys.stderr)\<close>: writes the prompt, reads one entry
  without echo, raises \<^verbatim>\<open>EOFError\<close> at end of input.\<close>

definition getpass :: "string \<Rightarrow> world \<Rightarrow> (error + string) \<times> world" where
  "getpass prompt w =
     (let w1 = w\<lparr>stderr := stderr w @ [prompt]\<rparr>
      in case tty_in w (tty_pos w) of
           None \<Rightarrow> (Inl EOFError, w1)
         | Some line \<Rightarrow> (Inr line, w1\<lparr>tty_pos := tty_pos w + 1\<rparr>))"

text \<open>\<^verbatim>\<open>print(s)\<close>.\<close>

definition print_line :: "string \<Rightarrow> world \<Rightarrow> world" where
  "print_line s w = w\<lparr>stdout := stdout w @ [s]\<rparr>"

text \<open>One file-system operation asks whether a fault is due now (\<open>fault_due\<close>) and
  uses the flag up (\<open>fault_done\<close>).\<close>

definition fault_due :: "world \<Rightarrow> bool" where
  "fault_due w = (case io_faults w of [] \<Rightarrow> False | b # _ \<Rightarrow> b)"

definition fault_done :: "world \<Rightarrow> world" where
  "fault_done w = w\<lparr>io_faults := (case io_faults w of [] \<Rightarrow> [] | _ # bs \<Rightarrow> bs)\<rparr>"

text \<open>\<^verbatim>\<open>with open(filepath, 'rb') as file_object: file_object.read()\<close>.\<close>

definition read_file :: "string \<Rightarrow> string io" where
  "read_file path w =
     (if fault_due w then Some (Inl IOError, fault_done w)
      else
        (case files w path of
           None \<Rightarrow> Some (Inl IOError, fault_done w)
         | Some contents \<Rightarrow> Some (Inr contents, fault_done w)))"

definition decode_utf8 :: "env \<Rightarrow> string \<Rightarrow> string io" where
  "decode_utf8 env bs =
     (if valid_utf8 env bs then return_io bs else lift_io (Inl UnicodeDecodeError))"

text \<open>Modelled from the spec: the directory creation inside
  \<^verbatim>\<open>securesystemslib.util.ensure_parent_dir\<close>, which is not among the sources. The spec
  (4.3): creating a directory that exists is not an error; a path without a parent
  directory creates nothing.\<close>

definition os_makedirs :: "string \<Rightarrow> world \<Rightarrow> world" where
  "os_makedirs directory w =
     (if directory = [] then w else w\<lparr>dirs := insert directory (dirs w)\<rparr>)"

text \<open>Modelled from the spec: \<^verbatim>\<open>securesystemslib.util.ensure_parent_dir\<close> is not
  among the sources. The spec (4.3): the parent directory tree of the target path is
  created before any write is attempted. A file-system fault propagates as an I/O error
  (spec 7).\<close>

definition ensure_parent_dir :: "string \<Rightarrow> unit io" where
  "ensure_parent_dir filename w =
     (if fault_due w then Some (Inl IOError, fault_done w)
      else Some (Inr (), os_makedirs (os_path_dirname filename) (fault_done w)))"

text \<open>Modelled from the spec: the class \<^verbatim>\<open>securesystemslib.util.TempFile\<close> is not
  among the sources. The spec (4.3, Atomicity): a write goes through a temporary file
  that receives the full contents and is then renamed into the final path; the temporary
  file is discarded on any failure before the rename. A temporary file is the contents
  written to it so far; it has no path among \<open>files\<close>, and an exception drops it with the
  local variable that holds it.\<close>

type_synonym TempFile = string

text \<open>Modelled from the spec: \<^verbatim>\<open>TempFile()\<close>, the acquisition of an empty temporary
  file.\<close>

definition TempFile_new :: "TempFile io" where
  "TempFile_new w =
     (if fault_due w then Some (Inl IOError, fault_done w)
      else Some (Inr [], fault_done w))"

text \<open>Modelled from the spec: \<^verbatim>\<open>file_object.write(data)\<close>, which appends the data to
  the temporary file.\<close>

definition TempFile_write :: "TempFile \<Rightarrow> string \<Rightarrow> TempFile io" where
  "TempFile_write t data w =
     (if fault_due w then Some (Inl IOError, fault_done w)
      else Some (Inr (t @ data), fault_done w))"

text \<open>Modelled from the spec: \<^verbatim>\<open>file_object.move(destination_path)\<close>, the rename
  into the final path: it happens as a whole, or it raises and leaves the destination as it
  was.\<close>

definition TempFile_move :: "TempFile \<Rightarrow> string \<Rightarrow> unit io" where
  "TempFile_move t destination_path w =
     (if fault_due w then Some (Inl IOError, fault_done w)
      else Some (Inr (), (fault_done w)\<lparr>files := (files w)(destination_path \<mapsto> t)\<rparr>))"

text \<open>Modelled from the spec: \<^verbatim>\<open>securesystemslib.keys.format_keyval_to_metadata\<close> is
  not among the sources. The spec (4.3, Public payload format): the envelope is
  \<^verbatim>\<open>{keytype, scheme, keyval: {public}}\<close>, with no keyid and no private field; with
  \<^verbatim>\<open>private=True\<close> the key value is kept whole.\<close>

definition format_keyval_to_metadata :: "string \<Rightarrow> string \<Rightarrow> keyval_dict \<Rightarrow> bool \<Rightarrow> json" where
  "format_keyval_to_metadata ktype sch key_value private =
     (if private
      then JObject [(''keytype'', JString ktype), (''scheme'', JString sch),
             (''keyval'', JObject [(''public'', JString (kv_public key_value)),
                                   (''private'', JString (kv_private key_value))])]
      else JObject [(''keytype'', JString ktype), (''scheme'', JString sch),
             (''keyval'', JObject [(''public'', JString (kv_public key_value))])])"

text \<open>The calls of the cryptographic routines, each entered in the log.\<close>

definition call_create_rsa_encrypted_pem :: "env \<Rightarrow> string \<Rightarrow> string \<Rightarrow> string io" where
  "call_create_rsa_encrypted_pem env private password w =
     Some (create_rsa_encrypted_pem env private password,
           w\<lparr>calls := calls w @ [Call_create_rsa_encrypted_pem private password]\<rparr>)"

definition call_encrypt_key :: "env \<Rightarrow> key_dict \<Rightarrow> string \<Rightarrow> string io" where
  "call_encrypt_key env key_object password w =
     Some (encrypt_key env key_object password,
           w\<lparr>calls := calls w @ [Call_encrypt_key key_object password]\<rparr>)"

definition call_decrypt_key :: "env \<Rightarrow> string \<Rightarrow> string \<Rightarrow> key_dict io" where
  "call_decrypt_key env encrypted_key password w =
     Some (decrypt_key env encrypted_key password,
           w\<lparr>calls := calls w @ [Call_decrypt_key encrypted_key password]\<rparr>)"

definition call_import_rsakey_from_private_pem ::
    "env \<Rightarrow> string \<Rightarrow> string \<Rightarrow> string option \<Rightarrow> key_dict io" where
  "call_import_rsakey_from_private_pem env pem sch password w =
     Some (import_rsakey_from_private_pem env pem sch password,
           w\<lparr>calls := calls w @ [Call_import_rsakey_from_private_pem pem sch password]\<rparr>)"

section \<open>The password prompt\<close>

text \<open>\<^verbatim>\<open>_get_password(prompt, confirm)\<close>: a \<^verbatim>\<open>while True\<close> loop, so the function
  may not return.\<close>

partial_function (option) get_password ::
    "string \<Rightarrow> bool \<Rightarrow> world \<Rightarrow> ((error + string) \<times> world) option" where
  "get_password prompt confirm w =
     (case getpass prompt w of
        (Inl e, w1) \<Rightarrow> Some (Inl e, w1)
      | (Inr password, w1) \<Rightarrow>
          if \<not> confirm then Some (Inr password, w1)
          else
            (case getpass ''Confirm: '' w1 of
               (Inl e, w2) \<Rightarrow> Some (Inl e, w2)
             | (Inr password2, w2) \<Rightarrow>
                 if password = password2 then Some (Inr password, w2)
                 else get_password prompt confirm (print_line ''Mismatch; try again.'' w2)))"

declare get_password.simps [code]

section \<open>Creating and importing keys\<close>

definition raise_io :: "error \<Rightarrow> 'a io" where
  "raise_io e w = Some (Inl e, w)"

definition os_getcwd :: "string io" where
  "os_getcwd w = Some (Inr (cwd w), w)"

text \<open>\<^verbatim>\<open>generate_and_write_rsa_keypair(filepath, bits, password)\<close>. An argument left
  out is \<open>None\<close>; the default of \<open>bits\<close> is \<open>DEFAULT_RSA_KEY_BITS\<close>.
  \<^verbatim>\<open>if not filepath\<close> holds for \<open>None\<close> and for the empty string.\<close>

definition generate_and_write_rsa_keypair ::
    "env \<Rightarrow> string option \<Rightarrow> int \<Rightarrow> string option \<Rightarrow> string io" where
  "generate_and_write_rsa_keypair env filepath bits password =
     bind_io (lift_io (RSAKEYBITS_SCHEMA_check_match env bits)) (\<lambda>_.
     let rsa_key = generate_rsa_key env bits;
         public = kv_public (keyval rsa_key);
         private = kv_private (keyval rsa_key)
     in
     bind_io
       (case filepath of
          None \<Rightarrow> bind_io os_getcwd (\<lambda>d. return_io (os_path_join d (keyid rsa_key)))
        | Some p \<Rightarrow>
            if p = [] then bind_io os_getcwd (\<lambda>d. return_io (os_path_join d (keyid rsa_key)))
            else return_io p) (\<lambda>filepath.
     bind_io (lift_io (PATH_SCHEMA_check_match env filepath)) (\<lambda>_.
     bind_io
       (case password of
          None \<Rightarrow>
            (let relative_path = os_path_basename filepath
             in get_password (''Enter a password for the encrypted RSA key ('' @ Fore_RED @
                  relative_path @ Fore_RESET @ ''): '') False)
        | Some p \<Rightarrow> return_io p) (\<lambda>password.
     bind_io (lift_io (PASSWORD_SCHEMA_check_match env password)) (\<lambda>_.
     bind_io
       (if length password \<noteq> 0 then call_create_rsa_encrypted_pem env private password
        else return_io private) (\<lambda>private.
     bind_io (ensure_parent_dir filepath) (\<lambda>_.
     bind_io TempFile_new (\<lambda>file_object.
     bind_io (TempFile_write file_object public) (\<lambda>file_object.
     bind_io (TempFile_move file_object (filepath @ ''.pub'')) (\<lambda>_.
     bind_io TempFile_new (\<lambda>file_object.
     bind_io (TempFile_write file_object private) (\<lambda>file_object.
     bind_io (TempFile_move file_object filepath) (\<lambda>_.
     return_io filepath)))))))))))))"

text \<open>\<^verbatim>\<open>import_rsa_privatekey_from_file(filepath, password, scheme)\<close>; the default of
  \<open>scheme\<close> is \<^verbatim>\<open>'rsassa-pss-sha256'\<close>.\<close>

definition import_rsa_privatekey_from_file ::
    "env \<Rightarrow> string \<Rightarrow> string option \<Rightarrow> string \<Rightarrow> key_dict io" where
  "import_rsa_privatekey_from_file env filepath password sch =
     bind_io (lift_io (PATH_SCHEMA_check_match env filepath)) (\<lambda>_.
     bind_io (lift_io (RSA_SCHEME_SCHEMA_check_match env sch)) (\<lambda>_.
     bind_io
       (case password of
          None \<Rightarrow>
            (let relative_path = os_path_basename filepath
             in get_password (''Enter a password for the encrypted RSA file ('' @ Fore_RED @
                  relative_path @ Fore_RESET @ ''): '') False)
        | Some p \<Rightarrow> return_io p) (\<lambda>password.
     bind_io (lift_io (PASSWORD_SCHEMA_check_match env password)) (\<lambda>_.
     bind_io (read_file filepath) (\<lambda>contents.
     bind_io (decode_utf8 env contents) (\<lambda>pem.
     bind_io
       (if length password \<noteq> 0
        then call_import_rsakey_from_private_pem env pem sch (Some password)
        else call_import_rsakey_from_private_pem env pem sch None) (\<lambda>rsa_key.
     return_io rsa_key)))))))"

text \<open>\<^verbatim>\<open>generate_and_write_ed25519_keypair(filepath, password)\<close>.\<close>

definition generate_and_write_ed25519_keypair ::
    "env \<Rightarrow> string option \<Rightarrow> string option \<Rightarrow> string io" where
  "generate_and_write_ed25519_keypair env filepath password =
     (let ed25519_key = generate_ed25519_key env in
      bind_io
        (case filepath of
           None \<Rightarrow> bind_io os_getcwd (\<lambda>d. return_io (os_path_join d (keyid ed25519_key)))
         | Some p \<Rightarrow>
             if p = [] then bind_io os_getcwd (\<lambda>d. return_io (os_path_join d (keyid ed25519_key)))
             else return_io p) (\<lambda>filepath.
      bind_io (lift_io (PATH_SCHEMA_check_match env filepath)) (\<lambda>_.
      bind_io
        (case password of
           None \<Rightarrow>
             (let relative_path = os_path_basename filepath
              in get_password (''Enter a password for the Ed25519 key ('' @ Fore_RED @
                   relative_path @ Fore_RESET @ ''): '') False)
         | Some p \<Rightarrow> return_io p) (\<lambda>password.
      bind_io (lift_io (PASSWORD_SCHEMA_check_match env password)) (\<lambda>_.
      bind_io (ensure_parent_dir filepath) (\<lambda>_.
      bind_io TempFile_new (\<lambda>file_object.
      let ktype = keytype ed25519_key;
          kval = keyval ed25519_key;
          sch = scheme ed25519_key;
          metadata_format = format_keyval_to_metadata ktype sch kval False
      in
      bind_io (TempFile_write file_object (json_dumps env metadata_format)) (\<lambda>file_object.
      bind_io (TempFile_move file_object (filepath @ ''.pub'')) (\<lambda>_.
      bind_io TempFile_new (\<lambda>file_object.
      bind_io (call_encrypt_key env ed25519_key password) (\<lambda>encrypted_key.
      bind_io (TempFile_write file_object encrypted_key) (\<lambda>file_object.
      bind_io (TempFile_move file_object filepath) (\<lambda>_.
      return_io filepath)))))))))))))"

text \<open>\<^verbatim>\<open>import_ed25519_privatekey_from_file(filepath, password)\<close>.\<close>

definition import_ed25519_privatekey_from_file ::
    "env \<Rightarrow> string \<Rightarrow> string option \<Rightarrow> key_dict io" where
  "import_ed25519_privatekey_from_file env filepath password =
     bind_io (lift_io (PATH_SCHEMA_check_match env filepath)) (\<lambda>_.
     bind_io
       (case password of
          None \<Rightarrow>
            (let relative_path = os_path_basename filepath
             in get_password (''Enter a password for the encrypted Ed25519 key ('' @ Fore_RED @
                  relative_path @ Fore_RESET @ ''): '') False)
        | Some p \<Rightarrow> return_io p) (\<lambda>password.
     bind_io (lift_io (PASSWORD_SCHEMA_check_match env password)) (\<lambda>_.
     bind_io (read_file filepath) (\<lambda>encrypted_key.
     bind_io (decode_utf8 env encrypted_key) (\<lambda>decoded.
     bind_io (call_decrypt_key env decoded password) (\<lambda>key_object.
     if keytype key_object \<noteq> ''ed25519''
     then raise_io (FormatError (''Invalid key type loaded: '' @ repr env (keytype key_object)))
     else return_io (key_object\<lparr>keyid_hash_algorithms := Some (HASH_ALGORITHMS env)\<rparr>)))))))"

text \<open>\<^verbatim>\<open>generate_and_write_ecdsa_keypair(filepath, password)\<close>.\<close>

definition generate_and_write_ecdsa_keypair ::
    "env \<Rightarrow> string option \<Rightarrow> string option \<Rightarrow> string io" where
  "generate_and_write_ecdsa_keypair env filepath password =
     (let ecdsa_key = generate_ecdsa_key env in
      bind_io
        (case filepath of
           None \<Rightarrow> bind_io os_getcwd (\<lambda>d. return_io (os_path_join d (keyid ecdsa_key)))
         | Some p \<Rightarrow>
             if p = [] then bind_io os_getcwd (\<lambda>d. return_io (os_path_join d (keyid ecdsa_key)))
             else return_io p) (\<lambda>filepath.
      bind_io (lift_io (PATH_SCHEMA_check_match env filepath)) (\<lambda>_.
      bind_io
        (case password of
           None \<Rightarrow>
             (let relative_path = os_path_basename filepath
              in get_password (''Enter a password for the ECDSA key ('' @ Fore_RED @
                   relative_path @ Fore_RESET @ ''): '') False)
         | Some p \<Rightarrow> return_io p) (\<lambda>password.
      bind_io (lift_io (PASSWORD_SCHEMA_check_match env password)) (\<lambda>_.
      bind_io (ensure_parent_dir filepath) (\<lambda>_.
      bind_io TempFile_new (\<lambda>file_object.
      let ktype = keytype ecdsa_key;
          kval = keyval ecdsa_key;
          sch = scheme ecdsa_key;
          metadata_format = format_keyval_to_metadata ktype sch kval False
      in
      bind_io (TempFile_write file_object (json_dumps env metadata_format)) (\<lambda>file_object.
      bind_io (TempFile_move file_object (filepath @ ''.pub'')) (\<lambda>_.
      bind_io TempFile_new (\<lambda>file_object.
      bind_io (call_encrypt_key env ecdsa_key password) (\<lambda>encrypted_key.
      bind_io (TempFile_write file_object encrypted_key) (\<lambda>file_object.
      bind_io (TempFile_move file_object filepath) (\<lambda>_.
      return_io filepath)))))))))))))"

text \<open>\<^verbatim>\<open>import_ecdsa_privatekey_from_file(filepath, password)\<close>.\<close>

definition import_ecdsa_privatekey_from_file ::
    "env \<Rightarrow> string \<Rightarrow> string option \<Rightarrow> key_dict io" where
  "import_ecdsa_privatekey_from_file env filepath password =
     bind_io (lift_io (PATH_SCHEMA_check_match env filepath)) (\<lambda>_.
     bind_io
       (case password of
          None \<Rightarrow>
            (let relative_path = os_path_basename filepath
             in get_password (''Enter a password for the encrypted ECDSA key ('' @ Fore_RED @
                  relative_path @ Fore_RESET @ ''): '') False)
        | Some p \<Rightarrow> return_io p) (\<lambda>password.
     bind_io (lift_io (PASSWORD_SCHEMA_check_match env password)) (\<lambda>_.
     bind_io (read_file filepath) (\<lambda>encrypted_key.
     bind_io (decode_utf8 env encrypted_key) (\<lambda>decoded.
     bind_io (call_decrypt_key env decoded password) (\<lambda>key_object.
     if keytype key_object \<noteq> ''ecdsa-sha2-nistp256''
     then raise_io (FormatError (''Invalid key type loaded: '' @ repr env (keytype key_object)))
     else return_io (key_object\<lparr>keyid_hash_algorithms := Some (HASH_ALGORITHMS env)\<rparr>)))))))"

section \<open>Notions used to state the properties\<close>

text \<open>The path a creation call uses: the one given, or \<^verbatim>\<open>os.path.join(os.getcwd(), keyid)\<close>
  when none is given.\<close>

definition used_filepath :: "string option \<Rightarrow> string \<Rightarrow> world \<Rightarrow> string" where
  "used_filepath filepath kid w =
     (case filepath of
        None \<Rightarrow> os_path_join (cwd w) kid
      | Some p \<Rightarrow> if p = [] then os_path_join (cwd w) kid else p)"

text \<open>The password a call works with: the one given, or the next entry typed at the
  terminal when none is given.\<close>

definition resolved_password :: "string option \<Rightarrow> world \<Rightarrow> string option" where
  "resolved_password password w =
     (case password of None \<Rightarrow> tty_in w (tty_pos w) | Some p \<Rightarrow> Some p)"

text \<open>Entry \<open>i\<close> of what is typed from the current position on, and a confirmation
  round \<open>j\<close> (entries \<open>2j\<close> and \<open>2j+1\<close>) whose two entries differ.\<close>

definition entry :: "world \<Rightarrow> nat \<Rightarrow> string option" where
  "entry w i = tty_in w (tty_pos w + i)"

definition mismatch_round :: "world \<Rightarrow> nat \<Rightarrow> bool" where
  "mismatch_round w j =
     (case (entry w (2 * j), entry w (2 * j + 1)) of
        (Some a, Some b) \<Rightarrow> a \<noteq> b
      | _ \<Rightarrow> False)"

text \<open>The world after a round whose two entries differ, and what a call with
  confirmation that returned \<open>y\<close> must have met: some rounds that differ, then a round that
  ends the loop, by two equal entries or by the end of input.\<close>

definition next_round :: "string \<Rightarrow> world \<Rightarrow> world" where
  "next_round prompt w =
     print_line ''Mismatch; try again.'' (snd (getpass ''Confirm: '' (snd (getpass prompt w))))"

definition round_outcome :: "world \<Rightarrow> (error + string) \<times> world \<Rightarrow> bool" where
  "round_outcome w y =
     (\<exists>k. (\<forall>j<k. mismatch_round w j) \<and> \<not> mismatch_round w k \<and>
        (case fst y of
           Inr p \<Rightarrow> entry w (2 * k) = Some p \<and> entry w (2 * k + 1) = Some p
         | Inl e \<Rightarrow> entry w (2 * k) = None \<or> entry w (2 * k + 1) = None))"


text \<open>\<open>run m w Q\<close>: from \<open>w\<close> the computation \<open>m\<close> returns, and its result and final
  world satisfy \<open>Q\<close>.\<close>

definition run :: "'a io \<Rightarrow> world \<Rightarrow> ((error + 'a) \<Rightarrow> world \<Rightarrow> bool) \<Rightarrow> bool" where
  "run m w Q = (case m w of None \<Rightarrow> False | Some (r, w') \<Rightarrow> Q r w')"

section \<open>A concrete provider and concrete worlds\<close>

text \<open>A toy provider on which the functions can be evaluated: fixed keys, a cipher that
  tags the payload with the password, a serialiser without escaping.\<close>

definition demo_rsa_key :: key_dict where
  "demo_rsa_key =
     \<lparr>keytype = ''rsa'', scheme = ''rsassa-pss-sha256'', keyid = ''1a2b'',
      keyval = \<lparr>kv_public = ''PUBLIC-PEM'', kv_private = ''PRIVATE-PEM''\<rparr>,
      keyid_hash_algorithms = None\<rparr>"

definition demo_ed25519_key :: key_dict where
  "demo_ed25519_key =
     \<lparr>keytype = ''ed25519'', scheme = ''ed25519'', keyid = ''3c4d'',
      keyval = \<lparr>kv_public = ''edpub'', kv_private = ''edpriv''\<rparr>,
      keyid_hash_algorithms = None\<rparr>"

definition demo_ecdsa_key :: key_dict where
  "demo_ecdsa_key =
     \<lparr>keytype = ''ecdsa-sha2-nistp256'', scheme = ''ecdsa-sha2-nistp256'', keyid = ''5e6f'',
      keyval = \<lparr>kv_public = ''ecpub'', kv_private = ''ecpriv''\<rparr>,
      keyid_hash_algorithms = None\<rparr>"

fun demo_dumps :: "json \<Rightarrow> string" where
  "demo_dumps (JString s) = s"
| "demo_dumps (JObject kvs) =
     ''{'' @ concat (map (\<lambda>(k, v). k @ '':'' @ demo_dumps v @ '';'') kvs) @ ''}''"

definition demo_env :: env where
  "demo_env =
     \<lparr>RSAKEYBITS_SCHEMA_check_match =
        (\<lambda>bits. if 2048 \<le> bits then Inr () else Inl (FormatError ''bits'')),
      PATH_SCHEMA_check_match = (\<lambda>_. Inr ()),
      PASSWORD_SCHEMA_check_match = (\<lambda>_. Inr ()),
      RSA_SCHEME_SCHEMA_check_match =
        (\<lambda>s. if s = ''rsassa-pss-sha256'' then Inr () else Inl (FormatError ''scheme'')),
      generate_rsa_key = (\<lambda>_. demo_rsa_key),
      generate_ed25519_key = demo_ed25519_key,
      generate_ecdsa_key = demo_ecdsa_key,
      create_rsa_encrypted_pem = (\<lambda>private password. Inr (''ENC['' @ password @ '']'' @ private)),
      encrypt_key = (\<lambda>k password. Inr (''ENC['' @ password @ '']'' @ keytype k)),
      decrypt_key =
        (\<lambda>c password.
           if c = ''ENC['' @ password @ '']ed25519'' then Inr demo_ed25519_key
           else if c = ''ENC['' @ password @ '']ecdsa-sha2-nistp256'' then Inr demo_ecdsa_key
           else Inl (CryptoError ''Decryption failed.'')),
      import_rsakey_from_private_pem =
        (\<lambda>pem sch password.
           if pem = (case password of None \<Rightarrow> ''PRIVATE-PEM''
                     | Some p \<Rightarrow> ''ENC['' @ p @ '']PRIVATE-PEM'')
           then Inr (demo_rsa_key\<lparr>scheme := sch\<rparr>)
           else Inl (CryptoError ''RSA private key not recognised.'')),
      HASH_ALGORITHMS = [''sha256'', ''sha512''],
      json_dumps = demo_dumps,
      repr = (\<lambda>s. CHR 0x27 # s @ [CHR 0x27]),
      valid_utf8 = (\<lambda>_. True)\<rparr>"

text \<open>What the user types, from a list of entries; after the last one the input ends.\<close>

definition typing :: "string list \<Rightarrow> nat \<Rightarrow> string option" where
  "typing xs n = (if n < length xs then Some (xs ! n) else None)"

definition demo_world :: world where
  "demo_world =
     \<lparr>files = Map.empty, dirs = {}, cwd = ''/home/u'', tty_in = typing [], tty_pos = 0,
      stderr = [], stdout = [], io_faults = [], calls = []\<rparr>"
section \<open>Reasoning about computations\<close>

lemma run_returns: "run m w Q \<Longrightarrow> \<exists>r w'. m w = Some (r, w')"
  by (auto simp: run_def split: option.splits)

lemma run_E: "run m w Q \<Longrightarrow> m w = Some (r, w') \<Longrightarrow> Q r w'"
  by (simp add: run_def)

lemma get_password_no_confirm: "get_password prompt False w = Some (getpass prompt w)"
  by (subst get_password.simps) (simp split: prod.splits sum.splits)

lemma run_bind [simp]:
  "run (bind_io m f) w Q =
     run m w (\<lambda>r w1. (\<forall>e. r = Inl e \<longrightarrow> Q (Inl e) w1) \<and> (\<forall>x. r = Inr x \<longrightarrow> run (f x) w1 Q))"
  by (auto simp add: run_def bind_io_def split: option.splits sum.splits prod.splits)

lemma run_return [simp]: "run (return_io x) w Q = Q (Inr x) w"
  by (simp add: run_def return_io_def)

lemma run_lift [simp]: "run (lift_io r) w Q = Q r w"
  by (simp add: run_def lift_io_def)

lemma run_raise [simp]: "run (raise_io e) w Q = Q (Inl e) w"
  by (simp add: run_def raise_io_def)

lemma run_getcwd [simp]: "run os_getcwd w Q = Q (Inr (cwd w)) w"
  by (simp add: run_def os_getcwd_def)

lemma run_if [simp]:
  "run (if c then m else n) w Q = ((c \<longrightarrow> run m w Q) \<and> (\<not> c \<longrightarrow> run n w Q))"
  by simp

lemma run_case_option [simp]:
  "run (case x of None \<Rightarrow> a | Some p \<Rightarrow> b p) w Q =
     ((x = None \<longrightarrow> run a w Q) \<and> (\<forall>p. x = Some p \<longrightarrow> run (b p) w Q))"
  by (cases x) simp_all

lemma run_get_password [simp]:
  "run (get_password prompt False) w Q = Q (fst (getpass prompt w)) (snd (getpass prompt w))"
  by (simp add: run_def get_password_no_confirm split: prod.splits)

lemma run_decode_utf8 [simp]:
  "run (decode_utf8 env bs) w Q =
     ((valid_utf8 env bs \<longrightarrow> Q (Inr bs) w) \<and> (\<not> valid_utf8 env bs \<longrightarrow> Q (Inl UnicodeDecodeError) w))"
  by (simp add: decode_utf8_def)

lemma run_read_file [simp]:
  "run (read_file p) w Q =
     ((fault_due w \<longrightarrow> Q (Inl IOError) (fault_done w)) \<and>
      (\<not> fault_due w \<longrightarrow>
         (files w p = None \<longrightarrow> Q (Inl IOError) (fault_done w)) \<and>
         (\<forall>c. files w p = Some c \<longrightarrow> Q (Inr c) (fault_done w))))"
  by (simp add: run_def read_file_def split: option.splits)

lemma run_ensure_parent_dir [simp]:
  "run (ensure_parent_dir p) w Q =
     ((fault_due w \<longrightarrow> Q (Inl IOError) (fault_done w)) \<and>
      (\<not> fault_due w \<longrightarrow> Q (Inr ()) (os_makedirs (os_path_dirname p) (fault_done w))))"
  by (simp add: run_def ensure_parent_dir_def)

lemma run_TempFile_new [simp]:
  "run TempFile_new w Q =
     ((fault_due w \<longrightarrow> Q (Inl IOError) (fault_done w)) \<and>
      (\<not> fault_due w \<longrightarrow> Q (Inr []) (fault_done w)))"
  by (simp add: run_def TempFile_new_def)

lemma run_TempFile_write [simp]:
  "run (TempFile_write t d) w Q =
     ((fault_due w \<longrightarrow> Q (Inl IOError) (fault_done w)) \<and>
      (\<not> fault_due w \<longrightarrow> Q (Inr (t @ d)) (fault_done w)))"
  by (simp add: run_def TempFile_write_def)

lemma run_TempFile_move [simp]:
  "run (TempFile_move t d) w Q =
     ((fault_due w \<longrightarrow> Q (Inl IOError) (fault_done w)) \<and>
      (\<not> fault_due w \<longrightarrow> Q (Inr ()) ((fault_done w)\<lparr>files := (files w)(d \<mapsto> t)\<rparr>)))"
  by (simp add: run_def TempFile_move_def)

lemma run_call_create [simp]:
  "run (call_create_rsa_encrypted_pem env a b) w Q =
     Q (create_rsa_encrypted_pem env a b)
       (w\<lparr>calls := calls w @ [Call_create_rsa_encrypted_pem a b]\<rparr>)"
  by (simp add: run_def call_create_rsa_encrypted_pem_def)

lemma run_call_encrypt [simp]:
  "run (call_encrypt_key env k b) w Q =
     Q (encrypt_key env k b) (w\<lparr>calls := calls w @ [Call_encrypt_key k b]\<rparr>)"
  by (simp add: run_def call_encrypt_key_def)

lemma run_call_decrypt [simp]:
  "run (call_decrypt_key env c b) w Q =
     Q (decrypt_key env c b) (w\<lparr>calls := calls w @ [Call_decrypt_key c b]\<rparr>)"
  by (simp add: run_def call_decrypt_key_def)

lemma run_call_import [simp]:
  "run (call_import_rsakey_from_private_pem env c s b) w Q =
     Q (import_rsakey_from_private_pem env c s b)
       (w\<lparr>calls := calls w @ [Call_import_rsakey_from_private_pem c s b]\<rparr>)"
  by (simp add: run_def call_import_rsakey_from_private_pem_def)

lemma fault_done_sel [simp]:
  "files (fault_done w) = files w" "dirs (fault_done w) = dirs w" "cwd (fault_done w) = cwd w"
  "tty_in (fault_done w) = tty_in w" "tty_pos (fault_done w) = tty_pos w"
  "stderr (fault_done w) = stderr w" "stdout (fault_done w) = stdout w"
  "calls (fault_done w) = calls w"
  by (simp_all add: fault_done_def)

lemma os_makedirs_sel [simp]:
  "files (os_makedirs d w) = files w" "cwd (os_makedirs d w) = cwd w"
  "tty_in (os_makedirs d w) = tty_in w" "tty_pos (os_makedirs d w) = tty_pos w"
  "stderr (os_makedirs d w) = stderr w" "stdout (os_makedirs d w) = stdout w"
  "calls (os_makedirs d w) = calls w" "io_faults (os_makedirs d w) = io_faults w"
  by (simp_all add: os_makedirs_def)

lemma getpass_sel [simp]:
  "files (snd (getpass p w)) = files w" "dirs (snd (getpass p w)) = dirs w"
  "cwd (snd (getpass p w)) = cwd w" "calls (snd (getpass p w)) = calls w"
  "io_faults (snd (getpass p w)) = io_faults w" "stdout (snd (getpass p w)) = stdout w"
  "stderr (snd (getpass p w)) = stderr w @ [p]" "tty_in (snd (getpass p w)) = tty_in w"
  by (simp_all add: getpass_def Let_def split: option.splits)

lemma getpass_fault_due [simp]: "fault_due (snd (getpass p w)) = fault_due w"
  by (simp add: fault_due_def)

lemma getpass_Inr [simp]: "(fst (getpass p w) = Inr x) = (tty_in w (tty_pos w) = Some x)"
  by (auto simp: getpass_def Let_def split: option.splits)

lemma getpass_Inl [simp]:
  "(fst (getpass p w) = Inl e) = (tty_in w (tty_pos w) = None \<and> e = EOFError)"
  by (auto simp: getpass_def Let_def split: option.splits)

lemma getpass_pos [simp]:
  "tty_pos (snd (getpass p w)) =
     (if tty_in w (tty_pos w) = None then tty_pos w else tty_pos w + 1)"
  by (auto simp: getpass_def Let_def split: option.splits)

text \<open>The definitions that evaluate a call on the concrete provider and worlds.\<close>

lemmas eval_defs =
  bind_io_def return_io_def lift_io_def raise_io_def os_getcwd_def
  get_password_no_confirm getpass_def Let_def fault_due_def fault_done_def os_makedirs_def
  ensure_parent_dir_def TempFile_new_def TempFile_write_def TempFile_move_def read_file_def
  decode_utf8_def call_create_rsa_encrypted_pem_def call_encrypt_key_def call_decrypt_key_def
  call_import_rsakey_from_private_pem_def format_keyval_to_metadata_def
  os_path_join_def os_path_basename_def os_path_dirname_def starts_with_slash_def
  ends_with_slash_def Fore_RED_def Fore_RESET_def used_filepath_def resolved_password_def
  demo_env_def demo_world_def demo_rsa_key_def demo_ed25519_key_def demo_ecdsa_key_def typing_def


section \<open>What each function does, for every fault schedule\<close>

lemma generate_rsa_spec:
  "run (generate_and_write_rsa_keypair env fp bits password) w (\<lambda>r w'.
     (\<forall>p pub prv. p = used_filepath fp (keyid (generate_rsa_key env bits)) w \<longrightarrow>
        pub = kv_public (keyval (generate_rsa_key env bits)) \<longrightarrow>
        prv = kv_private (keyval (generate_rsa_key env bits)) \<longrightarrow>
        (case r of
           Inl e \<Rightarrow> files w' = files w \<or> files w' = (files w)(p @ ''.pub'' \<mapsto> pub)
         | Inr x \<Rightarrow> x = p \<and>
             (\<exists>pw. resolved_password password w = Some pw \<and>
                (if pw = []
                 then files w' = (files w)(p @ ''.pub'' \<mapsto> pub, p \<mapsto> prv) \<and> calls w' = calls w
                 else (\<exists>c. create_rsa_encrypted_pem env prv pw = Inr c \<and>
                         files w' = (files w)(p @ ''.pub'' \<mapsto> pub, p \<mapsto> c) \<and>
                         calls w' = calls w @ [Call_create_rsa_encrypted_pem prv pw])))) \<and>
        (\<forall>pw. password = Some pw \<longrightarrow>
           tty_pos w' = tty_pos w \<and> stderr w' = stderr w \<and> stdout w' = stdout w \<and>
           (calls w' = calls w \<or>
            pw \<noteq> [] \<and> calls w' = calls w @ [Call_create_rsa_encrypted_pem prv pw])) \<and>
        (password = None \<longrightarrow>
           stdout w' = stdout w \<and> tty_pos w' \<le> tty_pos w + 1 \<and>
           (stderr w' = stderr w \<or>
            stderr w' = stderr w @ [''Enter a password for the encrypted RSA key ('' @ Fore_RED @
               os_path_basename p @ Fore_RESET @ ''): '']) \<and>
           (RSAKEYBITS_SCHEMA_check_match env bits = Inr () \<longrightarrow>
            PATH_SCHEMA_check_match env p = Inr () \<longrightarrow>
              stderr w' = stderr w @ [''Enter a password for the encrypted RSA key ('' @ Fore_RED @
                 os_path_basename p @ Fore_RESET @ ''): ''] \<and>
              (\<forall>x. tty_in w (tty_pos w) = Some x \<longrightarrow> tty_pos w' = tty_pos w + 1 \<and>
                 (calls w' = calls w \<or>
                  x \<noteq> [] \<and> calls w' = calls w @ [Call_create_rsa_encrypted_pem prv x]))))))"
  unfolding generate_and_write_rsa_keypair_def
  by (simp add: Let_def used_filepath_def resolved_password_def) auto

lemma generate_ed25519_spec:
  "run (generate_and_write_ed25519_keypair env fp password) w (\<lambda>r w'.
     (\<forall>k p pub. k = generate_ed25519_key env \<longrightarrow> p = used_filepath fp (keyid k) w \<longrightarrow>
        pub = json_dumps env (format_keyval_to_metadata (keytype k) (scheme k) (keyval k) False) \<longrightarrow>
        (case r of
           Inl e \<Rightarrow> files w' = files w \<or> files w' = (files w)(p @ ''.pub'' \<mapsto> pub)
         | Inr x \<Rightarrow> x = p \<and>
             (\<exists>pw c. resolved_password password w = Some pw \<and> encrypt_key env k pw = Inr c \<and>
                files w' = (files w)(p @ ''.pub'' \<mapsto> pub, p \<mapsto> c) \<and>
                calls w' = calls w @ [Call_encrypt_key k pw])) \<and>
        (\<forall>pw e. calls w' = calls w @ [Call_encrypt_key k pw] \<longrightarrow> encrypt_key env k pw = Inl e \<longrightarrow>
           r = Inl e \<and> files w' = (files w)(p @ ''.pub'' \<mapsto> pub)) \<and>
        (\<forall>pw. password = Some pw \<longrightarrow>
           tty_pos w' = tty_pos w \<and> stderr w' = stderr w \<and> stdout w' = stdout w \<and>
           (calls w' = calls w \<or> calls w' = calls w @ [Call_encrypt_key k pw])) \<and>
        (password = None \<longrightarrow>
           stdout w' = stdout w \<and> tty_pos w' \<le> tty_pos w + 1 \<and>
           (stderr w' = stderr w \<or>
            stderr w' = stderr w @ [''Enter a password for the Ed25519 key ('' @ Fore_RED @
               os_path_basename p @ Fore_RESET @ ''): '']) \<and>
           (PATH_SCHEMA_check_match env p = Inr () \<longrightarrow>
              stderr w' = stderr w @ [''Enter a password for the Ed25519 key ('' @ Fore_RED @
                 os_path_basename p @ Fore_RESET @ ''): ''] \<and>
              (\<forall>x. tty_in w (tty_pos w) = Some x \<longrightarrow> tty_pos w' = tty_pos w + 1 \<and>
                 (calls w' = calls w \<or> calls w' = calls w @ [Call_encrypt_key k x]))))))"
  unfolding generate_and_write_ed25519_keypair_def
  by (simp add: Let_def used_filepath_def resolved_password_def)

lemma generate_ecdsa_spec:
  "run (generate_and_write_ecdsa_keypair env fp password) w (\<lambda>r w'.
     (\<forall>k p pub. k = generate_ecdsa_key env \<longrightarrow> p = used_filepath fp (keyid k) w \<longrightarrow>
        pub = json_dumps env (format_keyval_to_metadata (keytype k) (scheme k) (keyval k) False) \<longrightarrow>
        (case r of
           Inl e \<Rightarrow> files w' = files w \<or> files w' = (files w)(p @ ''.pub'' \<mapsto> pub)
         | Inr x \<Rightarrow> x = p \<and>
             (\<exists>pw c. resolved_password password w = Some pw \<and> encrypt_key env k pw = Inr c \<and>
                files w' = (files w)(p @ ''.pub'' \<mapsto> pub, p \<mapsto> c) \<and>
                calls w' = calls w @ [Call_encrypt_key k pw])) \<and>
        (\<forall>pw e. calls w' = calls w @ [Call_encrypt_key k pw] \<longrightarrow> encrypt_key env k pw = Inl e \<longrightarrow>
           r = Inl e \<and> files w' = (files w)(p @ ''.pub'' \<mapsto> pub)) \<and>
        (\<forall>pw. password = Some pw \<longrightarrow>
           tty_pos w' = tty_pos w \<and> stderr w' = stderr w \<and> stdout w' = stdout w \<and>
           (calls w' = calls w \<or> calls w' = calls w @ [Call_encrypt_key k pw])) \<and>
        (password = None \<longrightarrow>
           stdout w' = stdout w \<and> tty_pos w' \<le> tty_pos w + 1 \<and>
           (stderr w' = stderr w \<or>
            stderr w' = stderr w @ [''Enter a password for the ECDSA key ('' @ Fore_RED @
               os_path_basename p @ Fore_RESET @ ''): '']) \<and>
           (PATH_SCHEMA_check_match env p = Inr () \<longrightarrow>
              stderr w' = stderr w @ [''Enter a password for the ECDSA key ('' @ Fore_RED @
                 os_path_basename p @ Fore_RESET @ ''): ''] \<and>
              (\<forall>x. tty_in w (tty_pos w) = Some x \<longrightarrow> tty_pos w' = tty_pos w + 1 \<and>
                 (calls w' = calls w \<or> calls w' = calls w @ [Call_encrypt_key k x]))))))"
  unfolding generate_and_write_ecdsa_keypair_def
  by (simp add: Let_def used_filepath_def resolved_password_def)

lemma import_rsa_spec:
  "run (import_rsa_privatekey_from_file env fp password sch) w (\<lambda>r w'.
     files w' = files w \<and>
     (calls w' = calls w \<or>
      (\<exists>pw c. resolved_password password w = Some pw \<and> files w fp = Some c \<and>
         calls w' = calls w @
           [Call_import_rsakey_from_private_pem c sch (if pw = [] then None else Some pw)])) \<and>
     (\<forall>c po. calls w' = calls w @ [Call_import_rsakey_from_private_pem c sch po] \<longrightarrow>
        r = import_rsakey_from_private_pem env c sch po) \<and>
     (\<forall>pw c. resolved_password password w = Some pw \<longrightarrow>
        PATH_SCHEMA_check_match env fp = Inr () \<longrightarrow>
        RSA_SCHEME_SCHEMA_check_match env sch = Inr () \<longrightarrow>
        PASSWORD_SCHEMA_check_match env pw = Inr () \<longrightarrow>
        \<not> fault_due w \<longrightarrow> files w fp = Some c \<longrightarrow> valid_utf8 env c \<longrightarrow>
          calls w' = calls w @
            [Call_import_rsakey_from_private_pem c sch (if pw = [] then None else Some pw)]) \<and>
     (\<forall>pw. password = Some pw \<longrightarrow>
        tty_pos w' = tty_pos w \<and> stderr w' = stderr w \<and> stdout w' = stdout w \<and>
        (calls w' = calls w \<or>
         (\<exists>c. calls w' = calls w @
            [Call_import_rsakey_from_private_pem c sch (if pw = [] then None else Some pw)]))) \<and>
     (password = None \<longrightarrow>
        stdout w' = stdout w \<and> tty_pos w' \<le> tty_pos w + 1 \<and>
        (PATH_SCHEMA_check_match env fp = Inr () \<longrightarrow>
         RSA_SCHEME_SCHEMA_check_match env sch = Inr () \<longrightarrow>
           stderr w' = stderr w @ [''Enter a password for the encrypted RSA file ('' @ Fore_RED @
              os_path_basename fp @ Fore_RESET @ ''): ''])))"
  unfolding import_rsa_privatekey_from_file_def
  by (simp add: Let_def resolved_password_def)

lemma import_ed25519_spec:
  "run (import_ed25519_privatekey_from_file env fp password) w (\<lambda>r w'.
     files w' = files w \<and>
     (calls w' = calls w \<or>
      (\<exists>pw c. resolved_password password w = Some pw \<and> files w fp = Some c \<and>
         calls w' = calls w @ [Call_decrypt_key c pw])) \<and>
     (\<forall>c pw. calls w' = calls w @ [Call_decrypt_key c pw] \<longrightarrow>
        (case decrypt_key env c pw of
           Inl e \<Rightarrow> r = Inl e
         | Inr k \<Rightarrow>
             r = (if keytype k = ''ed25519''
                  then Inr (k\<lparr>keyid_hash_algorithms := Some (HASH_ALGORITHMS env)\<rparr>)
                  else Inl (FormatError (''Invalid key type loaded: '' @ repr env (keytype k)))))) \<and>
     (\<forall>pw c. resolved_password password w = Some pw \<longrightarrow>
        PATH_SCHEMA_check_match env fp = Inr () \<longrightarrow>
        PASSWORD_SCHEMA_check_match env pw = Inr () \<longrightarrow>
        \<not> fault_due w \<longrightarrow> files w fp = Some c \<longrightarrow> valid_utf8 env c \<longrightarrow>
          calls w' = calls w @ [Call_decrypt_key c pw]) \<and>
     (\<forall>pw. password = Some pw \<longrightarrow>
        tty_pos w' = tty_pos w \<and> stderr w' = stderr w \<and> stdout w' = stdout w \<and>
        (calls w' = calls w \<or> (\<exists>c. calls w' = calls w @ [Call_decrypt_key c pw]))) \<and>
     (password = None \<longrightarrow>
        stdout w' = stdout w \<and> tty_pos w' \<le> tty_pos w + 1 \<and>
        (PATH_SCHEMA_check_match env fp = Inr () \<longrightarrow>
           stderr w' = stderr w @ [''Enter a password for the encrypted Ed25519 key ('' @ Fore_RED @
              os_path_basename fp @ Fore_RESET @ ''): ''])))"
  unfolding import_ed25519_privatekey_from_file_def
  by (simp add: Let_def resolved_password_def)

lemma import_ecdsa_spec:
  "run (import_ecdsa_privatekey_from_file env fp password) w (\<lambda>r w'.
     files w' = files w \<and>
     (calls w' = calls w \<or>
      (\<exists>pw c. resolved_password password w = Some pw \<and> files w fp = Some c \<and>
         calls w' = calls w @ [Call_decrypt_key c pw])) \<and>
     (\<forall>c pw. calls w' = calls w @ [Call_decrypt_key c pw] \<longrightarrow>
        (case decrypt_key env c pw of
           Inl e \<Rightarrow> r = Inl e
         | Inr k \<Rightarrow>
             r = (if keytype k = ''ecdsa-sha2-nistp256''
                  then Inr (k\<lparr>keyid_hash_algorithms := Some (HASH_ALGORITHMS env)\<rparr>)
                  else Inl (FormatError (''Invalid key type loaded: '' @ repr env (keytype k)))))) \<and>
     (\<forall>pw c. resolved_password password w = Some pw \<longrightarrow>
        PATH_SCHEMA_check_match env fp = Inr () \<longrightarrow>
        PASSWORD_SCHEMA_check_match env pw = Inr () \<longrightarrow>
        \<not> fault_due w \<longrightarrow> files w fp = Some c \<longrightarrow> valid_utf8 env c \<longrightarrow>
          calls w' = calls w @ [Call_decrypt_key c pw]) \<and>
     (\<forall>pw. password = Some pw \<longrightarrow>
        tty_pos w' = tty_pos w \<and> stderr w' = stderr w \<and> stdout w' = stdout w \<and>
        (calls w' = calls w \<or> (\<exists>c. calls w' = calls w @ [Call_decrypt_key c pw]))) \<and>
     (password = None \<longrightarrow>
        stdout w' = stdout w \<and> tty_pos w' \<le> tty_pos w + 1 \<and>
        (PATH_SCHEMA_check_match env fp = Inr () \<longrightarrow>
           stderr w' = stderr w @ [''Enter a password for the encrypted ECDSA key ('' @ Fore_RED @
              os_path_basename fp @ Fore_RESET @ ''): ''])))"
  unfolding import_ecdsa_privatekey_from_file_def
  by (simp add: Let_def resolved_password_def)

section \<open>What each function does with the password\<close>

lemma io_faults_fault_done:
  "io_faults (fault_done w) = (case io_faults w of [] \<Rightarrow> [] | _ # bs \<Rightarrow> bs)"
  by (simp add: fault_done_def)

lemma generate_rsa_password_spec:
  "run (generate_and_write_rsa_keypair env fp bits password) w (\<lambda>r w'.
     RSAKEYBITS_SCHEMA_check_match env bits = Inr () \<longrightarrow>
     PATH_SCHEMA_check_match env (used_filepath fp (keyid (generate_rsa_key env bits)) w) = Inr () \<longrightarrow>
       (\<forall>pw e. resolved_password password w = Some pw \<longrightarrow>
          PASSWORD_SCHEMA_check_match env pw = Inl e \<longrightarrow>
            r = Inl e \<and> calls w' = calls w \<and> files w' = files w) \<and>
       (\<forall>pw. resolved_password password w = Some pw \<longrightarrow>
          PASSWORD_SCHEMA_check_match env pw = Inr () \<longrightarrow>
            calls w' =
              (if pw = [] then calls w
               else calls w @
                 [Call_create_rsa_encrypted_pem (kv_private (keyval (generate_rsa_key env bits))) pw])) \<and>
       (password = None \<longrightarrow>
           tty_pos w' = (if tty_in w (tty_pos w) = None then tty_pos w else tty_pos w + 1) \<and>
           (tty_in w (tty_pos w) = None \<longrightarrow> r = Inl EOFError)))"
  unfolding generate_and_write_rsa_keypair_def
  by (simp add: Let_def used_filepath_def resolved_password_def)

lemma generate_rsa_no_fault:
  assumes "io_faults w = []"
  shows "run (generate_and_write_rsa_keypair env fp bits password) w (\<lambda>r w'.
     \<forall>pw. resolved_password password w = Some pw \<longrightarrow>
       RSAKEYBITS_SCHEMA_check_match env bits = Inr () \<longrightarrow>
       PATH_SCHEMA_check_match env (used_filepath fp (keyid (generate_rsa_key env bits)) w) = Inr () \<longrightarrow>
       PASSWORD_SCHEMA_check_match env pw = Inr () \<longrightarrow>
         (pw = [] \<longrightarrow>
            r = Inr (used_filepath fp (keyid (generate_rsa_key env bits)) w) \<and>
            files w' (used_filepath fp (keyid (generate_rsa_key env bits)) w) =
              Some (kv_private (keyval (generate_rsa_key env bits)))) \<and>
         (\<forall>c. pw \<noteq> [] \<longrightarrow>
            create_rsa_encrypted_pem env (kv_private (keyval (generate_rsa_key env bits))) pw = Inr c \<longrightarrow>
              r = Inr (used_filepath fp (keyid (generate_rsa_key env bits)) w) \<and>
              files w' (used_filepath fp (keyid (generate_rsa_key env bits)) w) = Some c))"
  unfolding generate_and_write_rsa_keypair_def
  by (simp add: Let_def used_filepath_def resolved_password_def fault_due_def
        io_faults_fault_done assms) auto

lemma generate_ed25519_password_spec:
  "run (generate_and_write_ed25519_keypair env fp password) w (\<lambda>r w'.
     PATH_SCHEMA_check_match env (used_filepath fp (keyid (generate_ed25519_key env)) w) = Inr () \<longrightarrow>
       (\<forall>pw e. resolved_password password w = Some pw \<longrightarrow>
          PASSWORD_SCHEMA_check_match env pw = Inl e \<longrightarrow>
            r = Inl e \<and> calls w' = calls w \<and> files w' = files w) \<and>
       (password = None \<longrightarrow>
           tty_pos w' = (if tty_in w (tty_pos w) = None then tty_pos w else tty_pos w + 1) \<and>
           (tty_in w (tty_pos w) = None \<longrightarrow> r = Inl EOFError)))"
  unfolding generate_and_write_ed25519_keypair_def
  by (simp add: Let_def used_filepath_def resolved_password_def)

lemma generate_ed25519_no_fault:
  assumes "io_faults w = []"
  shows "run (generate_and_write_ed25519_keypair env fp password) w (\<lambda>r w'.
     \<forall>pw. resolved_password password w = Some pw \<longrightarrow>
       PATH_SCHEMA_check_match env (used_filepath fp (keyid (generate_ed25519_key env)) w) = Inr () \<longrightarrow>
       PASSWORD_SCHEMA_check_match env pw = Inr () \<longrightarrow>
         calls w' = calls w @ [Call_encrypt_key (generate_ed25519_key env) pw] \<and>
         (\<forall>e. encrypt_key env (generate_ed25519_key env) pw = Inl e \<longrightarrow> r = Inl e) \<and>
         (\<forall>c. encrypt_key env (generate_ed25519_key env) pw = Inr c \<longrightarrow>
            r = Inr (used_filepath fp (keyid (generate_ed25519_key env)) w) \<and>
            files w' (used_filepath fp (keyid (generate_ed25519_key env)) w) = Some c))"
  unfolding generate_and_write_ed25519_keypair_def
  by (simp add: Let_def used_filepath_def resolved_password_def fault_due_def
        io_faults_fault_done assms)

lemma generate_ecdsa_password_spec:
  "run (generate_and_write_ecdsa_keypair env fp password) w (\<lambda>r w'.
     PATH_SCHEMA_check_match env (used_filepath fp (keyid (generate_ecdsa_key env)) w) = Inr () \<longrightarrow>
       (\<forall>pw e. resolved_password password w = Some pw \<longrightarrow>
          PASSWORD_SCHEMA_check_match env pw = Inl e \<longrightarrow>
            r = Inl e \<and> calls w' = calls w \<and> files w' = files w) \<and>
       (password = None \<longrightarrow>
           tty_pos w' = (if tty_in w (tty_pos w) = None then tty_pos w else tty_pos w + 1) \<and>
           (tty_in w (tty_pos w) = None \<longrightarrow> r = Inl EOFError)))"
  unfolding generate_and_write_ecdsa_keypair_def
  by (simp add: Let_def used_filepath_def resolved_password_def)

lemma generate_ecdsa_no_fault:
  assumes "io_faults w = []"
  shows "run (generate_and_write_ecdsa_keypair env fp password) w (\<lambda>r w'.
     \<forall>pw. resolved_password password w = Some pw \<longrightarrow>
       PATH_SCHEMA_check_match env (used_filepath fp (keyid (generate_ecdsa_key env)) w) = Inr () \<longrightarrow>
       PASSWORD_SCHEMA_check_match env pw = Inr () \<longrightarrow>
         calls w' = calls w @ [Call_encrypt_key (generate_ecdsa_key env) pw] \<and>
         (\<forall>e. encrypt_key env (generate_ecdsa_key env) pw = Inl e \<longrightarrow> r = Inl e) \<and>
         (\<forall>c. encrypt_key env (generate_ecdsa_key env) pw = Inr c \<longrightarrow>
            r = Inr (used_filepath fp (keyid (generate_ecdsa_key env)) w) \<and>
            files w' (used_filepath fp (keyid (generate_ecdsa_key env)) w) = Some c))"
  unfolding generate_and_write_ecdsa_keypair_def
  by (simp add: Let_def used_filepath_def resolved_password_def fault_due_def
        io_faults_fault_done assms)

lemma import_rsa_password_spec:
  "run (import_rsa_privatekey_from_file env fp password sch) w (\<lambda>r w'.
     PATH_SCHEMA_check_match env fp = Inr () \<longrightarrow>
     RSA_SCHEME_SCHEMA_check_match env sch = Inr () \<longrightarrow>
       (\<forall>pw e. resolved_password password w = Some pw \<longrightarrow>
          PASSWORD_SCHEMA_check_match env pw = Inl e \<longrightarrow>
            r = Inl e \<and> calls w' = calls w) \<and>
       (password = None \<longrightarrow>
           tty_pos w' = (if tty_in w (tty_pos w) = None then tty_pos w else tty_pos w + 1) \<and>
           (tty_in w (tty_pos w) = None \<longrightarrow> r = Inl EOFError)))"
  unfolding import_rsa_privatekey_from_file_def
  by (simp add: Let_def resolved_password_def) auto

lemma import_ed25519_password_spec:
  "run (import_ed25519_privatekey_from_file env fp password) w (\<lambda>r w'.
     PATH_SCHEMA_check_match env fp = Inr () \<longrightarrow>
       (\<forall>pw e. resolved_password password w = Some pw \<longrightarrow>
          PASSWORD_SCHEMA_check_match env pw = Inl e \<longrightarrow>
            r = Inl e \<and> calls w' = calls w) \<and>
       (password = None \<longrightarrow>
           tty_pos w' = (if tty_in w (tty_pos w) = None then tty_pos w else tty_pos w + 1) \<and>
           (tty_in w (tty_pos w) = None \<longrightarrow> r = Inl EOFError)))"
  unfolding import_ed25519_privatekey_from_file_def
  by (simp add: Let_def resolved_password_def)

lemma import_ecdsa_password_spec:
  "run (import_ecdsa_privatekey_from_file env fp password) w (\<lambda>r w'.
     PATH_SCHEMA_check_match env fp = Inr () \<longrightarrow>
       (\<forall>pw e. resolved_password password w = Some pw \<longrightarrow>
          PASSWORD_SCHEMA_check_match env pw = Inl e \<longrightarrow>
            r = Inl e \<and> calls w' = calls w) \<and>
       (password = None \<longrightarrow>
           tty_pos w' = (if tty_in w (tty_pos w) = None then tty_pos w else tty_pos w + 1) \<and>
           (tty_in w (tty_pos w) = None \<longrightarrow> r = Inl EOFError)))"
  unfolding import_ecdsa_privatekey_from_file_def
  by (simp add: Let_def resolved_password_def)

section \<open>Consequences of the specifications\<close>

lemma path_not_pub [simp]: "p \<noteq> p @ ''.pub''" "p @ ''.pub'' \<noteq> p"
  by simp_all

lemmas generate_rsa_facts = run_E [OF generate_rsa_spec, rule_format, OF _ refl refl refl]

lemmas generate_rsa_result = generate_rsa_facts [THEN conjunct1]

lemmas generate_rsa_given =
  generate_rsa_facts [THEN conjunct2, THEN conjunct1, rule_format, OF _ refl]

lemmas generate_rsa_prompted =
  generate_rsa_facts [THEN conjunct2, THEN conjunct2, rule_format, OF _ refl]

lemma generate_rsa_success:
  assumes "generate_and_write_rsa_keypair env fp bits password w = Some (Inr x, w')"
  shows "x = used_filepath fp (keyid (generate_rsa_key env bits)) w \<and>
     (\<exists>pw. resolved_password password w = Some pw \<and>
        (if pw = []
         then files w' = (files w)(used_filepath fp (keyid (generate_rsa_key env bits)) w @ ''.pub'' \<mapsto>
                   kv_public (keyval (generate_rsa_key env bits)),
                 used_filepath fp (keyid (generate_rsa_key env bits)) w \<mapsto>
                   kv_private (keyval (generate_rsa_key env bits))) \<and>
              calls w' = calls w
         else (\<exists>c. create_rsa_encrypted_pem env (kv_private (keyval (generate_rsa_key env bits))) pw =
                   Inr c \<and>
                 files w' = (files w)(used_filepath fp (keyid (generate_rsa_key env bits)) w @ ''.pub'' \<mapsto>
                     kv_public (keyval (generate_rsa_key env bits)),
                   used_filepath fp (keyid (generate_rsa_key env bits)) w \<mapsto> c) \<and>
                 calls w' = calls w @
                   [Call_create_rsa_encrypted_pem (kv_private (keyval (generate_rsa_key env bits))) pw])))"
  using generate_rsa_result [OF assms] by (simp only: sum.case)

lemma generate_rsa_failure:
  assumes "generate_and_write_rsa_keypair env fp bits password w = Some (Inl e, w')"
  shows "files w' = files w \<or>
     files w' = (files w)(used_filepath fp (keyid (generate_rsa_key env bits)) w @ ''.pub'' \<mapsto>
        kv_public (keyval (generate_rsa_key env bits)))"
  using generate_rsa_result [OF assms] by (simp only: sum.case)

lemmas generate_ed25519_facts = run_E [OF generate_ed25519_spec, rule_format, OF _ refl refl refl]

lemmas generate_ed25519_result = generate_ed25519_facts [THEN conjunct1]

lemmas generate_ed25519_encrypt_fails =
  generate_ed25519_facts [THEN conjunct2, THEN conjunct1, rule_format]

lemmas generate_ed25519_given =
  generate_ed25519_facts [THEN conjunct2, THEN conjunct2, THEN conjunct1, rule_format, OF _ refl]

lemmas generate_ed25519_prompted =
  generate_ed25519_facts [THEN conjunct2, THEN conjunct2, THEN conjunct2, rule_format, OF _ refl]

lemma generate_ed25519_success:
  assumes "generate_and_write_ed25519_keypair env fp password w = Some (Inr x, w')"
  shows "x = used_filepath fp (keyid (generate_ed25519_key env)) w \<and>
     (\<exists>pw c. resolved_password password w = Some pw \<and>
        encrypt_key env (generate_ed25519_key env) pw = Inr c \<and>
        files w' = (files w)(used_filepath fp (keyid (generate_ed25519_key env)) w @ ''.pub'' \<mapsto>
            json_dumps env (format_keyval_to_metadata (keytype (generate_ed25519_key env))
              (scheme (generate_ed25519_key env)) (keyval (generate_ed25519_key env)) False),
          used_filepath fp (keyid (generate_ed25519_key env)) w \<mapsto> c) \<and>
        calls w' = calls w @ [Call_encrypt_key (generate_ed25519_key env) pw])"
  using generate_ed25519_result [OF assms] by (simp only: sum.case)

lemma generate_ed25519_failure:
  assumes "generate_and_write_ed25519_keypair env fp password w = Some (Inl e, w')"
  shows "files w' = files w \<or>
     files w' = (files w)(used_filepath fp (keyid (generate_ed25519_key env)) w @ ''.pub'' \<mapsto>
        json_dumps env (format_keyval_to_metadata (keytype (generate_ed25519_key env))
          (scheme (generate_ed25519_key env)) (keyval (generate_ed25519_key env)) False))"
  using generate_ed25519_result [OF assms] by (simp only: sum.case)

lemmas generate_ecdsa_facts = run_E [OF generate_ecdsa_spec, rule_format, OF _ refl refl refl]

lemmas generate_ecdsa_result = generate_ecdsa_facts [THEN conjunct1]

lemmas generate_ecdsa_encrypt_fails =
  generate_ecdsa_facts [THEN conjunct2, THEN conjunct1, rule_format]

lemmas generate_ecdsa_given =
  generate_ecdsa_facts [THEN conjunct2, THEN conjunct2, THEN conjunct1, rule_format, OF _ refl]

lemmas generate_ecdsa_prompted =
  generate_ecdsa_facts [THEN conjunct2, THEN conjunct2, THEN conjunct2, rule_format, OF _ refl]

lemma generate_ecdsa_success:
  assumes "generate_and_write_ecdsa_keypair env fp password w = Some (Inr x, w')"
  shows "x = used_filepath fp (keyid (generate_ecdsa_key env)) w \<and>
     (\<exists>pw c. resolved_password password w = Some pw \<and>
        encrypt_key env (generate_ecdsa_key env) pw = Inr c \<and>
        files w' = (files w)(used_filepath fp (keyid (generate_ecdsa_key env)) w @ ''.pub'' \<mapsto>
            json_dumps env (format_keyval_to_metadata (keytype (generate_ecdsa_key env))
              (scheme (generate_ecdsa_key env)) (keyval (generate_ecdsa_key env)) False),
          used_filepath fp (keyid (generate_ecdsa_key env)) w \<mapsto> c) \<and>
        calls w' = calls w @ [Call_encrypt_key (generate_ecdsa_key env) pw])"
  using generate_ecdsa_result [OF assms] by (simp only: sum.case)

lemma generate_ecdsa_failure:
  assumes "generate_and_write_ecdsa_keypair env fp password w = Some (Inl e, w')"
  shows "files w' = files w \<or>
     files w' = (files w)(used_filepath fp (keyid (generate_ecdsa_key env)) w @ ''.pub'' \<mapsto>
        json_dumps env (format_keyval_to_metadata (keytype (generate_ecdsa_key env))
          (scheme (generate_ecdsa_key env)) (keyval (generate_ecdsa_key env)) False))"
  using generate_ecdsa_result [OF assms] by (simp only: sum.case)

lemmas import_rsa_facts = run_E [OF import_rsa_spec]

lemmas import_rsa_files = import_rsa_facts [THEN conjunct1]

lemmas import_rsa_calls = import_rsa_facts [THEN conjunct2, THEN conjunct1]

lemmas import_rsa_outcome =
  import_rsa_facts [THEN conjunct2, THEN conjunct2, THEN conjunct1, rule_format]

lemmas import_rsa_reaches =
  import_rsa_facts [THEN conjunct2, THEN conjunct2, THEN conjunct2, THEN conjunct1, rule_format]

lemmas import_rsa_given =
  import_rsa_facts [THEN conjunct2, THEN conjunct2, THEN conjunct2, THEN conjunct2,
    THEN conjunct1, rule_format, OF _ refl]

lemmas import_rsa_prompted =
  import_rsa_facts [THEN conjunct2, THEN conjunct2, THEN conjunct2, THEN conjunct2,
    THEN conjunct2, rule_format, OF _ refl]

lemmas import_ed25519_facts = run_E [OF import_ed25519_spec]

lemmas import_ed25519_files = import_ed25519_facts [THEN conjunct1]

lemmas import_ed25519_calls = import_ed25519_facts [THEN conjunct2, THEN conjunct1]

lemmas import_ed25519_outcome =
  import_ed25519_facts [THEN conjunct2, THEN conjunct2, THEN conjunct1, rule_format]

lemmas import_ed25519_reaches =
  import_ed25519_facts [THEN conjunct2, THEN conjunct2, THEN conjunct2, THEN conjunct1, rule_format]

lemmas import_ed25519_given =
  import_ed25519_facts [THEN conjunct2, THEN conjunct2, THEN conjunct2, THEN conjunct2,
    THEN conjunct1, rule_format, OF _ refl]

lemmas import_ed25519_prompted =
  import_ed25519_facts [THEN conjunct2, THEN conjunct2, THEN conjunct2, THEN conjunct2,
    THEN conjunct2, rule_format, OF _ refl]

lemmas import_ecdsa_facts = run_E [OF import_ecdsa_spec]

lemmas import_ecdsa_files = import_ecdsa_facts [THEN conjunct1]

lemmas import_ecdsa_calls = import_ecdsa_facts [THEN conjunct2, THEN conjunct1]

lemmas import_ecdsa_outcome =
  import_ecdsa_facts [THEN conjunct2, THEN conjunct2, THEN conjunct1, rule_format]

lemmas import_ecdsa_reaches =
  import_ecdsa_facts [THEN conjunct2, THEN conjunct2, THEN conjunct2, THEN conjunct1, rule_format]

lemmas import_ecdsa_given =
  import_ecdsa_facts [THEN conjunct2, THEN conjunct2, THEN conjunct2, THEN conjunct2,
    THEN conjunct1, rule_format, OF _ refl]

lemmas import_ecdsa_prompted =
  import_ecdsa_facts [THEN conjunct2, THEN conjunct2, THEN conjunct2, THEN conjunct2,
    THEN conjunct2, rule_format, OF _ refl]

lemma generate_rsa_returns:
  "\<exists>r w'. generate_and_write_rsa_keypair env fp bits password w = Some (r, w')"
  by (rule run_returns [OF generate_rsa_spec])

lemma generate_ed25519_returns:
  "\<exists>r w'. generate_and_write_ed25519_keypair env fp password w = Some (r, w')"
  by (rule run_returns [OF generate_ed25519_spec])

lemma generate_ecdsa_returns:
  "\<exists>r w'. generate_and_write_ecdsa_keypair env fp password w = Some (r, w')"
  by (rule run_returns [OF generate_ecdsa_spec])

lemma import_rsa_returns:
  "\<exists>r w'. import_rsa_privatekey_from_file env fp password sch w = Some (r, w')"
  by (rule run_returns [OF import_rsa_spec])

lemma import_ed25519_returns:
  "\<exists>r w'. import_ed25519_privatekey_from_file env fp password w = Some (r, w')"
  by (rule run_returns [OF import_ed25519_spec])

lemma import_ecdsa_returns:
  "\<exists>r w'. import_ecdsa_privatekey_from_file env fp password w = Some (r, w')"
  by (rule run_returns [OF import_ecdsa_spec])

section \<open>The confirmation loop\<close>

lemma get_password_confirm_unfold:
  "get_password prompt True w =
     (case entry w 0 of
        None \<Rightarrow> Some (Inl EOFError, snd (getpass prompt w))
      | Some a \<Rightarrow>
          (case entry w 1 of
             None \<Rightarrow> Some (Inl EOFError, snd (getpass ''Confirm: '' (snd (getpass prompt w))))
           | Some b \<Rightarrow>
               if a = b then Some (Inr a, snd (getpass ''Confirm: '' (snd (getpass prompt w))))
               else get_password prompt True (next_round prompt w)))"
  by (subst get_password.simps)
     (simp add: getpass_def entry_def next_round_def Let_def split: option.splits)

lemma next_round_entry:
  "entry w 0 = Some a \<Longrightarrow> entry w 1 = Some b \<Longrightarrow> entry (next_round prompt w) i = entry w (i + 2)"
  by (simp add: next_round_def print_line_def getpass_def entry_def Let_def add.commute add.left_commute)

lemma next_round_mismatch:
  "entry w 0 = Some a \<Longrightarrow> entry w 1 = Some b \<Longrightarrow>
     mismatch_round (next_round prompt w) j = mismatch_round w (Suc j)"
  by (simp add: mismatch_round_def next_round_entry)

lemma mismatch_round_0:
  "mismatch_round w 0 = (\<exists>a b. entry w 0 = Some a \<and> entry w 1 = Some b \<and> a \<noteq> b)"
  by (auto simp: mismatch_round_def split: option.splits)

lemma next_round_world:
  "entry w 0 = Some a \<Longrightarrow> entry w 1 = Some b \<Longrightarrow>
     next_round prompt w =
       w\<lparr>tty_pos := tty_pos w + 2, stderr := stderr w @ [prompt, ''Confirm: ''],
         stdout := stdout w @ [''Mismatch; try again.'']\<rparr>"
  by (simp add: next_round_def print_line_def getpass_def entry_def Let_def)

lemma get_password_confirm_returns:
  "(\<And>j. j < k \<Longrightarrow> mismatch_round w j) \<Longrightarrow> entry w (2 * k) = Some p \<Longrightarrow>
   entry w (2 * k + 1) = Some p \<Longrightarrow>
     get_password prompt True w =
       Some (Inr p,
         w\<lparr>tty_pos := tty_pos w + 2 * Suc k,
           stderr := stderr w @ concat (replicate (Suc k) [prompt, ''Confirm: '']),
           stdout := stdout w @ replicate k ''Mismatch; try again.''\<rparr>)"
proof (induction k arbitrary: w)
  case 0
  then show ?case
    by (simp add: get_password_confirm_unfold getpass_def entry_def Let_def)
next
  case (Suc k)
  from Suc.prems(1) [of 0] obtain a b where
    ab: "entry w 0 = Some a" "entry w 1 = Some b" "a \<noteq> b"
    by (auto simp: mismatch_round_0)
  let ?w = "next_round prompt w"
  have m: "\<And>j. j < k \<Longrightarrow> mismatch_round ?w j"
    using Suc.prems(1) ab by (simp add: next_round_mismatch)
  have e: "entry ?w (2 * k) = Some p" "entry ?w (2 * k + 1) = Some p"
    using Suc.prems(2,3) ab by (simp_all add: next_round_entry)
  have "get_password prompt True w = get_password prompt True ?w"
    using ab by (simp add: get_password_confirm_unfold)
  also have "\<dots> = Some (Inr p,
         ?w\<lparr>tty_pos := tty_pos ?w + 2 * Suc k,
           stderr := stderr ?w @ concat (replicate (Suc k) [prompt, ''Confirm: '']),
           stdout := stdout ?w @ replicate k ''Mismatch; try again.''\<rparr>)"
    by (rule Suc.IH [OF m e])
  finally show ?case
    using ab by (simp add: next_round_world replicate_append_same)
qed

lemma round_outcome_now:
  assumes "\<not> mismatch_round w 0"
    and "case fst y of
           Inr p \<Rightarrow> entry w 0 = Some p \<and> entry w 1 = Some p
         | Inl e \<Rightarrow> entry w 0 = None \<or> entry w 1 = None"
  shows "round_outcome w y"
  unfolding round_outcome_def
  using assms by (intro exI [of _ 0]) (simp split: sum.splits)

lemma round_outcome_later:
  assumes ab: "entry w 0 = Some a" "entry w 1 = Some b" "a \<noteq> b"
    and later: "round_outcome (next_round prompt w) y"
  shows "round_outcome w y"
proof -
  from later obtain k where
    k: "\<forall>j<k. mismatch_round (next_round prompt w) j"
       "\<not> mismatch_round (next_round prompt w) k"
       "case fst y of
          Inr p \<Rightarrow> entry (next_round prompt w) (2 * k) = Some p \<and>
                   entry (next_round prompt w) (2 * k + 1) = Some p
        | Inl e \<Rightarrow> entry (next_round prompt w) (2 * k) = None \<or>
                   entry (next_round prompt w) (2 * k + 1) = None"
    unfolding round_outcome_def by blast
  have first: "mismatch_round w 0"
    using ab by (auto simp: mismatch_round_0)
  have "mismatch_round w j" if "j < Suc k" for j
  proof (cases j)
    case 0
    then show ?thesis using first by simp
  next
    case (Suc i)
    with that k(1) show ?thesis
      by (simp add: next_round_mismatch [OF ab(1,2)])
  qed
  moreover have "\<not> mismatch_round w (Suc k)"
    using k(2) by (simp add: next_round_mismatch [OF ab(1,2)])
  moreover have "case fst y of
        Inr p \<Rightarrow> entry w (2 * Suc k) = Some p \<and> entry w (2 * Suc k + 1) = Some p
      | Inl e \<Rightarrow> entry w (2 * Suc k) = None \<or> entry w (2 * Suc k + 1) = None"
    using k(3) by (simp add: next_round_entry [OF ab(1,2)] split: sum.splits)
  ultimately show ?thesis
    unfolding round_outcome_def by blast
qed

lemma get_password_confirm_result:
  assumes "get_password prompt confirm w = Some y"
  shows "confirm \<longrightarrow> round_outcome w y"
proof -
  have step: "confirm \<longrightarrow> round_outcome w y"
    if IH: "\<And>prompt confirm w y. f prompt confirm w = Some y \<Longrightarrow> confirm \<longrightarrow> round_outcome w y"
    and body: "(case getpass prompt w of
        (Inl e, w1) \<Rightarrow> Some (Inl e, w1)
      | (Inr password, w1) \<Rightarrow>
          if \<not> confirm then Some (Inr password, w1)
          else
            (case getpass ''Confirm: '' w1 of
               (Inl e, w2) \<Rightarrow> Some (Inl e, w2)
             | (Inr password2, w2) \<Rightarrow>
                 if password = password2 then Some (Inr password, w2)
                 else f prompt confirm (print_line ''Mismatch; try again.'' w2))) = Some y"
    for f prompt confirm w y
  proof
    assume c: confirm
    show "round_outcome w y"
    proof (cases "mismatch_round w 0")
      case True
      then obtain a b where ab: "entry w 0 = Some a" "entry w 1 = Some b" "a \<noteq> b"
        by (auto simp: mismatch_round_0)
      from body ab c have "f prompt confirm (next_round prompt w) = Some y"
        by (simp add: getpass_def entry_def Let_def next_round_def)
      from IH [OF this] c have "round_outcome (next_round prompt w) y"
        by simp
      with ab show ?thesis
        by (rule round_outcome_later)
    next
      case False
      have "case fst y of
            Inr p \<Rightarrow> entry w 0 = Some p \<and> entry w 1 = Some p
          | Inl e \<Rightarrow> entry w 0 = None \<or> entry w 1 = None"
        using body c False
        by (auto simp: getpass_def entry_def Let_def mismatch_round_def
                 split: option.splits if_splits)
      with False show ?thesis
        by (rule round_outcome_now)
    qed
  qed
  show ?thesis
    by (rule get_password.raw_induct
          [where P = "\<lambda>prompt confirm w y. confirm \<longrightarrow> round_outcome w y", OF step assms])
qed

lemma get_password_confirm_diverges:
  assumes "\<forall>j. mismatch_round w j"
  shows "get_password prompt True w = None"
proof (cases "get_password prompt True w")
  case None
  then show ?thesis .
next
  case (Some y)
  from get_password_confirm_result [OF Some] assms show ?thesis
    by (auto simp: round_outcome_def)
qed


section \<open>The claims\<close>

text \<open>
  C1. A creation call without a password asks once: \<open>_get_password\<close> is called with
  \<open>confirm = False\<close>. With the entries \<^verbatim>\<open>a\<close> and \<^verbatim>\<open>b\<close> ready at the terminal, each
  creation function reads the first one only, writes its own prompt and no
  \<^verbatim>\<open>Confirm: \<close> prompt, and encrypts with \<^verbatim>\<open>a\<close>.
\<close>

theorem creation_prompt_is_not_confirmed:
  "generate_and_write_rsa_keypair demo_env (Some ''k'') DEFAULT_RSA_KEY_BITS None
       (demo_world\<lparr>tty_in := typing [''a'', ''b'']\<rparr>) =
     Some (Inr ''k'',
       demo_world\<lparr>files := [''k.pub'' \<mapsto> ''PUBLIC-PEM'', ''k'' \<mapsto> ''ENC[a]PRIVATE-PEM''],
         tty_in := typing [''a'', ''b''], tty_pos := 1,
         stderr := [''Enter a password for the encrypted RSA key ('' @ Fore_RED @ ''k'' @
                      Fore_RESET @ ''): ''],
         calls := [Call_create_rsa_encrypted_pem ''PRIVATE-PEM'' ''a'']\<rparr>) \<and>
   generate_and_write_ed25519_keypair demo_env (Some ''k'') None
       (demo_world\<lparr>tty_in := typing [''a'', ''b'']\<rparr>) =
     Some (Inr ''k'',
       demo_world\<lparr>files := [''k.pub'' \<mapsto> ''{keytype:ed25519;scheme:ed25519;keyval:{public:edpub;};}'',
                           ''k'' \<mapsto> ''ENC[a]ed25519''],
         tty_in := typing [''a'', ''b''], tty_pos := 1,
         stderr := [''Enter a password for the Ed25519 key ('' @ Fore_RED @ ''k'' @
                      Fore_RESET @ ''): ''],
         calls := [Call_encrypt_key demo_ed25519_key ''a'']\<rparr>) \<and>
   generate_and_write_ecdsa_keypair demo_env (Some ''k'') None
       (demo_world\<lparr>tty_in := typing [''a'', ''b'']\<rparr>) =
     Some (Inr ''k'',
       demo_world\<lparr>files := [''k.pub'' \<mapsto>
           ''{keytype:ecdsa-sha2-nistp256;scheme:ecdsa-sha2-nistp256;keyval:{public:ecpub;};}'',
                           ''k'' \<mapsto> ''ENC[a]ecdsa-sha2-nistp256''],
         tty_in := typing [''a'', ''b''], tty_pos := 1,
         stderr := [''Enter a password for the ECDSA key ('' @ Fore_RED @ ''k'' @
                      Fore_RESET @ ''): ''],
         calls := [Call_encrypt_key demo_ecdsa_key ''a'']\<rparr>)"
  unfolding generate_and_write_rsa_keypair_def generate_and_write_ed25519_keypair_def
    generate_and_write_ecdsa_keypair_def
  by (simp add: eval_defs DEFAULT_RSA_KEY_BITS_def)

text \<open>
  C2, as the code has it. \<open>generate_and_write_rsa_keypair\<close>: with the empty resolved
  password the file at the private path holds the private PEM as generated and no
  encryption routine is called; with a non-empty password it holds the result of
  \<open>create_rsa_encrypted_pem\<close> for that password. \<open>generate_and_write_ed25519_keypair\<close> and
  \<open>generate_and_write_ecdsa_keypair\<close>: for every resolved password, the empty one included,
  the file holds the result of \<open>encrypt_key\<close> called with the key and that password.
\<close>

theorem private_payload_encryption:
  "(generate_and_write_rsa_keypair env fp bits password w = Some (Inr x, w') \<longrightarrow>
      (\<exists>pw. resolved_password password w = Some pw \<and>
         (if pw = []
          then files w' x = Some (kv_private (keyval (generate_rsa_key env bits))) \<and>
               calls w' = calls w
          else (\<exists>c. create_rsa_encrypted_pem env
                      (kv_private (keyval (generate_rsa_key env bits))) pw = Inr c \<and>
                  files w' x = Some c \<and>
                  calls w' = calls w @
                    [Call_create_rsa_encrypted_pem
                       (kv_private (keyval (generate_rsa_key env bits))) pw])))) \<and>
   (generate_and_write_ed25519_keypair env fp password w = Some (Inr y, v') \<longrightarrow>
      (\<exists>pw c. resolved_password password w = Some pw \<and>
         encrypt_key env (generate_ed25519_key env) pw = Inr c \<and> files v' y = Some c \<and>
         calls v' = calls w @ [Call_encrypt_key (generate_ed25519_key env) pw])) \<and>
   (generate_and_write_ecdsa_keypair env fp password w = Some (Inr z, u') \<longrightarrow>
      (\<exists>pw c. resolved_password password w = Some pw \<and>
         encrypt_key env (generate_ecdsa_key env) pw = Inr c \<and> files u' z = Some c \<and>
         calls u' = calls w @ [Call_encrypt_key (generate_ecdsa_key env) pw]))"
proof (intro conjI impI)
  assume h: "generate_and_write_rsa_keypair env fp bits password w = Some (Inr x, w')"
  from generate_rsa_success [OF h] obtain pw where
    x: "x = used_filepath fp (keyid (generate_rsa_key env bits)) w"
    and pw: "resolved_password password w = Some pw"
    and body: "if pw = []
         then files w' = (files w)(used_filepath fp (keyid (generate_rsa_key env bits)) w @ ''.pub'' \<mapsto>
                   kv_public (keyval (generate_rsa_key env bits)),
                 used_filepath fp (keyid (generate_rsa_key env bits)) w \<mapsto>
                   kv_private (keyval (generate_rsa_key env bits))) \<and>
              calls w' = calls w
         else (\<exists>c. create_rsa_encrypted_pem env (kv_private (keyval (generate_rsa_key env bits))) pw =
                   Inr c \<and>
                 files w' = (files w)(used_filepath fp (keyid (generate_rsa_key env bits)) w @ ''.pub'' \<mapsto>
                     kv_public (keyval (generate_rsa_key env bits)),
                   used_filepath fp (keyid (generate_rsa_key env bits)) w \<mapsto> c) \<and>
                 calls w' = calls w @
                   [Call_create_rsa_encrypted_pem (kv_private (keyval (generate_rsa_key env bits))) pw])"
    by blast
  show "\<exists>pw. resolved_password password w = Some pw \<and>
         (if pw = []
          then files w' x = Some (kv_private (keyval (generate_rsa_key env bits))) \<and>
               calls w' = calls w
          else (\<exists>c. create_rsa_encrypted_pem env
                      (kv_private (keyval (generate_rsa_key env bits))) pw = Inr c \<and>
                  files w' x = Some c \<and>
                  calls w' = calls w @
                    [Call_create_rsa_encrypted_pem
                       (kv_private (keyval (generate_rsa_key env bits))) pw]))"
  proof (cases "pw = []")
    case True
    with body x pw show ?thesis by simp
  next
    case False
    with body obtain c where
      "create_rsa_encrypted_pem env (kv_private (keyval (generate_rsa_key env bits))) pw = Inr c"
      "files w' = (files w)(used_filepath fp (keyid (generate_rsa_key env bits)) w @ ''.pub'' \<mapsto>
                     kv_public (keyval (generate_rsa_key env bits)),
                   used_filepath fp (keyid (generate_rsa_key env bits)) w \<mapsto> c)"
      "calls w' = calls w @
         [Call_create_rsa_encrypted_pem (kv_private (keyval (generate_rsa_key env bits))) pw]"
      by auto
    with False x pw show ?thesis by simp
  qed
next
  assume h: "generate_and_write_ed25519_keypair env fp password w = Some (Inr y, v')"
  from generate_ed25519_success [OF h] obtain pw c where
    "y = used_filepath fp (keyid (generate_ed25519_key env)) w"
    "resolved_password password w = Some pw"
    "encrypt_key env (generate_ed25519_key env) pw = Inr c"
    "files v' = (files w)(used_filepath fp (keyid (generate_ed25519_key env)) w @ ''.pub'' \<mapsto>
            json_dumps env (format_keyval_to_metadata (keytype (generate_ed25519_key env))
              (scheme (generate_ed25519_key env)) (keyval (generate_ed25519_key env)) False),
          used_filepath fp (keyid (generate_ed25519_key env)) w \<mapsto> c)"
    "calls v' = calls w @ [Call_encrypt_key (generate_ed25519_key env) pw]"
    by blast
  then show "\<exists>pw c. resolved_password password w = Some pw \<and>
         encrypt_key env (generate_ed25519_key env) pw = Inr c \<and> files v' y = Some c \<and>
         calls v' = calls w @ [Call_encrypt_key (generate_ed25519_key env) pw]"
    by simp
next
  assume h: "generate_and_write_ecdsa_keypair env fp password w = Some (Inr z, u')"
  from generate_ecdsa_success [OF h] obtain pw c where
    "z = used_filepath fp (keyid (generate_ecdsa_key env)) w"
    "resolved_password password w = Some pw"
    "encrypt_key env (generate_ecdsa_key env) pw = Inr c"
    "files u' = (files w)(used_filepath fp (keyid (generate_ecdsa_key env)) w @ ''.pub'' \<mapsto>
            json_dumps env (format_keyval_to_metadata (keytype (generate_ecdsa_key env))
              (scheme (generate_ecdsa_key env)) (keyval (generate_ecdsa_key env)) False),
          used_filepath fp (keyid (generate_ecdsa_key env)) w \<mapsto> c)"
    "calls u' = calls w @ [Call_encrypt_key (generate_ecdsa_key env) pw]"
    by blast
  then show "\<exists>pw c. resolved_password password w = Some pw \<and>
         encrypt_key env (generate_ecdsa_key env) pw = Inr c \<and> files u' z = Some c \<and>
         calls u' = calls w @ [Call_encrypt_key (generate_ecdsa_key env) pw]"
    by simp
qed

theorem private_payload_encryption_witness:
  "generate_and_write_rsa_keypair demo_env (Some ''k'') DEFAULT_RSA_KEY_BITS (Some []) demo_world =
     Some (Inr ''k'',
       demo_world\<lparr>files := [''k.pub'' \<mapsto> ''PUBLIC-PEM'', ''k'' \<mapsto> ''PRIVATE-PEM'']\<rparr>) \<and>
   generate_and_write_rsa_keypair demo_env (Some ''k'') DEFAULT_RSA_KEY_BITS (Some ''pw'') demo_world =
     Some (Inr ''k'',
       demo_world\<lparr>files := [''k.pub'' \<mapsto> ''PUBLIC-PEM'', ''k'' \<mapsto> ''ENC[pw]PRIVATE-PEM''],
         calls := [Call_create_rsa_encrypted_pem ''PRIVATE-PEM'' ''pw'']\<rparr>) \<and>
   generate_and_write_ed25519_keypair demo_env (Some ''k'') (Some ''pw'') demo_world =
     Some (Inr ''k'',
       demo_world\<lparr>files := [''k.pub'' \<mapsto> ''{keytype:ed25519;scheme:ed25519;keyval:{public:edpub;};}'',
                           ''k'' \<mapsto> ''ENC[pw]ed25519''],
         calls := [Call_encrypt_key demo_ed25519_key ''pw'']\<rparr>) \<and>
   generate_and_write_ecdsa_keypair demo_env (Some ''k'') (Some ''pw'') demo_world =
     Some (Inr ''k'',
       demo_world\<lparr>files := [''k.pub'' \<mapsto>
           ''{keytype:ecdsa-sha2-nistp256;scheme:ecdsa-sha2-nistp256;keyval:{public:ecpub;};}'',
                           ''k'' \<mapsto> ''ENC[pw]ecdsa-sha2-nistp256''],
         calls := [Call_encrypt_key demo_ecdsa_key ''pw'']\<rparr>) \<and>
   (\<exists>pw c. resolved_password (Some ''pw'') demo_world = Some pw \<and>
      encrypt_key demo_env (generate_ed25519_key demo_env) pw = Inr c \<and>
      files (demo_world\<lparr>files := [''k.pub'' \<mapsto> ''{keytype:ed25519;scheme:ed25519;keyval:{public:edpub;};}'',
                           ''k'' \<mapsto> ''ENC[pw]ed25519''],
         calls := [Call_encrypt_key demo_ed25519_key ''pw'']\<rparr>) ''k'' = Some c)"
proof -
  have h1: "generate_and_write_rsa_keypair demo_env (Some ''k'') DEFAULT_RSA_KEY_BITS (Some []) demo_world =
     Some (Inr ''k'',
       demo_world\<lparr>files := [''k.pub'' \<mapsto> ''PUBLIC-PEM'', ''k'' \<mapsto> ''PRIVATE-PEM'']\<rparr>)"
    unfolding generate_and_write_rsa_keypair_def
    by (simp add: eval_defs DEFAULT_RSA_KEY_BITS_def)
  have h2: "generate_and_write_rsa_keypair demo_env (Some ''k'') DEFAULT_RSA_KEY_BITS (Some ''pw'') demo_world =
     Some (Inr ''k'',
       demo_world\<lparr>files := [''k.pub'' \<mapsto> ''PUBLIC-PEM'', ''k'' \<mapsto> ''ENC[pw]PRIVATE-PEM''],
         calls := [Call_create_rsa_encrypted_pem ''PRIVATE-PEM'' ''pw'']\<rparr>)"
    unfolding generate_and_write_rsa_keypair_def
    by (simp add: eval_defs DEFAULT_RSA_KEY_BITS_def)
  have h3: "generate_and_write_ed25519_keypair demo_env (Some ''k'') (Some ''pw'') demo_world =
     Some (Inr ''k'',
       demo_world\<lparr>files := [''k.pub'' \<mapsto> ''{keytype:ed25519;scheme:ed25519;keyval:{public:edpub;};}'',
                           ''k'' \<mapsto> ''ENC[pw]ed25519''],
         calls := [Call_encrypt_key demo_ed25519_key ''pw'']\<rparr>)"
    unfolding generate_and_write_ed25519_keypair_def
    by (simp add: eval_defs)
  have h4: "generate_and_write_ecdsa_keypair demo_env (Some ''k'') (Some ''pw'') demo_world =
     Some (Inr ''k'',
       demo_world\<lparr>files := [''k.pub'' \<mapsto>
           ''{keytype:ecdsa-sha2-nistp256;scheme:ecdsa-sha2-nistp256;keyval:{public:ecpub;};}'',
                           ''k'' \<mapsto> ''ENC[pw]ecdsa-sha2-nistp256''],
         calls := [Call_encrypt_key demo_ecdsa_key ''pw'']\<rparr>)"
    unfolding generate_and_write_ecdsa_keypair_def
    by (simp add: eval_defs)
  from private_payload_encryption [THEN conjunct2, THEN conjunct1, rule_format, OF h3]
  have "\<exists>pw c. resolved_password (Some ''pw'') demo_world = Some pw \<and>
      encrypt_key demo_env (generate_ed25519_key demo_env) pw = Inr c \<and>
      files (demo_world\<lparr>files := [''k.pub'' \<mapsto> ''{keytype:ed25519;scheme:ed25519;keyval:{public:edpub;};}'',
                           ''k'' \<mapsto> ''ENC[pw]ed25519''],
         calls := [Call_encrypt_key demo_ed25519_key ''pw'']\<rparr>) ''k'' = Some c"
    by blast
  with h1 h2 h3 h4 show ?thesis by blast
qed

theorem ed25519_empty_password_is_encrypted:
  "generate_and_write_ed25519_keypair demo_env (Some ''k'') (Some []) demo_world =
     Some (Inr ''k'',
       demo_world\<lparr>files := [''k.pub'' \<mapsto> ''{keytype:ed25519;scheme:ed25519;keyval:{public:edpub;};}'',
                           ''k'' \<mapsto> ''ENC[]ed25519''],
         calls := [Call_encrypt_key demo_ed25519_key []]\<rparr>) \<and>
   kv_private (keyval (generate_ed25519_key demo_env)) = ''edpriv''"
  unfolding generate_and_write_ed25519_keypair_def
  by (simp add: eval_defs)




text \<open>
  C4, as the code has it. When the gates pass, the file at \<open>filepath\<close> is read without a
  fault and decodes, \<open>import_rsa_privatekey_from_file\<close> calls
  \<open>import_rsakey_from_private_pem\<close> on the contents with \<^verbatim>\<open>password=None\<close> if the resolved
  password is empty (the file is parsed as an unencrypted key) and with the password
  otherwise, and returns its result. \<open>import_ed25519_privatekey_from_file\<close> and
  \<open>import_ecdsa_privatekey_from_file\<close> call \<open>decrypt_key\<close> on the contents with the
  resolved password whatever it is, the empty one included.
\<close>

theorem import_password_dispatch:
  "(resolved_password password w = Some pw \<and> PATH_SCHEMA_check_match env fp = Inr () \<and>
    RSA_SCHEME_SCHEMA_check_match env sch = Inr () \<and>
    PASSWORD_SCHEMA_check_match env pw = Inr () \<and> \<not> fault_due w \<and> files w fp = Some c \<and>
    valid_utf8 env c \<longrightarrow>
      (\<exists>w'. import_rsa_privatekey_from_file env fp password sch w =
              Some (import_rsakey_from_private_pem env c sch (if pw = [] then None else Some pw), w') \<and>
            calls w' = calls w @
              [Call_import_rsakey_from_private_pem c sch (if pw = [] then None else Some pw)])) \<and>
   (resolved_password password w = Some pw \<and> PATH_SCHEMA_check_match env fp = Inr () \<and>
    PASSWORD_SCHEMA_check_match env pw = Inr () \<and> \<not> fault_due w \<and> files w fp = Some c \<and>
    valid_utf8 env c \<longrightarrow>
      (\<exists>r w'. import_ed25519_privatekey_from_file env fp password w = Some (r, w') \<and>
              calls w' = calls w @ [Call_decrypt_key c pw]) \<and>
      (\<exists>r w'. import_ecdsa_privatekey_from_file env fp password w = Some (r, w') \<and>
              calls w' = calls w @ [Call_decrypt_key c pw]))"
proof (intro conjI impI)
  assume h: "resolved_password password w = Some pw \<and> PATH_SCHEMA_check_match env fp = Inr () \<and>
    RSA_SCHEME_SCHEMA_check_match env sch = Inr () \<and>
    PASSWORD_SCHEMA_check_match env pw = Inr () \<and> \<not> fault_due w \<and> files w fp = Some c \<and>
    valid_utf8 env c"
  obtain r w' where run: "import_rsa_privatekey_from_file env fp password sch w = Some (r, w')"
    using import_rsa_returns by blast
  from h have calls: "calls w' = calls w @
      [Call_import_rsakey_from_private_pem c sch (if pw = [] then None else Some pw)]"
    by (intro import_rsa_reaches [OF run]) simp_all
  have "r = import_rsakey_from_private_pem env c sch (if pw = [] then None else Some pw)"
    by (rule import_rsa_outcome [OF run calls])
  with run calls show "\<exists>w'. import_rsa_privatekey_from_file env fp password sch w =
              Some (import_rsakey_from_private_pem env c sch (if pw = [] then None else Some pw), w') \<and>
            calls w' = calls w @
              [Call_import_rsakey_from_private_pem c sch (if pw = [] then None else Some pw)]"
    by (intro exI [of _ w']) simp
next
  assume h: "resolved_password password w = Some pw \<and> PATH_SCHEMA_check_match env fp = Inr () \<and>
    PASSWORD_SCHEMA_check_match env pw = Inr () \<and> \<not> fault_due w \<and> files w fp = Some c \<and>
    valid_utf8 env c"
  obtain r w' where run: "import_ed25519_privatekey_from_file env fp password w = Some (r, w')"
    using import_ed25519_returns by blast
  from h have "calls w' = calls w @ [Call_decrypt_key c pw]"
    by (intro import_ed25519_reaches [OF run]) simp_all
  with run show "\<exists>r w'. import_ed25519_privatekey_from_file env fp password w = Some (r, w') \<and>
              calls w' = calls w @ [Call_decrypt_key c pw]"
    by (intro exI [of _ r] exI [of _ w']) simp
next
  assume h: "resolved_password password w = Some pw \<and> PATH_SCHEMA_check_match env fp = Inr () \<and>
    PASSWORD_SCHEMA_check_match env pw = Inr () \<and> \<not> fault_due w \<and> files w fp = Some c \<and>
    valid_utf8 env c"
  obtain r w' where run: "import_ecdsa_privatekey_from_file env fp password w = Some (r, w')"
    using import_ecdsa_returns by blast
  from h have "calls w' = calls w @ [Call_decrypt_key c pw]"
    by (intro import_ecdsa_reaches [OF run]) simp_all
  with run show "\<exists>r w'. import_ecdsa_privatekey_from_file env fp password w = Some (r, w') \<and>
              calls w' = calls w @ [Call_decrypt_key c pw]"
    by (intro exI [of _ r] exI [of _ w']) simp
qed

theorem import_password_dispatch_witness:
  "(\<exists>w'. import_rsa_privatekey_from_file demo_env ''k'' (Some []) ''rsassa-pss-sha256''
            (demo_world\<lparr>files := [''k'' \<mapsto> ''PRIVATE-PEM'']\<rparr>) =
          Some (Inr demo_rsa_key, w') \<and>
          calls w' = [Call_import_rsakey_from_private_pem ''PRIVATE-PEM'' ''rsassa-pss-sha256'' None]) \<and>
   (\<exists>w'. import_rsa_privatekey_from_file demo_env ''k'' None ''rsassa-pss-sha256''
            (demo_world\<lparr>files := [''k'' \<mapsto> ''ENC[pw]PRIVATE-PEM''], tty_in := typing [''pw'']\<rparr>) =
          Some (Inr demo_rsa_key, w') \<and>
          calls w' = [Call_import_rsakey_from_private_pem ''ENC[pw]PRIVATE-PEM''
                        ''rsassa-pss-sha256'' (Some ''pw'')]) \<and>
   (\<exists>r w'. import_ed25519_privatekey_from_file demo_env ''k'' (Some [])
            (demo_world\<lparr>files := [''k'' \<mapsto> ''ENC[]ed25519'']\<rparr>) = Some (r, w') \<and>
          calls w' = [Call_decrypt_key ''ENC[]ed25519'' []]) \<and>
   (\<exists>r w'. import_ecdsa_privatekey_from_file demo_env ''k'' (Some [])
            (demo_world\<lparr>files := [''k'' \<mapsto> ''ENC[]ed25519'']\<rparr>) = Some (r, w') \<and>
          calls w' = [Call_decrypt_key ''ENC[]ed25519'' []])"
proof -
  let ?w1 = "demo_world\<lparr>files := [''k'' \<mapsto> ''PRIVATE-PEM'']\<rparr>"
  let ?w2 = "demo_world\<lparr>files := [''k'' \<mapsto> ''ENC[pw]PRIVATE-PEM''], tty_in := typing [''pw'']\<rparr>"
  let ?w3 = "demo_world\<lparr>files := [''k'' \<mapsto> ''ENC[]ed25519'']\<rparr>"
  have h1: "resolved_password (Some []) ?w1 = Some [] \<and>
      PATH_SCHEMA_check_match demo_env ''k'' = Inr () \<and>
      RSA_SCHEME_SCHEMA_check_match demo_env ''rsassa-pss-sha256'' = Inr () \<and>
      PASSWORD_SCHEMA_check_match demo_env [] = Inr () \<and> \<not> fault_due ?w1 \<and>
      files ?w1 ''k'' = Some ''PRIVATE-PEM'' \<and> valid_utf8 demo_env ''PRIVATE-PEM''"
    by (simp add: resolved_password_def demo_env_def demo_world_def fault_due_def)
  have h2: "resolved_password None ?w2 = Some ''pw'' \<and>
      PATH_SCHEMA_check_match demo_env ''k'' = Inr () \<and>
      RSA_SCHEME_SCHEMA_check_match demo_env ''rsassa-pss-sha256'' = Inr () \<and>
      PASSWORD_SCHEMA_check_match demo_env ''pw'' = Inr () \<and> \<not> fault_due ?w2 \<and>
      files ?w2 ''k'' = Some ''ENC[pw]PRIVATE-PEM'' \<and> valid_utf8 demo_env ''ENC[pw]PRIVATE-PEM''"
    by (simp add: resolved_password_def demo_env_def demo_world_def fault_due_def typing_def)
  have h3: "resolved_password (Some []) ?w3 = Some [] \<and>
      PATH_SCHEMA_check_match demo_env ''k'' = Inr () \<and>
      PASSWORD_SCHEMA_check_match demo_env [] = Inr () \<and> \<not> fault_due ?w3 \<and>
      files ?w3 ''k'' = Some ''ENC[]ed25519'' \<and> valid_utf8 demo_env ''ENC[]ed25519''"
    by (simp add: resolved_password_def demo_env_def demo_world_def fault_due_def)
  have e1: "import_rsakey_from_private_pem demo_env ''PRIVATE-PEM'' ''rsassa-pss-sha256'' None =
      Inr demo_rsa_key"
    by (simp add: demo_env_def demo_rsa_key_def)
  have e2: "import_rsakey_from_private_pem demo_env ''ENC[pw]PRIVATE-PEM'' ''rsassa-pss-sha256''
      (Some ''pw'') = Inr demo_rsa_key"
    by (simp add: demo_env_def demo_rsa_key_def)
  from import_password_dispatch [THEN conjunct1, rule_format, OF h1] e1
  have r1: "\<exists>w'. import_rsa_privatekey_from_file demo_env ''k'' (Some []) ''rsassa-pss-sha256'' ?w1 =
          Some (Inr demo_rsa_key, w') \<and>
          calls w' = [Call_import_rsakey_from_private_pem ''PRIVATE-PEM'' ''rsassa-pss-sha256'' None]"
    by (simp add: demo_world_def)
  from import_password_dispatch [THEN conjunct1, rule_format, OF h2] e2
  have r2: "\<exists>w'. import_rsa_privatekey_from_file demo_env ''k'' None ''rsassa-pss-sha256'' ?w2 =
          Some (Inr demo_rsa_key, w') \<and>
          calls w' = [Call_import_rsakey_from_private_pem ''ENC[pw]PRIVATE-PEM''
                        ''rsassa-pss-sha256'' (Some ''pw'')]"
    by (simp add: demo_world_def)
  from import_password_dispatch [THEN conjunct2, rule_format, OF h3]
  have r3: "(\<exists>r w'. import_ed25519_privatekey_from_file demo_env ''k'' (Some []) ?w3 = Some (r, w') \<and>
          calls w' = [Call_decrypt_key ''ENC[]ed25519'' []]) \<and>
        (\<exists>r w'. import_ecdsa_privatekey_from_file demo_env ''k'' (Some []) ?w3 = Some (r, w') \<and>
          calls w' = [Call_decrypt_key ''ENC[]ed25519'' []])"
    by (simp add: demo_world_def)
  from r1 r2 r3 show ?thesis by (intro conjI) (simp_all only: simp_thms)
qed

theorem ed25519_import_empty_password_decrypts:
  "import_ed25519_privatekey_from_file demo_env ''k'' (Some [])
       (demo_world\<lparr>files := [''k'' \<mapsto> ''edpriv'']\<rparr>) =
     Some (Inl (CryptoError ''Decryption failed.''),
       demo_world\<lparr>files := [''k'' \<mapsto> ''edpriv''],
         calls := [Call_decrypt_key ''edpriv'' []]\<rparr>)"
  unfolding import_ed25519_privatekey_from_file_def
  by (simp add: eval_defs)


text \<open>
  C5. Every creation function changes the files only by \<open>TempFile_move\<close>, the rename of a
  temporary file that holds the full contents. For every schedule of file-system faults,
  the files after the call are the files before it, or those with the full public payload
  at \<^verbatim>\<open><filepath>.pub\<close>, or those with both full payloads; the call has succeeded exactly in
  the last case. A state in the middle of a call is the final state of the call whose next
  operation faults, so no state shows a partly written key file.
\<close>

theorem key_file_writes_atomic:
  "(generate_and_write_rsa_keypair env fp bits password w = Some (r, w') \<longrightarrow>
      files w' = files w \<and> isl r \<or>
      files w' = (files w)(used_filepath fp (keyid (generate_rsa_key env bits)) w @ ''.pub'' \<mapsto>
          kv_public (keyval (generate_rsa_key env bits))) \<and> isl r \<or>
      (\<exists>c. (c = kv_private (keyval (generate_rsa_key env bits)) \<or>
            (\<exists>pw. create_rsa_encrypted_pem env
                     (kv_private (keyval (generate_rsa_key env bits))) pw = Inr c)) \<and>
         files w' = (files w)(used_filepath fp (keyid (generate_rsa_key env bits)) w @ ''.pub'' \<mapsto>
             kv_public (keyval (generate_rsa_key env bits)),
           used_filepath fp (keyid (generate_rsa_key env bits)) w \<mapsto> c) \<and>
         r = Inr (used_filepath fp (keyid (generate_rsa_key env bits)) w))) \<and>
   (generate_and_write_ed25519_keypair env fp password w = Some (s, v') \<longrightarrow>
      files v' = files w \<and> isl s \<or>
      files v' = (files w)(used_filepath fp (keyid (generate_ed25519_key env)) w @ ''.pub'' \<mapsto>
          (json_dumps env (format_keyval_to_metadata (keytype (generate_ed25519_key env))
              (scheme (generate_ed25519_key env)) (keyval (generate_ed25519_key env)) False))) \<and> isl s \<or>
      (\<exists>pw c. encrypt_key env (generate_ed25519_key env) pw = Inr c \<and>
         files v' = (files w)(used_filepath fp (keyid (generate_ed25519_key env)) w @ ''.pub'' \<mapsto>
             (json_dumps env (format_keyval_to_metadata (keytype (generate_ed25519_key env))
              (scheme (generate_ed25519_key env)) (keyval (generate_ed25519_key env)) False)),
           used_filepath fp (keyid (generate_ed25519_key env)) w \<mapsto> c) \<and>
         s = Inr (used_filepath fp (keyid (generate_ed25519_key env)) w))) \<and>
   (generate_and_write_ecdsa_keypair env fp password w = Some (t, u') \<longrightarrow>
      files u' = files w \<and> isl t \<or>
      files u' = (files w)(used_filepath fp (keyid (generate_ecdsa_key env)) w @ ''.pub'' \<mapsto>
          (json_dumps env (format_keyval_to_metadata (keytype (generate_ecdsa_key env))
              (scheme (generate_ecdsa_key env)) (keyval (generate_ecdsa_key env)) False))) \<and> isl t \<or>
      (\<exists>pw c. encrypt_key env (generate_ecdsa_key env) pw = Inr c \<and>
         files u' = (files w)(used_filepath fp (keyid (generate_ecdsa_key env)) w @ ''.pub'' \<mapsto>
             (json_dumps env (format_keyval_to_metadata (keytype (generate_ecdsa_key env))
              (scheme (generate_ecdsa_key env)) (keyval (generate_ecdsa_key env)) False)),
           used_filepath fp (keyid (generate_ecdsa_key env)) w \<mapsto> c) \<and>
         t = Inr (used_filepath fp (keyid (generate_ecdsa_key env)) w)))"
proof (intro conjI impI)
  assume h: "generate_and_write_rsa_keypair env fp bits password w = Some (r, w')"
  show "files w' = files w \<and> isl r \<or>
      files w' = (files w)(used_filepath fp (keyid (generate_rsa_key env bits)) w @ ''.pub'' \<mapsto>
          kv_public (keyval (generate_rsa_key env bits))) \<and> isl r \<or>
      (\<exists>c. (c = kv_private (keyval (generate_rsa_key env bits)) \<or>
            (\<exists>pw. create_rsa_encrypted_pem env
                     (kv_private (keyval (generate_rsa_key env bits))) pw = Inr c)) \<and>
         files w' = (files w)(used_filepath fp (keyid (generate_rsa_key env bits)) w @ ''.pub'' \<mapsto>
             kv_public (keyval (generate_rsa_key env bits)),
           used_filepath fp (keyid (generate_rsa_key env bits)) w \<mapsto> c) \<and>
         r = Inr (used_filepath fp (keyid (generate_rsa_key env bits)) w))"
  proof (cases r)
    case (Inl e)
    with h have "files w' = files w \<or>
      files w' = (files w)(used_filepath fp (keyid (generate_rsa_key env bits)) w @ ''.pub'' \<mapsto>
          kv_public (keyval (generate_rsa_key env bits)))"
      by (intro generate_rsa_failure [of env fp bits password w e w']) simp
    with Inl show ?thesis by auto
  next
    case (Inr x)
    with h have hx: "generate_and_write_rsa_keypair env fp bits password w = Some (Inr x, w')"
      by simp
    from generate_rsa_success [OF hx] Inr show ?thesis
      by (intro disjI2) (auto split: if_splits)
  qed
next
  assume h: "generate_and_write_ed25519_keypair env fp password w = Some (s, v')"
  show "files v' = files w \<and> isl s \<or>
      files v' = (files w)(used_filepath fp (keyid (generate_ed25519_key env)) w @ ''.pub'' \<mapsto>
          (json_dumps env (format_keyval_to_metadata (keytype (generate_ed25519_key env))
              (scheme (generate_ed25519_key env)) (keyval (generate_ed25519_key env)) False))) \<and> isl s \<or>
      (\<exists>pw c. encrypt_key env (generate_ed25519_key env) pw = Inr c \<and>
         files v' = (files w)(used_filepath fp (keyid (generate_ed25519_key env)) w @ ''.pub'' \<mapsto>
             (json_dumps env (format_keyval_to_metadata (keytype (generate_ed25519_key env))
              (scheme (generate_ed25519_key env)) (keyval (generate_ed25519_key env)) False)),
           used_filepath fp (keyid (generate_ed25519_key env)) w \<mapsto> c) \<and>
         s = Inr (used_filepath fp (keyid (generate_ed25519_key env)) w))"
  proof (cases s)
    case (Inl e)
    with h have "files v' = files w \<or>
      files v' = (files w)(used_filepath fp (keyid (generate_ed25519_key env)) w @ ''.pub'' \<mapsto>
          (json_dumps env (format_keyval_to_metadata (keytype (generate_ed25519_key env))
              (scheme (generate_ed25519_key env)) (keyval (generate_ed25519_key env)) False)))"
      by (intro generate_ed25519_failure [of env fp password w e v']) simp
    with Inl show ?thesis by auto
  next
    case (Inr x)
    with h have hx: "generate_and_write_ed25519_keypair env fp password w = Some (Inr x, v')"
      by simp
    from generate_ed25519_success [OF hx] Inr show ?thesis
      by (intro disjI2) auto
  qed
next
  assume h: "generate_and_write_ecdsa_keypair env fp password w = Some (t, u')"
  show "files u' = files w \<and> isl t \<or>
      files u' = (files w)(used_filepath fp (keyid (generate_ecdsa_key env)) w @ ''.pub'' \<mapsto>
          (json_dumps env (format_keyval_to_metadata (keytype (generate_ecdsa_key env))
              (scheme (generate_ecdsa_key env)) (keyval (generate_ecdsa_key env)) False))) \<and> isl t \<or>
      (\<exists>pw c. encrypt_key env (generate_ecdsa_key env) pw = Inr c \<and>
         files u' = (files w)(used_filepath fp (keyid (generate_ecdsa_key env)) w @ ''.pub'' \<mapsto>
             (json_dumps env (format_keyval_to_metadata (keytype (generate_ecdsa_key env))
              (scheme (generate_ecdsa_key env)) (keyval (generate_ecdsa_key env)) False)),
           used_filepath fp (keyid (generate_ecdsa_key env)) w \<mapsto> c) \<and>
         t = Inr (used_filepath fp (keyid (generate_ecdsa_key env)) w))"
  proof (cases t)
    case (Inl e)
    with h have "files u' = files w \<or>
      files u' = (files w)(used_filepath fp (keyid (generate_ecdsa_key env)) w @ ''.pub'' \<mapsto>
          (json_dumps env (format_keyval_to_metadata (keytype (generate_ecdsa_key env))
              (scheme (generate_ecdsa_key env)) (keyval (generate_ecdsa_key env)) False)))"
      by (intro generate_ecdsa_failure [of env fp password w e u']) simp
    with Inl show ?thesis by auto
  next
    case (Inr x)
    with h have hx: "generate_and_write_ecdsa_keypair env fp password w = Some (Inr x, u')"
      by simp
    from generate_ecdsa_success [OF hx] Inr show ?thesis
      by (intro disjI2) auto
  qed
qed

theorem key_file_writes_atomic_witness:
  "generate_and_write_rsa_keypair demo_env (Some ''k'') DEFAULT_RSA_KEY_BITS (Some ''pw'')
       (demo_world\<lparr>files := [''k'' \<mapsto> ''old''], io_faults := [False, False, False, False, False, True]\<rparr>) =
     Some (Inl IOError,
       demo_world\<lparr>files := [''k'' \<mapsto> ''old'', ''k.pub'' \<mapsto> ''PUBLIC-PEM''],
         calls := [Call_create_rsa_encrypted_pem ''PRIVATE-PEM'' ''pw'']\<rparr>) \<and>
   generate_and_write_ed25519_keypair demo_env (Some ''k'') (Some ''pw'')
       (demo_world\<lparr>files := [''k'' \<mapsto> ''old''], io_faults := [False, False, True]\<rparr>) =
     Some (Inl IOError, demo_world\<lparr>files := [''k'' \<mapsto> ''old'']\<rparr>) \<and>
   generate_and_write_ecdsa_keypair demo_env (Some ''k'') (Some ''pw'')
       (demo_world\<lparr>files := [''k'' \<mapsto> ''old''], io_faults := [False, False, False, False, False, False, True]\<rparr>) =
     Some (Inl IOError,
       demo_world\<lparr>files := [''k'' \<mapsto> ''old'', ''k.pub'' \<mapsto>
           ''{keytype:ecdsa-sha2-nistp256;scheme:ecdsa-sha2-nistp256;keyval:{public:ecpub;};}''],
         calls := [Call_encrypt_key demo_ecdsa_key ''pw'']\<rparr>)"
proof -
  let ?w1 = "demo_world\<lparr>files := [''k'' \<mapsto> ''old''], io_faults := [False, False, False, False, False, True]\<rparr>"
  let ?w2 = "demo_world\<lparr>files := [''k'' \<mapsto> ''old''], io_faults := [False, False, True]\<rparr>"
  let ?w3 = "demo_world\<lparr>files := [''k'' \<mapsto> ''old''], io_faults := [False, False, False, False, False, False, True]\<rparr>"
  have h1: "generate_and_write_rsa_keypair demo_env (Some ''k'') DEFAULT_RSA_KEY_BITS (Some ''pw'') ?w1 =
     Some (Inl IOError,
       demo_world\<lparr>files := [''k'' \<mapsto> ''old'', ''k.pub'' \<mapsto> ''PUBLIC-PEM''],
         calls := [Call_create_rsa_encrypted_pem ''PRIVATE-PEM'' ''pw'']\<rparr>)"
    unfolding generate_and_write_rsa_keypair_def
    by (simp add: eval_defs DEFAULT_RSA_KEY_BITS_def)
  have h2: "generate_and_write_ed25519_keypair demo_env (Some ''k'') (Some ''pw'') ?w2 =
     Some (Inl IOError, demo_world\<lparr>files := [''k'' \<mapsto> ''old'']\<rparr>)"
    unfolding generate_and_write_ed25519_keypair_def
    by (simp add: eval_defs)
  have h3: "generate_and_write_ecdsa_keypair demo_env (Some ''k'') (Some ''pw'') ?w3 =
     Some (Inl IOError,
       demo_world\<lparr>files := [''k'' \<mapsto> ''old'', ''k.pub'' \<mapsto>
           ''{keytype:ecdsa-sha2-nistp256;scheme:ecdsa-sha2-nistp256;keyval:{public:ecpub;};}''],
         calls := [Call_encrypt_key demo_ecdsa_key ''pw'']\<rparr>)"
    unfolding generate_and_write_ecdsa_keypair_def
    by (simp add: eval_defs)
  note a = key_file_writes_atomic [THEN conjunct1, rule_format, OF h1]
    key_file_writes_atomic [THEN conjunct2, THEN conjunct1, rule_format, OF h2]
    key_file_writes_atomic [THEN conjunct2, THEN conjunct2, rule_format, OF h3]
  from a h1 h2 h3 show ?thesis by (intro conjI) (simp_all only:)
qed

text \<open>
  C6. In \<open>generate_and_write_ed25519_keypair\<close> and \<open>generate_and_write_ecdsa_keypair\<close> the
  public file is moved into place before \<open>encrypt_key\<close> is called. When the call of
  \<open>encrypt_key\<close> raises, the function fails with that error, \<^verbatim>\<open><filepath>.pub\<close> holds the
  public payload, and the file at \<^verbatim>\<open><filepath>\<close> is as it was before the call: no private
  file has been created.
\<close>

theorem encrypt_failure_leaves_public_file:
  "(generate_and_write_ed25519_keypair env fp password w = Some (r, w') \<and>
    calls w' = calls w @ [Call_encrypt_key (generate_ed25519_key env) pw] \<and>
    encrypt_key env (generate_ed25519_key env) pw = Inl e \<longrightarrow>
      r = Inl e \<and>
      files w' (used_filepath fp (keyid (generate_ed25519_key env)) w @ ''.pub'') =
        Some (json_dumps env (format_keyval_to_metadata (keytype (generate_ed25519_key env))
            (scheme (generate_ed25519_key env)) (keyval (generate_ed25519_key env)) False)) \<and>
      files w' (used_filepath fp (keyid (generate_ed25519_key env)) w) =
        files w (used_filepath fp (keyid (generate_ed25519_key env)) w)) \<and>
   (generate_and_write_ecdsa_keypair env fp password w = Some (s, v') \<and>
    calls v' = calls w @ [Call_encrypt_key (generate_ecdsa_key env) pw] \<and>
    encrypt_key env (generate_ecdsa_key env) pw = Inl e \<longrightarrow>
      s = Inl e \<and>
      files v' (used_filepath fp (keyid (generate_ecdsa_key env)) w @ ''.pub'') =
        Some (json_dumps env (format_keyval_to_metadata (keytype (generate_ecdsa_key env))
            (scheme (generate_ecdsa_key env)) (keyval (generate_ecdsa_key env)) False)) \<and>
      files v' (used_filepath fp (keyid (generate_ecdsa_key env)) w) =
        files w (used_filepath fp (keyid (generate_ecdsa_key env)) w))"
proof (rule conjI)
  show "generate_and_write_ed25519_keypair env fp password w = Some (r, w') \<and>
    calls w' = calls w @ [Call_encrypt_key (generate_ed25519_key env) pw] \<and>
    encrypt_key env (generate_ed25519_key env) pw = Inl e \<longrightarrow>
      r = Inl e \<and>
      files w' (used_filepath fp (keyid (generate_ed25519_key env)) w @ ''.pub'') =
        Some (json_dumps env (format_keyval_to_metadata (keytype (generate_ed25519_key env))
            (scheme (generate_ed25519_key env)) (keyval (generate_ed25519_key env)) False)) \<and>
      files w' (used_filepath fp (keyid (generate_ed25519_key env)) w) =
        files w (used_filepath fp (keyid (generate_ed25519_key env)) w)"
  proof (rule impI)
    assume h: "generate_and_write_ed25519_keypair env fp password w = Some (r, w') \<and>
    calls w' = calls w @ [Call_encrypt_key (generate_ed25519_key env) pw] \<and>
    encrypt_key env (generate_ed25519_key env) pw = Inl e"
    then have "r = Inl e \<and>
        files w' = (files w)(used_filepath fp (keyid (generate_ed25519_key env)) w @ ''.pub'' \<mapsto>
            json_dumps env (format_keyval_to_metadata (keytype (generate_ed25519_key env))
            (scheme (generate_ed25519_key env)) (keyval (generate_ed25519_key env)) False))"
      by (intro generate_ed25519_encrypt_fails [of env fp password w r w' pw e]) simp_all
    then show "r = Inl e \<and>
      files w' (used_filepath fp (keyid (generate_ed25519_key env)) w @ ''.pub'') =
        Some (json_dumps env (format_keyval_to_metadata (keytype (generate_ed25519_key env))
            (scheme (generate_ed25519_key env)) (keyval (generate_ed25519_key env)) False)) \<and>
      files w' (used_filepath fp (keyid (generate_ed25519_key env)) w) =
        files w (used_filepath fp (keyid (generate_ed25519_key env)) w)"
      by simp
  qed
next
  show "generate_and_write_ecdsa_keypair env fp password w = Some (s, v') \<and>
    calls v' = calls w @ [Call_encrypt_key (generate_ecdsa_key env) pw] \<and>
    encrypt_key env (generate_ecdsa_key env) pw = Inl e \<longrightarrow>
      s = Inl e \<and>
      files v' (used_filepath fp (keyid (generate_ecdsa_key env)) w @ ''.pub'') =
        Some (json_dumps env (format_keyval_to_metadata (keytype (generate_ecdsa_key env))
            (scheme (generate_ecdsa_key env)) (keyval (generate_ecdsa_key env)) False)) \<and>
      files v' (used_filepath fp (keyid (generate_ecdsa_key env)) w) =
        files w (used_filepath fp (keyid (generate_ecdsa_key env)) w)"
  proof (rule impI)
    assume h: "generate_and_write_ecdsa_keypair env fp password w = Some (s, v') \<and>
    calls v' = calls w @ [Call_encrypt_key (generate_ecdsa_key env) pw] \<and>
    encrypt_key env (generate_ecdsa_key env) pw = Inl e"
    then have "s = Inl e \<and>
        files v' = (files w)(used_filepath fp (keyid (generate_ecdsa_key env)) w @ ''.pub'' \<mapsto>
            json_dumps env (format_keyval_to_metadata (keytype (generate_ecdsa_key env))
            (scheme (generate_ecdsa_key env)) (keyval (generate_ecdsa_key env)) False))"
      by (intro generate_ecdsa_encrypt_fails [of env fp password w s v' pw e]) simp_all
    then show "s = Inl e \<and>
      files v' (used_filepath fp (keyid (generate_ecdsa_key env)) w @ ''.pub'') =
        Some (json_dumps env (format_keyval_to_metadata (keytype (generate_ecdsa_key env))
            (scheme (generate_ecdsa_key env)) (keyval (generate_ecdsa_key env)) False)) \<and>
      files v' (used_filepath fp (keyid (generate_ecdsa_key env)) w) =
        files w (used_filepath fp (keyid (generate_ecdsa_key env)) w)"
      by simp
  qed
qed

theorem encrypt_failure_leaves_public_file_witness:
  "generate_and_write_ed25519_keypair
       (demo_env\<lparr>encrypt_key := (\<lambda>k password. Inl (CryptoError ''cannot encrypt''))\<rparr>)
       (Some ''k'') (Some ''pw'') demo_world =
     Some (Inl (CryptoError ''cannot encrypt''),
       demo_world\<lparr>files := [''k.pub'' \<mapsto> ''{keytype:ed25519;scheme:ed25519;keyval:{public:edpub;};}''],
         calls := [Call_encrypt_key demo_ed25519_key ''pw'']\<rparr>) \<and>
   generate_and_write_ecdsa_keypair
       (demo_env\<lparr>encrypt_key := (\<lambda>k password. Inl (CryptoError ''cannot encrypt''))\<rparr>)
       (Some ''k'') (Some ''pw'') demo_world =
     Some (Inl (CryptoError ''cannot encrypt''),
       demo_world\<lparr>files := [''k.pub'' \<mapsto>
           ''{keytype:ecdsa-sha2-nistp256;scheme:ecdsa-sha2-nistp256;keyval:{public:ecpub;};}''],
         calls := [Call_encrypt_key demo_ecdsa_key ''pw'']\<rparr>) \<and>
   files (demo_world\<lparr>files := [''k.pub'' \<mapsto> ''{keytype:ed25519;scheme:ed25519;keyval:{public:edpub;};}''],
         calls := [Call_encrypt_key demo_ed25519_key ''pw'']\<rparr>) ''k'' = None"
proof -
  let ?env = "demo_env\<lparr>encrypt_key := (\<lambda>k password. Inl (CryptoError ''cannot encrypt''))\<rparr>"
  let ?v = "demo_world\<lparr>files := [''k.pub'' \<mapsto> ''{keytype:ed25519;scheme:ed25519;keyval:{public:edpub;};}''],
         calls := [Call_encrypt_key demo_ed25519_key ''pw'']\<rparr>"
  let ?u = "demo_world\<lparr>files := [''k.pub'' \<mapsto>
           ''{keytype:ecdsa-sha2-nistp256;scheme:ecdsa-sha2-nistp256;keyval:{public:ecpub;};}''],
         calls := [Call_encrypt_key demo_ecdsa_key ''pw'']\<rparr>"
  obtain r1 where h1: "generate_and_write_ed25519_keypair ?env (Some ''k'') (Some ''pw'') demo_world =
      Some (r1, ?v)"
    unfolding generate_and_write_ed25519_keypair_def
    by (simp add: eval_defs)
  obtain r2 where h2: "generate_and_write_ecdsa_keypair ?env (Some ''k'') (Some ''pw'') demo_world =
      Some (r2, ?u)"
    unfolding generate_and_write_ecdsa_keypair_def
    by (simp add: eval_defs)
  have c1: "calls ?v = calls demo_world @ [Call_encrypt_key (generate_ed25519_key ?env) ''pw'']"
    by (simp add: demo_world_def demo_env_def)
  have c2: "calls ?u = calls demo_world @ [Call_encrypt_key (generate_ecdsa_key ?env) ''pw'']"
    by (simp add: demo_world_def demo_env_def)
  have e1: "encrypt_key ?env (generate_ed25519_key ?env) ''pw'' = Inl (CryptoError ''cannot encrypt'')"
    by simp
  have e2: "encrypt_key ?env (generate_ecdsa_key ?env) ''pw'' = Inl (CryptoError ''cannot encrypt'')"
    by simp
  from encrypt_failure_leaves_public_file [THEN conjunct1, rule_format, OF conjI [OF h1 conjI [OF c1 e1]]]
  have r1: "r1 = Inl (CryptoError ''cannot encrypt'')"
    and f1: "files ?v (used_filepath (Some ''k'') (keyid (generate_ed25519_key ?env)) demo_world) =
        files demo_world (used_filepath (Some ''k'') (keyid (generate_ed25519_key ?env)) demo_world)"
    by simp_all
  from encrypt_failure_leaves_public_file [THEN conjunct2, rule_format, OF conjI [OF h2 conjI [OF c2 e2]]]
  have r2: "r2 = Inl (CryptoError ''cannot encrypt'')"
    by simp
  from f1 have "files ?v ''k'' = None"
    by (simp add: used_filepath_def demo_world_def)
  with h1 h2 r1 r2 show ?thesis by simp
qed

text \<open>
  C7. When the caller gives no filepath (\<open>None\<close> or the empty string), a creation call that
  succeeds returns \<^verbatim>\<open>os.path.join(os.getcwd(), keyid)\<close>, the private file is at that path and
  the public file at that path followed by \<^verbatim>\<open>.pub\<close>. For a working directory that does
  not end in a slash and a keyid that does not start with one the path is
  \<^verbatim>\<open><cwd>/<keyid>\<close>.
\<close>

theorem default_filepath_is_keyid:
  "(fp = None \<or> fp = Some [] \<longrightarrow>
     (generate_and_write_rsa_keypair env fp bits password w = Some (Inr x, w') \<longrightarrow>
        x = os_path_join (cwd w) (keyid (generate_rsa_key env bits)) \<and>
        files w' (x @ ''.pub'') = Some (kv_public (keyval (generate_rsa_key env bits))) \<and>
        (\<exists>c. files w' x = Some c)) \<and>
     (generate_and_write_ed25519_keypair env fp password w = Some (Inr y, v') \<longrightarrow>
        y = os_path_join (cwd w) (keyid (generate_ed25519_key env)) \<and>
        files v' (y @ ''.pub'') = Some (json_dumps env (format_keyval_to_metadata (keytype (generate_ed25519_key env))
            (scheme (generate_ed25519_key env)) (keyval (generate_ed25519_key env)) False)) \<and>
        (\<exists>c. files v' y = Some c)) \<and>
     (generate_and_write_ecdsa_keypair env fp password w = Some (Inr z, u') \<longrightarrow>
        z = os_path_join (cwd w) (keyid (generate_ecdsa_key env)) \<and>
        files u' (z @ ''.pub'') = Some (json_dumps env (format_keyval_to_metadata (keytype (generate_ecdsa_key env))
            (scheme (generate_ecdsa_key env)) (keyval (generate_ecdsa_key env)) False)) \<and>
        (\<exists>c. files u' z = Some c))) \<and>
   (a \<noteq> [] \<and> \<not> ends_with_slash a \<and> \<not> starts_with_slash kid \<longrightarrow>
      os_path_join a kid = a @ ''/'' @ kid)"
proof (rule conjI)
  show "fp = None \<or> fp = Some [] \<longrightarrow>
     (generate_and_write_rsa_keypair env fp bits password w = Some (Inr x, w') \<longrightarrow>
        x = os_path_join (cwd w) (keyid (generate_rsa_key env bits)) \<and>
        files w' (x @ ''.pub'') = Some (kv_public (keyval (generate_rsa_key env bits))) \<and>
        (\<exists>c. files w' x = Some c)) \<and>
     (generate_and_write_ed25519_keypair env fp password w = Some (Inr y, v') \<longrightarrow>
        y = os_path_join (cwd w) (keyid (generate_ed25519_key env)) \<and>
        files v' (y @ ''.pub'') = Some (json_dumps env (format_keyval_to_metadata (keytype (generate_ed25519_key env))
            (scheme (generate_ed25519_key env)) (keyval (generate_ed25519_key env)) False)) \<and>
        (\<exists>c. files v' y = Some c)) \<and>
     (generate_and_write_ecdsa_keypair env fp password w = Some (Inr z, u') \<longrightarrow>
        z = os_path_join (cwd w) (keyid (generate_ecdsa_key env)) \<and>
        files u' (z @ ''.pub'') = Some (json_dumps env (format_keyval_to_metadata (keytype (generate_ecdsa_key env))
            (scheme (generate_ecdsa_key env)) (keyval (generate_ecdsa_key env)) False)) \<and>
        (\<exists>c. files u' z = Some c))"
  proof (rule impI)
    assume fp: "fp = None \<or> fp = Some []"
    have p1: "generate_and_write_rsa_keypair env fp bits password w = Some (Inr x, w') \<longrightarrow>
        x = os_path_join (cwd w) (keyid (generate_rsa_key env bits)) \<and>
        files w' (x @ ''.pub'') = Some (kv_public (keyval (generate_rsa_key env bits))) \<and>
        (\<exists>c. files w' x = Some c)"
    proof (rule impI)
      assume h: "generate_and_write_rsa_keypair env fp bits password w = Some (Inr x, w')"
      from generate_rsa_success [OF h] fp show "x = os_path_join (cwd w) (keyid (generate_rsa_key env bits)) \<and>
        files w' (x @ ''.pub'') = Some (kv_public (keyval (generate_rsa_key env bits))) \<and>
        (\<exists>c. files w' x = Some c)"
        by (auto simp: used_filepath_def split: if_splits)
    qed
    have p2: "generate_and_write_ed25519_keypair env fp password w = Some (Inr y, v') \<longrightarrow>
        y = os_path_join (cwd w) (keyid (generate_ed25519_key env)) \<and>
        files v' (y @ ''.pub'') = Some (json_dumps env (format_keyval_to_metadata (keytype (generate_ed25519_key env))
            (scheme (generate_ed25519_key env)) (keyval (generate_ed25519_key env)) False)) \<and>
        (\<exists>c. files v' y = Some c)"
    proof (rule impI)
      assume h: "generate_and_write_ed25519_keypair env fp password w = Some (Inr y, v')"
      from generate_ed25519_success [OF h] fp show "y = os_path_join (cwd w) (keyid (generate_ed25519_key env)) \<and>
        files v' (y @ ''.pub'') = Some (json_dumps env (format_keyval_to_metadata (keytype (generate_ed25519_key env))
            (scheme (generate_ed25519_key env)) (keyval (generate_ed25519_key env)) False)) \<and>
        (\<exists>c. files v' y = Some c)"
        by (auto simp: used_filepath_def)
    qed
    have p3: "generate_and_write_ecdsa_keypair env fp password w = Some (Inr z, u') \<longrightarrow>
        z = os_path_join (cwd w) (keyid (generate_ecdsa_key env)) \<and>
        files u' (z @ ''.pub'') = Some (json_dumps env (format_keyval_to_metadata (keytype (generate_ecdsa_key env))
            (scheme (generate_ecdsa_key env)) (keyval (generate_ecdsa_key env)) False)) \<and>
        (\<exists>c. files u' z = Some c)"
    proof (rule impI)
      assume h: "generate_and_write_ecdsa_keypair env fp password w = Some (Inr z, u')"
      from generate_ecdsa_success [OF h] fp show "z = os_path_join (cwd w) (keyid (generate_ecdsa_key env)) \<and>
        files u' (z @ ''.pub'') = Some (json_dumps env (format_keyval_to_metadata (keytype (generate_ecdsa_key env))
            (scheme (generate_ecdsa_key env)) (keyval (generate_ecdsa_key env)) False)) \<and>
        (\<exists>c. files u' z = Some c)"
        by (auto simp: used_filepath_def)
    qed
    show "(generate_and_write_rsa_keypair env fp bits password w = Some (Inr x, w') \<longrightarrow>
        x = os_path_join (cwd w) (keyid (generate_rsa_key env bits)) \<and>
        files w' (x @ ''.pub'') = Some (kv_public (keyval (generate_rsa_key env bits))) \<and>
        (\<exists>c. files w' x = Some c)) \<and>
     (generate_and_write_ed25519_keypair env fp password w = Some (Inr y, v') \<longrightarrow>
        y = os_path_join (cwd w) (keyid (generate_ed25519_key env)) \<and>
        files v' (y @ ''.pub'') = Some (json_dumps env (format_keyval_to_metadata (keytype (generate_ed25519_key env))
            (scheme (generate_ed25519_key env)) (keyval (generate_ed25519_key env)) False)) \<and>
        (\<exists>c. files v' y = Some c)) \<and>
     (generate_and_write_ecdsa_keypair env fp password w = Some (Inr z, u') \<longrightarrow>
        z = os_path_join (cwd w) (keyid (generate_ecdsa_key env)) \<and>
        files u' (z @ ''.pub'') = Some (json_dumps env (format_keyval_to_metadata (keytype (generate_ecdsa_key env))
            (scheme (generate_ecdsa_key env)) (keyval (generate_ecdsa_key env)) False)) \<and>
        (\<exists>c. files u' z = Some c))"
      by (rule conjI [OF p1 conjI [OF p2 p3]])
  qed
next
  show "a \<noteq> [] \<and> \<not> ends_with_slash a \<and> \<not> starts_with_slash kid \<longrightarrow>
      os_path_join a kid = a @ ''/'' @ kid"
    by (simp add: os_path_join_def)
qed

theorem default_filepath_is_keyid_witness:
  "generate_and_write_rsa_keypair demo_env None DEFAULT_RSA_KEY_BITS (Some ''pw'') demo_world =
     Some (Inr ''/home/u/1a2b'',
       demo_world\<lparr>files := [''/home/u/1a2b.pub'' \<mapsto> ''PUBLIC-PEM'',
                           ''/home/u/1a2b'' \<mapsto> ''ENC[pw]PRIVATE-PEM''],
         dirs := {''/home/u''},
         calls := [Call_create_rsa_encrypted_pem ''PRIVATE-PEM'' ''pw'']\<rparr>) \<and>
   generate_and_write_ed25519_keypair demo_env (Some []) (Some ''pw'') demo_world =
     Some (Inr ''/home/u/3c4d'',
       demo_world\<lparr>files := [''/home/u/3c4d.pub'' \<mapsto>
             ''{keytype:ed25519;scheme:ed25519;keyval:{public:edpub;};}'',
                           ''/home/u/3c4d'' \<mapsto> ''ENC[pw]ed25519''],
         dirs := {''/home/u''},
         calls := [Call_encrypt_key demo_ed25519_key ''pw'']\<rparr>) \<and>
   generate_and_write_ecdsa_keypair demo_env None (Some ''pw'') demo_world =
     Some (Inr ''/home/u/5e6f'',
       demo_world\<lparr>files := [''/home/u/5e6f.pub'' \<mapsto>
             ''{keytype:ecdsa-sha2-nistp256;scheme:ecdsa-sha2-nistp256;keyval:{public:ecpub;};}'',
                           ''/home/u/5e6f'' \<mapsto> ''ENC[pw]ecdsa-sha2-nistp256''],
         dirs := {''/home/u''},
         calls := [Call_encrypt_key demo_ecdsa_key ''pw'']\<rparr>) \<and>
   os_path_join (cwd demo_world) (keyid (generate_rsa_key demo_env DEFAULT_RSA_KEY_BITS)) =
     ''/home/u/1a2b''"
proof -
  obtain x1 where h1: "generate_and_write_rsa_keypair demo_env None DEFAULT_RSA_KEY_BITS (Some ''pw'')
      demo_world =
     Some (Inr x1,
       demo_world\<lparr>files := [''/home/u/1a2b.pub'' \<mapsto> ''PUBLIC-PEM'',
                           ''/home/u/1a2b'' \<mapsto> ''ENC[pw]PRIVATE-PEM''],
         dirs := {''/home/u''},
         calls := [Call_create_rsa_encrypted_pem ''PRIVATE-PEM'' ''pw'']\<rparr>)"
    unfolding generate_and_write_rsa_keypair_def
    by (simp add: eval_defs DEFAULT_RSA_KEY_BITS_def)
  obtain x2 where h2: "generate_and_write_ed25519_keypair demo_env (Some []) (Some ''pw'') demo_world =
     Some (Inr x2,
       demo_world\<lparr>files := [''/home/u/3c4d.pub'' \<mapsto>
             ''{keytype:ed25519;scheme:ed25519;keyval:{public:edpub;};}'',
                           ''/home/u/3c4d'' \<mapsto> ''ENC[pw]ed25519''],
         dirs := {''/home/u''},
         calls := [Call_encrypt_key demo_ed25519_key ''pw'']\<rparr>)"
    unfolding generate_and_write_ed25519_keypair_def
    by (simp add: eval_defs)
  obtain x3 where h3: "generate_and_write_ecdsa_keypair demo_env None (Some ''pw'') demo_world =
     Some (Inr x3,
       demo_world\<lparr>files := [''/home/u/5e6f.pub'' \<mapsto>
             ''{keytype:ecdsa-sha2-nistp256;scheme:ecdsa-sha2-nistp256;keyval:{public:ecpub;};}'',
                           ''/home/u/5e6f'' \<mapsto> ''ENC[pw]ecdsa-sha2-nistp256''],
         dirs := {''/home/u''},
         calls := [Call_encrypt_key demo_ecdsa_key ''pw'']\<rparr>)"
    unfolding generate_and_write_ecdsa_keypair_def
    by (simp add: eval_defs)
  have j: "cwd demo_world \<noteq> [] \<and> \<not> ends_with_slash (cwd demo_world) \<and>
      \<not> starts_with_slash (keyid (generate_rsa_key demo_env DEFAULT_RSA_KEY_BITS))"
    by (simp add: demo_world_def demo_env_def demo_rsa_key_def ends_with_slash_def
          starts_with_slash_def)
  have n: "(None :: string option) = None \<or> (None :: string option) = Some []"
    by simp
  have e: "Some [] = (None :: string option) \<or> Some ([] :: string) = Some []"
    by simp
  from default_filepath_is_keyid [THEN conjunct1, rule_format, OF n, THEN conjunct1, rule_format, OF h1]
  have x1: "x1 = ''/home/u/1a2b''"
    by (simp add: eval_defs)
  from default_filepath_is_keyid [THEN conjunct1, rule_format, OF e, THEN conjunct2, THEN conjunct1,
      rule_format, OF h2]
  have x2: "x2 = ''/home/u/3c4d''"
    by (simp add: eval_defs)
  from default_filepath_is_keyid [THEN conjunct1, rule_format, OF n, THEN conjunct2, THEN conjunct2,
      rule_format, OF h3]
  have x3: "x3 = ''/home/u/5e6f''"
    by (simp add: eval_defs)
  from default_filepath_is_keyid [THEN conjunct2, rule_format, OF j]
  have p: "os_path_join (cwd demo_world) (keyid (generate_rsa_key demo_env DEFAULT_RSA_KEY_BITS)) =
     ''/home/u/1a2b''"
    by (simp add: demo_world_def demo_env_def demo_rsa_key_def)
  from h1 h2 h3 x1 x2 x3 p show ?thesis by simp
qed

text \<open>
  C8. Every entry point that takes a password uses a password the caller gives, the empty
  string included, as it is. Nothing is written to the terminal or read from it. The
  password goes through \<^verbatim>\<open>PASSWORD_SCHEMA.check_match\<close>, whose error is the result; when it
  passes, the key routine is called with that password (the RSA routines: no encryption
  for the empty one on creation, and the absent marker for it on import, their way to say
  that the key is not encrypted) and its result decides the result of the call. No other
  call of a key routine is made. Only the absent password \<open>None\<close> prompts: once the checks
  before the prompt have passed, exactly one prompt is written, exactly one entry is read
  if there is one, and the end of input raises \<^verbatim>\<open>EOFError\<close>.
\<close>

theorem given_password_never_prompts:
  "(generate_and_write_rsa_keypair env fp bits (Some pw) w = Some (r, w') \<longrightarrow>
      tty_pos w' = tty_pos w \<and> stderr w' = stderr w \<and> stdout w' = stdout w \<and>
      (calls w' = calls w \<or>
       pw \<noteq> [] \<and> calls w' = calls w @ [Call_create_rsa_encrypted_pem (kv_private (keyval (generate_rsa_key env bits))) pw]) \<and>
      (RSAKEYBITS_SCHEMA_check_match env bits = Inr () \<and>
       PATH_SCHEMA_check_match env (used_filepath fp (keyid (generate_rsa_key env bits)) w) = Inr () \<longrightarrow>
         (\<forall>e. PASSWORD_SCHEMA_check_match env pw = Inl e \<longrightarrow>
           r = Inl e \<and> calls w' = calls w \<and> files w' = files w) \<and>
         (PASSWORD_SCHEMA_check_match env pw = Inr () \<longrightarrow>
           calls w' =
             (if pw = [] then calls w
              else calls w @ [Call_create_rsa_encrypted_pem (kv_private (keyval (generate_rsa_key env bits))) pw]) \<and>
           (io_faults w = [] \<longrightarrow>
              (pw = [] \<longrightarrow>
                 r = Inr (used_filepath fp (keyid (generate_rsa_key env bits)) w) \<and>
                 files w' (used_filepath fp (keyid (generate_rsa_key env bits)) w) = Some (kv_private (keyval (generate_rsa_key env bits)))) \<and>
              (\<forall>c. pw \<noteq> [] \<longrightarrow>
                 create_rsa_encrypted_pem env (kv_private (keyval (generate_rsa_key env bits))) pw = Inr c \<longrightarrow>
                   r = Inr (used_filepath fp (keyid (generate_rsa_key env bits)) w) \<and>
                   files w' (used_filepath fp (keyid (generate_rsa_key env bits)) w) = Some c))))) \<and>
   (generate_and_write_rsa_keypair env fp bits None w = Some (r, w') \<and>
      RSAKEYBITS_SCHEMA_check_match env bits = Inr () \<and>
      PATH_SCHEMA_check_match env (used_filepath fp (keyid (generate_rsa_key env bits)) w) = Inr () \<longrightarrow>
      stderr w' = stderr w @
        [''Enter a password for the encrypted RSA key ('' @ Fore_RED @
           os_path_basename (used_filepath fp (keyid (generate_rsa_key env bits)) w) @ Fore_RESET @ ''): ''] \<and>
      stdout w' = stdout w \<and>
      tty_pos w' = (if tty_in w (tty_pos w) = None then tty_pos w else tty_pos w + 1) \<and>
      (tty_in w (tty_pos w) = None \<longrightarrow> r = Inl EOFError)) \<and>
   (generate_and_write_ed25519_keypair env fp (Some pw) w = Some (r, w') \<longrightarrow>
      tty_pos w' = tty_pos w \<and> stderr w' = stderr w \<and> stdout w' = stdout w \<and>
      (calls w' = calls w \<or> calls w' = calls w @ [Call_encrypt_key (generate_ed25519_key env) pw]) \<and>
      (PATH_SCHEMA_check_match env (used_filepath fp (keyid (generate_ed25519_key env)) w) = Inr () \<longrightarrow>
         (\<forall>e. PASSWORD_SCHEMA_check_match env pw = Inl e \<longrightarrow>
           r = Inl e \<and> calls w' = calls w \<and> files w' = files w) \<and>
         (PASSWORD_SCHEMA_check_match env pw = Inr () \<longrightarrow>
           (io_faults w = [] \<longrightarrow>
              calls w' = calls w @ [Call_encrypt_key (generate_ed25519_key env) pw] \<and>
              (\<forall>e. encrypt_key env (generate_ed25519_key env) pw = Inl e \<longrightarrow> r = Inl e) \<and>
              (\<forall>c. encrypt_key env (generate_ed25519_key env) pw = Inr c \<longrightarrow>
                 r = Inr (used_filepath fp (keyid (generate_ed25519_key env)) w) \<and>
                 files w' (used_filepath fp (keyid (generate_ed25519_key env)) w) = Some c))))) \<and>
   (generate_and_write_ed25519_keypair env fp None w = Some (r, w') \<and>
      PATH_SCHEMA_check_match env (used_filepath fp (keyid (generate_ed25519_key env)) w) = Inr () \<longrightarrow>
      stderr w' = stderr w @
        [''Enter a password for the Ed25519 key ('' @ Fore_RED @
           os_path_basename (used_filepath fp (keyid (generate_ed25519_key env)) w) @ Fore_RESET @ ''): ''] \<and>
      stdout w' = stdout w \<and>
      tty_pos w' = (if tty_in w (tty_pos w) = None then tty_pos w else tty_pos w + 1) \<and>
      (tty_in w (tty_pos w) = None \<longrightarrow> r = Inl EOFError)) \<and>
   (generate_and_write_ecdsa_keypair env fp (Some pw) w = Some (r, w') \<longrightarrow>
      tty_pos w' = tty_pos w \<and> stderr w' = stderr w \<and> stdout w' = stdout w \<and>
      (calls w' = calls w \<or> calls w' = calls w @ [Call_encrypt_key (generate_ecdsa_key env) pw]) \<and>
      (PATH_SCHEMA_check_match env (used_filepath fp (keyid (generate_ecdsa_key env)) w) = Inr () \<longrightarrow>
         (\<forall>e. PASSWORD_SCHEMA_check_match env pw = Inl e \<longrightarrow>
           r = Inl e \<and> calls w' = calls w \<and> files w' = files w) \<and>
         (PASSWORD_SCHEMA_check_match env pw = Inr () \<longrightarrow>
           (io_faults w = [] \<longrightarrow>
              calls w' = calls w @ [Call_encrypt_key (generate_ecdsa_key env) pw] \<and>
              (\<forall>e. encrypt_key env (generate_ecdsa_key env) pw = Inl e \<longrightarrow> r = Inl e) \<and>
              (\<forall>c. encrypt_key env (generate_ecdsa_key env) pw = Inr c \<longrightarrow>
                 r = Inr (used_filepath fp (keyid (generate_ecdsa_key env)) w) \<and>
                 files w' (used_filepath fp (keyid (generate_ecdsa_key env)) w) = Some c))))) \<and>
   (generate_and_write_ecdsa_keypair env fp None w = Some (r, w') \<and>
      PATH_SCHEMA_check_match env (used_filepath fp (keyid (generate_ecdsa_key env)) w) = Inr () \<longrightarrow>
      stderr w' = stderr w @
        [''Enter a password for the ECDSA key ('' @ Fore_RED @
           os_path_basename (used_filepath fp (keyid (generate_ecdsa_key env)) w) @ Fore_RESET @ ''): ''] \<and>
      stdout w' = stdout w \<and>
      tty_pos w' = (if tty_in w (tty_pos w) = None then tty_pos w else tty_pos w + 1) \<and>
      (tty_in w (tty_pos w) = None \<longrightarrow> r = Inl EOFError)) \<and>
   (import_rsa_privatekey_from_file env path (Some pw) sch w = Some (q, w') \<longrightarrow>
      tty_pos w' = tty_pos w \<and> stderr w' = stderr w \<and> stdout w' = stdout w \<and>
      (calls w' = calls w \<or> (\<exists>c. calls w' = calls w @ [Call_import_rsakey_from_private_pem c sch (if pw = [] then None else Some pw)])) \<and>
      (PATH_SCHEMA_check_match env path = Inr () \<and>
       RSA_SCHEME_SCHEMA_check_match env sch = Inr () \<longrightarrow>
         (\<forall>e. PASSWORD_SCHEMA_check_match env pw = Inl e \<longrightarrow> q = Inl e \<and> calls w' = calls w) \<and>
         (PASSWORD_SCHEMA_check_match env pw = Inr () \<longrightarrow>
           (\<forall>c. \<not> fault_due w \<longrightarrow> files w path = Some c \<longrightarrow> valid_utf8 env c \<longrightarrow>
              calls w' = calls w @ [Call_import_rsakey_from_private_pem c sch (if pw = [] then None else Some pw)] \<and>
              q = import_rsakey_from_private_pem env c sch (if pw = [] then None else Some pw))))) \<and>
   (import_rsa_privatekey_from_file env path None sch w = Some (q, w') \<and>
      PATH_SCHEMA_check_match env path = Inr () \<and>
      RSA_SCHEME_SCHEMA_check_match env sch = Inr () \<longrightarrow>
      stderr w' = stderr w @
        [''Enter a password for the encrypted RSA file ('' @ Fore_RED @
           os_path_basename path @ Fore_RESET @ ''): ''] \<and>
      stdout w' = stdout w \<and>
      tty_pos w' = (if tty_in w (tty_pos w) = None then tty_pos w else tty_pos w + 1) \<and>
      (tty_in w (tty_pos w) = None \<longrightarrow> q = Inl EOFError)) \<and>
   (import_ed25519_privatekey_from_file env path (Some pw) w = Some (q, w') \<longrightarrow>
      tty_pos w' = tty_pos w \<and> stderr w' = stderr w \<and> stdout w' = stdout w \<and>
      (calls w' = calls w \<or> (\<exists>c. calls w' = calls w @ [Call_decrypt_key c pw])) \<and>
      (PATH_SCHEMA_check_match env path = Inr () \<longrightarrow>
         (\<forall>e. PASSWORD_SCHEMA_check_match env pw = Inl e \<longrightarrow> q = Inl e \<and> calls w' = calls w) \<and>
         (PASSWORD_SCHEMA_check_match env pw = Inr () \<longrightarrow>
           (\<forall>c. \<not> fault_due w \<longrightarrow> files w path = Some c \<longrightarrow> valid_utf8 env c \<longrightarrow>
              calls w' = calls w @ [Call_decrypt_key c pw] \<and>
              (case decrypt_key env c pw of
                   Inl e \<Rightarrow> q = Inl e
                 | Inr k \<Rightarrow>
                     q = (if keytype k = ''ed25519''
                          then Inr (k\<lparr>keyid_hash_algorithms := Some (HASH_ALGORITHMS env)\<rparr>)
                          else Inl (FormatError (''Invalid key type loaded: '' @ repr env (keytype k))))))))) \<and>
   (import_ed25519_privatekey_from_file env path None w = Some (q, w') \<and>
      PATH_SCHEMA_check_match env path = Inr () \<longrightarrow>
      stderr w' = stderr w @
        [''Enter a password for the encrypted Ed25519 key ('' @ Fore_RED @
           os_path_basename path @ Fore_RESET @ ''): ''] \<and>
      stdout w' = stdout w \<and>
      tty_pos w' = (if tty_in w (tty_pos w) = None then tty_pos w else tty_pos w + 1) \<and>
      (tty_in w (tty_pos w) = None \<longrightarrow> q = Inl EOFError)) \<and>
   (import_ecdsa_privatekey_from_file env path (Some pw) w = Some (q, w') \<longrightarrow>
      tty_pos w' = tty_pos w \<and> stderr w' = stderr w \<and> stdout w' = stdout w \<and>
      (calls w' = calls w \<or> (\<exists>c. calls w' = calls w @ [Call_decrypt_key c pw])) \<and>
      (PATH_SCHEMA_check_match env path = Inr () \<longrightarrow>
         (\<forall>e. PASSWORD_SCHEMA_check_match env pw = Inl e \<longrightarrow> q = Inl e \<and> calls w' = calls w) \<and>
         (PASSWORD_SCHEMA_check_match env pw = Inr () \<longrightarrow>
           (\<forall>c. \<not> fault_due w \<longrightarrow> files w path = Some c \<longrightarrow> valid_utf8 env c \<longrightarrow>
              calls w' = calls w @ [Call_decrypt_key c pw] \<and>
              (case decrypt_key env c pw of
                   Inl e \<Rightarrow> q = Inl e
                 | Inr k \<Rightarrow>
                     q = (if keytype k = ''ecdsa-sha2-nistp256''
                          then Inr (k\<lparr>keyid_hash_algorithms := Some (HASH_ALGORITHMS env)\<rparr>)
                          else Inl (FormatError (''Invalid key type loaded: '' @ repr env (keytype k))))))))) \<and>
   (import_ecdsa_privatekey_from_file env path None w = Some (q, w') \<and>
      PATH_SCHEMA_check_match env path = Inr () \<longrightarrow>
      stderr w' = stderr w @
        [''Enter a password for the encrypted ECDSA key ('' @ Fore_RED @
           os_path_basename path @ Fore_RESET @ ''): ''] \<and>
      stdout w' = stdout w \<and>
      tty_pos w' = (if tty_in w (tty_pos w) = None then tty_pos w else tty_pos w + 1) \<and>
      (tty_in w (tty_pos w) = None \<longrightarrow> q = Inl EOFError))"
proof -
  have g_0: "generate_and_write_rsa_keypair env fp bits (Some pw) w = Some (r, w') \<longrightarrow>
      tty_pos w' = tty_pos w \<and> stderr w' = stderr w \<and> stdout w' = stdout w \<and>
      (calls w' = calls w \<or>
       pw \<noteq> [] \<and> calls w' = calls w @ [Call_create_rsa_encrypted_pem (kv_private (keyval (generate_rsa_key env bits))) pw]) \<and>
      (RSAKEYBITS_SCHEMA_check_match env bits = Inr () \<and>
       PATH_SCHEMA_check_match env (used_filepath fp (keyid (generate_rsa_key env bits)) w) = Inr () \<longrightarrow>
         (\<forall>e. PASSWORD_SCHEMA_check_match env pw = Inl e \<longrightarrow>
           r = Inl e \<and> calls w' = calls w \<and> files w' = files w) \<and>
         (PASSWORD_SCHEMA_check_match env pw = Inr () \<longrightarrow>
           calls w' =
             (if pw = [] then calls w
              else calls w @ [Call_create_rsa_encrypted_pem (kv_private (keyval (generate_rsa_key env bits))) pw]) \<and>
           (io_faults w = [] \<longrightarrow>
              (pw = [] \<longrightarrow>
                 r = Inr (used_filepath fp (keyid (generate_rsa_key env bits)) w) \<and>
                 files w' (used_filepath fp (keyid (generate_rsa_key env bits)) w) = Some (kv_private (keyval (generate_rsa_key env bits)))) \<and>
              (\<forall>c. pw \<noteq> [] \<longrightarrow>
                 create_rsa_encrypted_pem env (kv_private (keyval (generate_rsa_key env bits))) pw = Inr c \<longrightarrow>
                   r = Inr (used_filepath fp (keyid (generate_rsa_key env bits)) w) \<and>
                   files w' (used_filepath fp (keyid (generate_rsa_key env bits)) w) = Some c))))"
  proof (rule impI)
    assume run: "generate_and_write_rsa_keypair env fp bits (Some pw) w = Some (r, w')"
    have rp: "resolved_password (Some pw) w = Some pw"
      by (simp add: resolved_password_def)
    have fwd: "RSAKEYBITS_SCHEMA_check_match env bits = Inr () \<and>
       PATH_SCHEMA_check_match env (used_filepath fp (keyid (generate_rsa_key env bits)) w) = Inr () \<longrightarrow>
         (\<forall>e. PASSWORD_SCHEMA_check_match env pw = Inl e \<longrightarrow>
           r = Inl e \<and> calls w' = calls w \<and> files w' = files w) \<and>
         (PASSWORD_SCHEMA_check_match env pw = Inr () \<longrightarrow>
           calls w' =
             (if pw = [] then calls w
              else calls w @ [Call_create_rsa_encrypted_pem (kv_private (keyval (generate_rsa_key env bits))) pw]) \<and>
           (io_faults w = [] \<longrightarrow>
              (pw = [] \<longrightarrow>
                 r = Inr (used_filepath fp (keyid (generate_rsa_key env bits)) w) \<and>
                 files w' (used_filepath fp (keyid (generate_rsa_key env bits)) w) = Some (kv_private (keyval (generate_rsa_key env bits)))) \<and>
              (\<forall>c. pw \<noteq> [] \<longrightarrow>
                 create_rsa_encrypted_pem env (kv_private (keyval (generate_rsa_key env bits))) pw = Inr c \<longrightarrow>
                   r = Inr (used_filepath fp (keyid (generate_rsa_key env bits)) w) \<and>
                   files w' (used_filepath fp (keyid (generate_rsa_key env bits)) w) = Some c)))"
    proof (rule impI)
      assume g: "RSAKEYBITS_SCHEMA_check_match env bits = Inr () \<and>
       PATH_SCHEMA_check_match env (used_filepath fp (keyid (generate_rsa_key env bits)) w) = Inr ()"
      from g have g1: "RSAKEYBITS_SCHEMA_check_match env bits = Inr ()" by simp
      from g have g2: "PATH_SCHEMA_check_match env (used_filepath fp (keyid (generate_rsa_key env bits)) w) = Inr ()" by simp
      note pf = run_E [OF generate_rsa_password_spec run, rule_format, OF g1 g2]
      have x: "(\<forall>e. PASSWORD_SCHEMA_check_match env pw = Inl e \<longrightarrow>
           r = Inl e \<and> calls w' = calls w \<and> files w' = files w)"
      proof (intro allI impI)
        fix e assume "PASSWORD_SCHEMA_check_match env pw = Inl e"
        then show "r = Inl e \<and> calls w' = calls w \<and> files w' = files w"
          by (rule pf [THEN conjunct1, rule_format, OF rp])
      qed
      have y: "PASSWORD_SCHEMA_check_match env pw = Inr () \<longrightarrow>
           calls w' =
             (if pw = [] then calls w
              else calls w @ [Call_create_rsa_encrypted_pem (kv_private (keyval (generate_rsa_key env bits))) pw]) \<and>
           (io_faults w = [] \<longrightarrow>
              (pw = [] \<longrightarrow>
                 r = Inr (used_filepath fp (keyid (generate_rsa_key env bits)) w) \<and>
                 files w' (used_filepath fp (keyid (generate_rsa_key env bits)) w) = Some (kv_private (keyval (generate_rsa_key env bits)))) \<and>
              (\<forall>c. pw \<noteq> [] \<longrightarrow>
                 create_rsa_encrypted_pem env (kv_private (keyval (generate_rsa_key env bits))) pw = Inr c \<longrightarrow>
                   r = Inr (used_filepath fp (keyid (generate_rsa_key env bits)) w) \<and>
                   files w' (used_filepath fp (keyid (generate_rsa_key env bits)) w) = Some c))"
      proof (rule impI)
        assume gate: "PASSWORD_SCHEMA_check_match env pw = Inr ()"
      have c: "calls w' =
             (if pw = [] then calls w
              else calls w @ [Call_create_rsa_encrypted_pem (kv_private (keyval (generate_rsa_key env bits))) pw])"
        by (rule pf [THEN conjunct2, THEN conjunct1, rule_format, OF rp gate])
      have n: "io_faults w = [] \<longrightarrow>
              (pw = [] \<longrightarrow>
                 r = Inr (used_filepath fp (keyid (generate_rsa_key env bits)) w) \<and>
                 files w' (used_filepath fp (keyid (generate_rsa_key env bits)) w) = Some (kv_private (keyval (generate_rsa_key env bits)))) \<and>
              (\<forall>c. pw \<noteq> [] \<longrightarrow>
                 create_rsa_encrypted_pem env (kv_private (keyval (generate_rsa_key env bits))) pw = Inr c \<longrightarrow>
                   r = Inr (used_filepath fp (keyid (generate_rsa_key env bits)) w) \<and>
                   files w' (used_filepath fp (keyid (generate_rsa_key env bits)) w) = Some c)"
      proof (rule impI)
        assume nf: "io_faults w = []"
        show "(pw = [] \<longrightarrow>
                 r = Inr (used_filepath fp (keyid (generate_rsa_key env bits)) w) \<and>
                 files w' (used_filepath fp (keyid (generate_rsa_key env bits)) w) = Some (kv_private (keyval (generate_rsa_key env bits)))) \<and>
              (\<forall>c. pw \<noteq> [] \<longrightarrow>
                 create_rsa_encrypted_pem env (kv_private (keyval (generate_rsa_key env bits))) pw = Inr c \<longrightarrow>
                   r = Inr (used_filepath fp (keyid (generate_rsa_key env bits)) w) \<and>
                   files w' (used_filepath fp (keyid (generate_rsa_key env bits)) w) = Some c)"
          by (rule run_E [OF generate_rsa_no_fault [OF nf] run, rule_format, OF rp g1 g2 gate])
      qed
      show "calls w' =
             (if pw = [] then calls w
              else calls w @ [Call_create_rsa_encrypted_pem (kv_private (keyval (generate_rsa_key env bits))) pw]) \<and>
           (io_faults w = [] \<longrightarrow>
              (pw = [] \<longrightarrow>
                 r = Inr (used_filepath fp (keyid (generate_rsa_key env bits)) w) \<and>
                 files w' (used_filepath fp (keyid (generate_rsa_key env bits)) w) = Some (kv_private (keyval (generate_rsa_key env bits)))) \<and>
              (\<forall>c. pw \<noteq> [] \<longrightarrow>
                 create_rsa_encrypted_pem env (kv_private (keyval (generate_rsa_key env bits))) pw = Inr c \<longrightarrow>
                   r = Inr (used_filepath fp (keyid (generate_rsa_key env bits)) w) \<and>
                   files w' (used_filepath fp (keyid (generate_rsa_key env bits)) w) = Some c))"
        by (rule conjI [OF c n])
      qed
      show "(\<forall>e. PASSWORD_SCHEMA_check_match env pw = Inl e \<longrightarrow>
           r = Inl e \<and> calls w' = calls w \<and> files w' = files w) \<and>
         (PASSWORD_SCHEMA_check_match env pw = Inr () \<longrightarrow>
           calls w' =
             (if pw = [] then calls w
              else calls w @ [Call_create_rsa_encrypted_pem (kv_private (keyval (generate_rsa_key env bits))) pw]) \<and>
           (io_faults w = [] \<longrightarrow>
              (pw = [] \<longrightarrow>
                 r = Inr (used_filepath fp (keyid (generate_rsa_key env bits)) w) \<and>
                 files w' (used_filepath fp (keyid (generate_rsa_key env bits)) w) = Some (kv_private (keyval (generate_rsa_key env bits)))) \<and>
              (\<forall>c. pw \<noteq> [] \<longrightarrow>
                 create_rsa_encrypted_pem env (kv_private (keyval (generate_rsa_key env bits))) pw = Inr c \<longrightarrow>
                   r = Inr (used_filepath fp (keyid (generate_rsa_key env bits)) w) \<and>
                   files w' (used_filepath fp (keyid (generate_rsa_key env bits)) w) = Some c)))"
        by (rule conjI [OF x y])
    qed
    from generate_rsa_given [OF run] fwd show "tty_pos w' = tty_pos w \<and> stderr w' = stderr w \<and> stdout w' = stdout w \<and>
      (calls w' = calls w \<or>
       pw \<noteq> [] \<and> calls w' = calls w @ [Call_create_rsa_encrypted_pem (kv_private (keyval (generate_rsa_key env bits))) pw]) \<and>
      (RSAKEYBITS_SCHEMA_check_match env bits = Inr () \<and>
       PATH_SCHEMA_check_match env (used_filepath fp (keyid (generate_rsa_key env bits)) w) = Inr () \<longrightarrow>
         (\<forall>e. PASSWORD_SCHEMA_check_match env pw = Inl e \<longrightarrow>
           r = Inl e \<and> calls w' = calls w \<and> files w' = files w) \<and>
         (PASSWORD_SCHEMA_check_match env pw = Inr () \<longrightarrow>
           calls w' =
             (if pw = [] then calls w
              else calls w @ [Call_create_rsa_encrypted_pem (kv_private (keyval (generate_rsa_key env bits))) pw]) \<and>
           (io_faults w = [] \<longrightarrow>
              (pw = [] \<longrightarrow>
                 r = Inr (used_filepath fp (keyid (generate_rsa_key env bits)) w) \<and>
                 files w' (used_filepath fp (keyid (generate_rsa_key env bits)) w) = Some (kv_private (keyval (generate_rsa_key env bits)))) \<and>
              (\<forall>c. pw \<noteq> [] \<longrightarrow>
                 create_rsa_encrypted_pem env (kv_private (keyval (generate_rsa_key env bits))) pw = Inr c \<longrightarrow>
                   r = Inr (used_filepath fp (keyid (generate_rsa_key env bits)) w) \<and>
                   files w' (used_filepath fp (keyid (generate_rsa_key env bits)) w) = Some c))))"
      by (simp only: simp_thms)
  qed
  have p_0: "generate_and_write_rsa_keypair env fp bits None w = Some (r, w') \<and>
      RSAKEYBITS_SCHEMA_check_match env bits = Inr () \<and>
      PATH_SCHEMA_check_match env (used_filepath fp (keyid (generate_rsa_key env bits)) w) = Inr () \<longrightarrow>
      stderr w' = stderr w @
        [''Enter a password for the encrypted RSA key ('' @ Fore_RED @
           os_path_basename (used_filepath fp (keyid (generate_rsa_key env bits)) w) @ Fore_RESET @ ''): ''] \<and>
      stdout w' = stdout w \<and>
      tty_pos w' = (if tty_in w (tty_pos w) = None then tty_pos w else tty_pos w + 1) \<and>
      (tty_in w (tty_pos w) = None \<longrightarrow> r = Inl EOFError)"
  proof (rule impI)
    assume h: "generate_and_write_rsa_keypair env fp bits None w = Some (r, w') \<and>
      RSAKEYBITS_SCHEMA_check_match env bits = Inr () \<and>
      PATH_SCHEMA_check_match env (used_filepath fp (keyid (generate_rsa_key env bits)) w) = Inr ()"
    then have run: "generate_and_write_rsa_keypair env fp bits None w = Some (r, w')"
      by simp
    from h have g1: "RSAKEYBITS_SCHEMA_check_match env bits = Inr ()" by simp
    from h have g2: "PATH_SCHEMA_check_match env (used_filepath fp (keyid (generate_rsa_key env bits)) w) = Inr ()" by simp
    have pn: "(None :: string option) = None"
      by simp
    note pf = run_E [OF generate_rsa_password_spec run, rule_format, OF g1 g2]
    note t = pf [THEN conjunct2, THEN conjunct2, rule_format, OF pn]
    from generate_rsa_prompted [OF run] h t show "stderr w' = stderr w @
        [''Enter a password for the encrypted RSA key ('' @ Fore_RED @
           os_path_basename (used_filepath fp (keyid (generate_rsa_key env bits)) w) @ Fore_RESET @ ''): ''] \<and>
      stdout w' = stdout w \<and>
      tty_pos w' = (if tty_in w (tty_pos w) = None then tty_pos w else tty_pos w + 1) \<and>
      (tty_in w (tty_pos w) = None \<longrightarrow> r = Inl EOFError)"
      by simp
  qed
  have g_1: "generate_and_write_ed25519_keypair env fp (Some pw) w = Some (r, w') \<longrightarrow>
      tty_pos w' = tty_pos w \<and> stderr w' = stderr w \<and> stdout w' = stdout w \<and>
      (calls w' = calls w \<or> calls w' = calls w @ [Call_encrypt_key (generate_ed25519_key env) pw]) \<and>
      (PATH_SCHEMA_check_match env (used_filepath fp (keyid (generate_ed25519_key env)) w) = Inr () \<longrightarrow>
         (\<forall>e. PASSWORD_SCHEMA_check_match env pw = Inl e \<longrightarrow>
           r = Inl e \<and> calls w' = calls w \<and> files w' = files w) \<and>
         (PASSWORD_SCHEMA_check_match env pw = Inr () \<longrightarrow>
           (io_faults w = [] \<longrightarrow>
              calls w' = calls w @ [Call_encrypt_key (generate_ed25519_key env) pw] \<and>
              (\<forall>e. encrypt_key env (generate_ed25519_key env) pw = Inl e \<longrightarrow> r = Inl e) \<and>
              (\<forall>c. encrypt_key env (generate_ed25519_key env) pw = Inr c \<longrightarrow>
                 r = Inr (used_filepath fp (keyid (generate_ed25519_key env)) w) \<and>
                 files w' (used_filepath fp (keyid (generate_ed25519_key env)) w) = Some c))))"
  proof (rule impI)
    assume run: "generate_and_write_ed25519_keypair env fp (Some pw) w = Some (r, w')"
    have rp: "resolved_password (Some pw) w = Some pw"
      by (simp add: resolved_password_def)
    have fwd: "PATH_SCHEMA_check_match env (used_filepath fp (keyid (generate_ed25519_key env)) w) = Inr () \<longrightarrow>
         (\<forall>e. PASSWORD_SCHEMA_check_match env pw = Inl e \<longrightarrow>
           r = Inl e \<and> calls w' = calls w \<and> files w' = files w) \<and>
         (PASSWORD_SCHEMA_check_match env pw = Inr () \<longrightarrow>
           (io_faults w = [] \<longrightarrow>
              calls w' = calls w @ [Call_encrypt_key (generate_ed25519_key env) pw] \<and>
              (\<forall>e. encrypt_key env (generate_ed25519_key env) pw = Inl e \<longrightarrow> r = Inl e) \<and>
              (\<forall>c. encrypt_key env (generate_ed25519_key env) pw = Inr c \<longrightarrow>
                 r = Inr (used_filepath fp (keyid (generate_ed25519_key env)) w) \<and>
                 files w' (used_filepath fp (keyid (generate_ed25519_key env)) w) = Some c)))"
    proof (rule impI)
      assume g: "PATH_SCHEMA_check_match env (used_filepath fp (keyid (generate_ed25519_key env)) w) = Inr ()"
      from g have g1: "PATH_SCHEMA_check_match env (used_filepath fp (keyid (generate_ed25519_key env)) w) = Inr ()" by simp
      note pf = run_E [OF generate_ed25519_password_spec run, rule_format, OF g1]
      have x: "(\<forall>e. PASSWORD_SCHEMA_check_match env pw = Inl e \<longrightarrow>
           r = Inl e \<and> calls w' = calls w \<and> files w' = files w)"
      proof (intro allI impI)
        fix e assume "PASSWORD_SCHEMA_check_match env pw = Inl e"
        then show "r = Inl e \<and> calls w' = calls w \<and> files w' = files w"
          by (rule pf [THEN conjunct1, rule_format, OF rp])
      qed
      have y: "PASSWORD_SCHEMA_check_match env pw = Inr () \<longrightarrow>
           (io_faults w = [] \<longrightarrow>
              calls w' = calls w @ [Call_encrypt_key (generate_ed25519_key env) pw] \<and>
              (\<forall>e. encrypt_key env (generate_ed25519_key env) pw = Inl e \<longrightarrow> r = Inl e) \<and>
              (\<forall>c. encrypt_key env (generate_ed25519_key env) pw = Inr c \<longrightarrow>
                 r = Inr (used_filepath fp (keyid (generate_ed25519_key env)) w) \<and>
                 files w' (used_filepath fp (keyid (generate_ed25519_key env)) w) = Some c))"
      proof (rule impI)
        assume gate: "PASSWORD_SCHEMA_check_match env pw = Inr ()"
      show "io_faults w = [] \<longrightarrow>
              calls w' = calls w @ [Call_encrypt_key (generate_ed25519_key env) pw] \<and>
              (\<forall>e. encrypt_key env (generate_ed25519_key env) pw = Inl e \<longrightarrow> r = Inl e) \<and>
              (\<forall>c. encrypt_key env (generate_ed25519_key env) pw = Inr c \<longrightarrow>
                 r = Inr (used_filepath fp (keyid (generate_ed25519_key env)) w) \<and>
                 files w' (used_filepath fp (keyid (generate_ed25519_key env)) w) = Some c)"
      proof (rule impI)
        assume nf: "io_faults w = []"
        show "calls w' = calls w @ [Call_encrypt_key (generate_ed25519_key env) pw] \<and>
              (\<forall>e. encrypt_key env (generate_ed25519_key env) pw = Inl e \<longrightarrow> r = Inl e) \<and>
              (\<forall>c. encrypt_key env (generate_ed25519_key env) pw = Inr c \<longrightarrow>
                 r = Inr (used_filepath fp (keyid (generate_ed25519_key env)) w) \<and>
                 files w' (used_filepath fp (keyid (generate_ed25519_key env)) w) = Some c)"
          by (rule run_E [OF generate_ed25519_no_fault [OF nf] run, rule_format, OF rp g1 gate])
      qed
      qed
      show "(\<forall>e. PASSWORD_SCHEMA_check_match env pw = Inl e \<longrightarrow>
           r = Inl e \<and> calls w' = calls w \<and> files w' = files w) \<and>
         (PASSWORD_SCHEMA_check_match env pw = Inr () \<longrightarrow>
           (io_faults w = [] \<longrightarrow>
              calls w' = calls w @ [Call_encrypt_key (generate_ed25519_key env) pw] \<and>
              (\<forall>e. encrypt_key env (generate_ed25519_key env) pw = Inl e \<longrightarrow> r = Inl e) \<and>
              (\<forall>c. encrypt_key env (generate_ed25519_key env) pw = Inr c \<longrightarrow>
                 r = Inr (used_filepath fp (keyid (generate_ed25519_key env)) w) \<and>
                 files w' (used_filepath fp (keyid (generate_ed25519_key env)) w) = Some c)))"
        by (rule conjI [OF x y])
    qed
    from generate_ed25519_given [OF run] fwd show "tty_pos w' = tty_pos w \<and> stderr w' = stderr w \<and> stdout w' = stdout w \<and>
      (calls w' = calls w \<or> calls w' = calls w @ [Call_encrypt_key (generate_ed25519_key env) pw]) \<and>
      (PATH_SCHEMA_check_match env (used_filepath fp (keyid (generate_ed25519_key env)) w) = Inr () \<longrightarrow>
         (\<forall>e. PASSWORD_SCHEMA_check_match env pw = Inl e \<longrightarrow>
           r = Inl e \<and> calls w' = calls w \<and> files w' = files w) \<and>
         (PASSWORD_SCHEMA_check_match env pw = Inr () \<longrightarrow>
           (io_faults w = [] \<longrightarrow>
              calls w' = calls w @ [Call_encrypt_key (generate_ed25519_key env) pw] \<and>
              (\<forall>e. encrypt_key env (generate_ed25519_key env) pw = Inl e \<longrightarrow> r = Inl e) \<and>
              (\<forall>c. encrypt_key env (generate_ed25519_key env) pw = Inr c \<longrightarrow>
                 r = Inr (used_filepath fp (keyid (generate_ed25519_key env)) w) \<and>
                 files w' (used_filepath fp (keyid (generate_ed25519_key env)) w) = Some c))))"
      by (simp only: simp_thms)
  qed
  have p_1: "generate_and_write_ed25519_keypair env fp None w = Some (r, w') \<and>
      PATH_SCHEMA_check_match env (used_filepath fp (keyid (generate_ed25519_key env)) w) = Inr () \<longrightarrow>
      stderr w' = stderr w @
        [''Enter a password for the Ed25519 key ('' @ Fore_RED @
           os_path_basename (used_filepath fp (keyid (generate_ed25519_key env)) w) @ Fore_RESET @ ''): ''] \<and>
      stdout w' = stdout w \<and>
      tty_pos w' = (if tty_in w (tty_pos w) = None then tty_pos w else tty_pos w + 1) \<and>
      (tty_in w (tty_pos w) = None \<longrightarrow> r = Inl EOFError)"
  proof (rule impI)
    assume h: "generate_and_write_ed25519_keypair env fp None w = Some (r, w') \<and>
      PATH_SCHEMA_check_match env (used_filepath fp (keyid (generate_ed25519_key env)) w) = Inr ()"
    then have run: "generate_and_write_ed25519_keypair env fp None w = Some (r, w')"
      by simp
    from h have g1: "PATH_SCHEMA_check_match env (used_filepath fp (keyid (generate_ed25519_key env)) w) = Inr ()" by simp
    have pn: "(None :: string option) = None"
      by simp
    note pf = run_E [OF generate_ed25519_password_spec run, rule_format, OF g1]
    note t = pf [THEN conjunct2, rule_format, OF pn]
    from generate_ed25519_prompted [OF run] h t show "stderr w' = stderr w @
        [''Enter a password for the Ed25519 key ('' @ Fore_RED @
           os_path_basename (used_filepath fp (keyid (generate_ed25519_key env)) w) @ Fore_RESET @ ''): ''] \<and>
      stdout w' = stdout w \<and>
      tty_pos w' = (if tty_in w (tty_pos w) = None then tty_pos w else tty_pos w + 1) \<and>
      (tty_in w (tty_pos w) = None \<longrightarrow> r = Inl EOFError)"
      by simp
  qed
  have g_2: "generate_and_write_ecdsa_keypair env fp (Some pw) w = Some (r, w') \<longrightarrow>
      tty_pos w' = tty_pos w \<and> stderr w' = stderr w \<and> stdout w' = stdout w \<and>
      (calls w' = calls w \<or> calls w' = calls w @ [Call_encrypt_key (generate_ecdsa_key env) pw]) \<and>
      (PATH_SCHEMA_check_match env (used_filepath fp (keyid (generate_ecdsa_key env)) w) = Inr () \<longrightarrow>
         (\<forall>e. PASSWORD_SCHEMA_check_match env pw = Inl e \<longrightarrow>
           r = Inl e \<and> calls w' = calls w \<and> files w' = files w) \<and>
         (PASSWORD_SCHEMA_check_match env pw = Inr () \<longrightarrow>
           (io_faults w = [] \<longrightarrow>
              calls w' = calls w @ [Call_encrypt_key (generate_ecdsa_key env) pw] \<and>
              (\<forall>e. encrypt_key env (generate_ecdsa_key env) pw = Inl e \<longrightarrow> r = Inl e) \<and>
              (\<forall>c. encrypt_key env (generate_ecdsa_key env) pw = Inr c \<longrightarrow>
                 r = Inr (used_filepath fp (keyid (generate_ecdsa_key env)) w) \<and>
                 files w' (used_filepath fp (keyid (generate_ecdsa_key env)) w) = Some c))))"
  proof (rule impI)
    assume run: "generate_and_write_ecdsa_keypair env fp (Some pw) w = Some (r, w')"
    have rp: "resolved_password (Some pw) w = Some pw"
      by (simp add: resolved_password_def)
    have fwd: "PATH_SCHEMA_check_match env (used_filepath fp (keyid (generate_ecdsa_key env)) w) = Inr () \<longrightarrow>
         (\<forall>e. PASSWORD_SCHEMA_check_match env pw = Inl e \<longrightarrow>
           r = Inl e \<and> calls w' = calls w \<and> files w' = files w) \<and>
         (PASSWORD_SCHEMA_check_match env pw = Inr () \<longrightarrow>
           (io_faults w = [] \<longrightarrow>
              calls w' = calls w @ [Call_encrypt_key (generate_ecdsa_key env) pw] \<and>
              (\<forall>e. encrypt_key env (generate_ecdsa_key env) pw = Inl e \<longrightarrow> r = Inl e) \<and>
              (\<forall>c. encrypt_key env (generate_ecdsa_key env) pw = Inr c \<longrightarrow>
                 r = Inr (used_filepath fp (keyid (generate_ecdsa_key env)) w) \<and>
                 files w' (used_filepath fp (keyid (generate_ecdsa_key env)) w) = Some c)))"
    proof (rule impI)
      assume g: "PATH_SCHEMA_check_match env (used_filepath fp (keyid (generate_ecdsa_key env)) w) = Inr ()"
      from g have g1: "PATH_SCHEMA_check_match env (used_filepath fp (keyid (generate_ecdsa_key env)) w) = Inr ()" by simp
      note pf = run_E [OF generate_ecdsa_password_spec run, rule_format, OF g1]
      have x: "(\<forall>e. PASSWORD_SCHEMA_check_match env pw = Inl e \<longrightarrow>
           r = Inl e \<and> calls w' = calls w \<and> files w' = files w)"
      proof (intro allI impI)
        fix e assume "PASSWORD_SCHEMA_check_match env pw = Inl e"
        then show "r = Inl e \<and> calls w' = calls w \<and> files w' = files w"
          by (rule pf [THEN conjunct1, rule_format, OF rp])
      qed
      have y: "PASSWORD_SCHEMA_check_match env pw = Inr () \<longrightarrow>
           (io_faults w = [] \<longrightarrow>
              calls w' = calls w @ [Call_encrypt_key (generate_ecdsa_key env) pw] \<and>
              (\<forall>e. encrypt_key env (generate_ecdsa_key env) pw = Inl e \<longrightarrow> r = Inl e) \<and>
              (\<forall>c. encrypt_key env (generate_ecdsa_key env) pw = Inr c \<longrightarrow>
                 r = Inr (used_filepath fp (keyid (generate_ecdsa_key env)) w) \<and>
                 files w' (used_filepath fp (keyid (generate_ecdsa_key env)) w) = Some c))"
      proof (rule impI)
        assume gate: "PASSWORD_SCHEMA_check_match env pw = Inr ()"
      show "io_faults w = [] \<longrightarrow>
              calls w' = calls w @ [Call_encrypt_key (generate_ecdsa_key env) pw] \<and>
              (\<forall>e. encrypt_key env (generate_ecdsa_key env) pw = Inl e \<longrightarrow> r = Inl e) \<and>
              (\<forall>c. encrypt_key env (generate_ecdsa_key env) pw = Inr c \<longrightarrow>
                 r = Inr (used_filepath fp (keyid (generate_ecdsa_key env)) w) \<and>
                 files w' (used_filepath fp (keyid (generate_ecdsa_key env)) w) = Some c)"
      proof (rule impI)
        assume nf: "io_faults w = []"
        show "calls w' = calls w @ [Call_encrypt_key (generate_ecdsa_key env) pw] \<and>
              (\<forall>e. encrypt_key env (generate_ecdsa_key env) pw = Inl e \<longrightarrow> r = Inl e) \<and>
              (\<forall>c. encrypt_key env (generate_ecdsa_key env) pw = Inr c \<longrightarrow>
                 r = Inr (used_filepath fp (keyid (generate_ecdsa_key env)) w) \<and>
                 files w' (used_filepath fp (keyid (generate_ecdsa_key env)) w) = Some c)"
          by (rule run_E [OF generate_ecdsa_no_fault [OF nf] run, rule_format, OF rp g1 gate])
      qed
      qed
      show "(\<forall>e. PASSWORD_SCHEMA_check_match env pw = Inl e \<longrightarrow>
           r = Inl e \<and> calls w' = calls w \<and> files w' = files w) \<and>
         (PASSWORD_SCHEMA_check_match env pw = Inr () \<longrightarrow>
           (io_faults w = [] \<longrightarrow>
              calls w' = calls w @ [Call_encrypt_key (generate_ecdsa_key env) pw] \<and>
              (\<forall>e. encrypt_key env (generate_ecdsa_key env) pw = Inl e \<longrightarrow> r = Inl e) \<and>
              (\<forall>c. encrypt_key env (generate_ecdsa_key env) pw = Inr c \<longrightarrow>
                 r = Inr (used_filepath fp (keyid (generate_ecdsa_key env)) w) \<and>
                 files w' (used_filepath fp (keyid (generate_ecdsa_key env)) w) = Some c)))"
        by (rule conjI [OF x y])
    qed
    from generate_ecdsa_given [OF run] fwd show "tty_pos w' = tty_pos w \<and> stderr w' = stderr w \<and> stdout w' = stdout w \<and>
      (calls w' = calls w \<or> calls w' = calls w @ [Call_encrypt_key (generate_ecdsa_key env) pw]) \<and>
      (PATH_SCHEMA_check_match env (used_filepath fp (keyid (generate_ecdsa_key env)) w) = Inr () \<longrightarrow>
         (\<forall>e. PASSWORD_SCHEMA_check_match env pw = Inl e \<longrightarrow>
           r = Inl e \<and> calls w' = calls w \<and> files w' = files w) \<and>
         (PASSWORD_SCHEMA_check_match env pw = Inr () \<longrightarrow>
           (io_faults w = [] \<longrightarrow>
              calls w' = calls w @ [Call_encrypt_key (generate_ecdsa_key env) pw] \<and>
              (\<forall>e. encrypt_key env (generate_ecdsa_key env) pw = Inl e \<longrightarrow> r = Inl e) \<and>
              (\<forall>c. encrypt_key env (generate_ecdsa_key env) pw = Inr c \<longrightarrow>
                 r = Inr (used_filepath fp (keyid (generate_ecdsa_key env)) w) \<and>
                 files w' (used_filepath fp (keyid (generate_ecdsa_key env)) w) = Some c))))"
      by (simp only: simp_thms)
  qed
  have p_2: "generate_and_write_ecdsa_keypair env fp None w = Some (r, w') \<and>
      PATH_SCHEMA_check_match env (used_filepath fp (keyid (generate_ecdsa_key env)) w) = Inr () \<longrightarrow>
      stderr w' = stderr w @
        [''Enter a password for the ECDSA key ('' @ Fore_RED @
           os_path_basename (used_filepath fp (keyid (generate_ecdsa_key env)) w) @ Fore_RESET @ ''): ''] \<and>
      stdout w' = stdout w \<and>
      tty_pos w' = (if tty_in w (tty_pos w) = None then tty_pos w else tty_pos w + 1) \<and>
      (tty_in w (tty_pos w) = None \<longrightarrow> r = Inl EOFError)"
  proof (rule impI)
    assume h: "generate_and_write_ecdsa_keypair env fp None w = Some (r, w') \<and>
      PATH_SCHEMA_check_match env (used_filepath fp (keyid (generate_ecdsa_key env)) w) = Inr ()"
    then have run: "generate_and_write_ecdsa_keypair env fp None w = Some (r, w')"
      by simp
    from h have g1: "PATH_SCHEMA_check_match env (used_filepath fp (keyid (generate_ecdsa_key env)) w) = Inr ()" by simp
    have pn: "(None :: string option) = None"
      by simp
    note pf = run_E [OF generate_ecdsa_password_spec run, rule_format, OF g1]
    note t = pf [THEN conjunct2, rule_format, OF pn]
    from generate_ecdsa_prompted [OF run] h t show "stderr w' = stderr w @
        [''Enter a password for the ECDSA key ('' @ Fore_RED @
           os_path_basename (used_filepath fp (keyid (generate_ecdsa_key env)) w) @ Fore_RESET @ ''): ''] \<and>
      stdout w' = stdout w \<and>
      tty_pos w' = (if tty_in w (tty_pos w) = None then tty_pos w else tty_pos w + 1) \<and>
      (tty_in w (tty_pos w) = None \<longrightarrow> r = Inl EOFError)"
      by simp
  qed
  have g_3: "import_rsa_privatekey_from_file env path (Some pw) sch w = Some (q, w') \<longrightarrow>
      tty_pos w' = tty_pos w \<and> stderr w' = stderr w \<and> stdout w' = stdout w \<and>
      (calls w' = calls w \<or> (\<exists>c. calls w' = calls w @ [Call_import_rsakey_from_private_pem c sch (if pw = [] then None else Some pw)])) \<and>
      (PATH_SCHEMA_check_match env path = Inr () \<and>
       RSA_SCHEME_SCHEMA_check_match env sch = Inr () \<longrightarrow>
         (\<forall>e. PASSWORD_SCHEMA_check_match env pw = Inl e \<longrightarrow> q = Inl e \<and> calls w' = calls w) \<and>
         (PASSWORD_SCHEMA_check_match env pw = Inr () \<longrightarrow>
           (\<forall>c. \<not> fault_due w \<longrightarrow> files w path = Some c \<longrightarrow> valid_utf8 env c \<longrightarrow>
              calls w' = calls w @ [Call_import_rsakey_from_private_pem c sch (if pw = [] then None else Some pw)] \<and>
              q = import_rsakey_from_private_pem env c sch (if pw = [] then None else Some pw))))"
  proof (rule impI)
    assume run: "import_rsa_privatekey_from_file env path (Some pw) sch w = Some (q, w')"
    have rp: "resolved_password (Some pw) w = Some pw"
      by (simp add: resolved_password_def)
    have fwd: "PATH_SCHEMA_check_match env path = Inr () \<and>
       RSA_SCHEME_SCHEMA_check_match env sch = Inr () \<longrightarrow>
         (\<forall>e. PASSWORD_SCHEMA_check_match env pw = Inl e \<longrightarrow> q = Inl e \<and> calls w' = calls w) \<and>
         (PASSWORD_SCHEMA_check_match env pw = Inr () \<longrightarrow>
           (\<forall>c. \<not> fault_due w \<longrightarrow> files w path = Some c \<longrightarrow> valid_utf8 env c \<longrightarrow>
              calls w' = calls w @ [Call_import_rsakey_from_private_pem c sch (if pw = [] then None else Some pw)] \<and>
              q = import_rsakey_from_private_pem env c sch (if pw = [] then None else Some pw)))"
    proof (rule impI)
      assume g: "PATH_SCHEMA_check_match env path = Inr () \<and>
       RSA_SCHEME_SCHEMA_check_match env sch = Inr ()"
      from g have g1: "PATH_SCHEMA_check_match env path = Inr ()" by simp
      from g have g2: "RSA_SCHEME_SCHEMA_check_match env sch = Inr ()" by simp
      note pf = run_E [OF import_rsa_password_spec run, rule_format, OF g1 g2]
      have x: "(\<forall>e. PASSWORD_SCHEMA_check_match env pw = Inl e \<longrightarrow> q = Inl e \<and> calls w' = calls w)"
      proof (intro allI impI)
        fix e assume "PASSWORD_SCHEMA_check_match env pw = Inl e"
        then show "q = Inl e \<and> calls w' = calls w"
          by (rule pf [THEN conjunct1, rule_format, OF rp])
      qed
      have y: "PASSWORD_SCHEMA_check_match env pw = Inr () \<longrightarrow>
           (\<forall>c. \<not> fault_due w \<longrightarrow> files w path = Some c \<longrightarrow> valid_utf8 env c \<longrightarrow>
              calls w' = calls w @ [Call_import_rsakey_from_private_pem c sch (if pw = [] then None else Some pw)] \<and>
              q = import_rsakey_from_private_pem env c sch (if pw = [] then None else Some pw))"
      proof (rule impI)
        assume gate: "PASSWORD_SCHEMA_check_match env pw = Inr ()"
      show "\<forall>c. \<not> fault_due w \<longrightarrow> files w path = Some c \<longrightarrow> valid_utf8 env c \<longrightarrow>
              calls w' = calls w @ [Call_import_rsakey_from_private_pem c sch (if pw = [] then None else Some pw)] \<and>
              q = import_rsakey_from_private_pem env c sch (if pw = [] then None else Some pw)"
      proof (intro allI impI)
        fix c
        assume nf: "\<not> fault_due w" and f: "files w path = Some c" and u: "valid_utf8 env c"
        have cs: "calls w' = calls w @ [Call_import_rsakey_from_private_pem c sch (if pw = [] then None else Some pw)]"
          by (rule import_rsa_reaches [OF run rp g1 g2 gate nf f u])
        have o: "q = import_rsakey_from_private_pem env c sch (if pw = [] then None else Some pw)"
          by (rule import_rsa_outcome [OF run cs])
        show "calls w' = calls w @ [Call_import_rsakey_from_private_pem c sch (if pw = [] then None else Some pw)] \<and>
              q = import_rsakey_from_private_pem env c sch (if pw = [] then None else Some pw)"
          by (rule conjI [OF cs o])
      qed
      qed
      show "(\<forall>e. PASSWORD_SCHEMA_check_match env pw = Inl e \<longrightarrow> q = Inl e \<and> calls w' = calls w) \<and>
         (PASSWORD_SCHEMA_check_match env pw = Inr () \<longrightarrow>
           (\<forall>c. \<not> fault_due w \<longrightarrow> files w path = Some c \<longrightarrow> valid_utf8 env c \<longrightarrow>
              calls w' = calls w @ [Call_import_rsakey_from_private_pem c sch (if pw = [] then None else Some pw)] \<and>
              q = import_rsakey_from_private_pem env c sch (if pw = [] then None else Some pw)))"
        by (rule conjI [OF x y])
    qed
    from import_rsa_given [OF run] fwd show "tty_pos w' = tty_pos w \<and> stderr w' = stderr w \<and> stdout w' = stdout w \<and>
      (calls w' = calls w \<or> (\<exists>c. calls w' = calls w @ [Call_import_rsakey_from_private_pem c sch (if pw = [] then None else Some pw)])) \<and>
      (PATH_SCHEMA_check_match env path = Inr () \<and>
       RSA_SCHEME_SCHEMA_check_match env sch = Inr () \<longrightarrow>
         (\<forall>e. PASSWORD_SCHEMA_check_match env pw = Inl e \<longrightarrow> q = Inl e \<and> calls w' = calls w) \<and>
         (PASSWORD_SCHEMA_check_match env pw = Inr () \<longrightarrow>
           (\<forall>c. \<not> fault_due w \<longrightarrow> files w path = Some c \<longrightarrow> valid_utf8 env c \<longrightarrow>
              calls w' = calls w @ [Call_import_rsakey_from_private_pem c sch (if pw = [] then None else Some pw)] \<and>
              q = import_rsakey_from_private_pem env c sch (if pw = [] then None else Some pw))))"
      by (simp only: simp_thms)
  qed
  have p_3: "import_rsa_privatekey_from_file env path None sch w = Some (q, w') \<and>
      PATH_SCHEMA_check_match env path = Inr () \<and>
      RSA_SCHEME_SCHEMA_check_match env sch = Inr () \<longrightarrow>
      stderr w' = stderr w @
        [''Enter a password for the encrypted RSA file ('' @ Fore_RED @
           os_path_basename path @ Fore_RESET @ ''): ''] \<and>
      stdout w' = stdout w \<and>
      tty_pos w' = (if tty_in w (tty_pos w) = None then tty_pos w else tty_pos w + 1) \<and>
      (tty_in w (tty_pos w) = None \<longrightarrow> q = Inl EOFError)"
  proof (rule impI)
    assume h: "import_rsa_privatekey_from_file env path None sch w = Some (q, w') \<and>
      PATH_SCHEMA_check_match env path = Inr () \<and>
      RSA_SCHEME_SCHEMA_check_match env sch = Inr ()"
    then have run: "import_rsa_privatekey_from_file env path None sch w = Some (q, w')"
      by simp
    from h have g1: "PATH_SCHEMA_check_match env path = Inr ()" by simp
    from h have g2: "RSA_SCHEME_SCHEMA_check_match env sch = Inr ()" by simp
    have pn: "(None :: string option) = None"
      by simp
    note pf = run_E [OF import_rsa_password_spec run, rule_format, OF g1 g2]
    note t = pf [THEN conjunct2, rule_format, OF pn]
    from import_rsa_prompted [OF run] h t show "stderr w' = stderr w @
        [''Enter a password for the encrypted RSA file ('' @ Fore_RED @
           os_path_basename path @ Fore_RESET @ ''): ''] \<and>
      stdout w' = stdout w \<and>
      tty_pos w' = (if tty_in w (tty_pos w) = None then tty_pos w else tty_pos w + 1) \<and>
      (tty_in w (tty_pos w) = None \<longrightarrow> q = Inl EOFError)"
      by simp
  qed
  have g_4: "import_ed25519_privatekey_from_file env path (Some pw) w = Some (q, w') \<longrightarrow>
      tty_pos w' = tty_pos w \<and> stderr w' = stderr w \<and> stdout w' = stdout w \<and>
      (calls w' = calls w \<or> (\<exists>c. calls w' = calls w @ [Call_decrypt_key c pw])) \<and>
      (PATH_SCHEMA_check_match env path = Inr () \<longrightarrow>
         (\<forall>e. PASSWORD_SCHEMA_check_match env pw = Inl e \<longrightarrow> q = Inl e \<and> calls w' = calls w) \<and>
         (PASSWORD_SCHEMA_check_match env pw = Inr () \<longrightarrow>
           (\<forall>c. \<not> fault_due w \<longrightarrow> files w path = Some c \<longrightarrow> valid_utf8 env c \<longrightarrow>
              calls w' = calls w @ [Call_decrypt_key c pw] \<and>
              (case decrypt_key env c pw of
                   Inl e \<Rightarrow> q = Inl e
                 | Inr k \<Rightarrow>
                     q = (if keytype k = ''ed25519''
                          then Inr (k\<lparr>keyid_hash_algorithms := Some (HASH_ALGORITHMS env)\<rparr>)
                          else Inl (FormatError (''Invalid key type loaded: '' @ repr env (keytype k))))))))"
  proof (rule impI)
    assume run: "import_ed25519_privatekey_from_file env path (Some pw) w = Some (q, w')"
    have rp: "resolved_password (Some pw) w = Some pw"
      by (simp add: resolved_password_def)
    have fwd: "PATH_SCHEMA_check_match env path = Inr () \<longrightarrow>
         (\<forall>e. PASSWORD_SCHEMA_check_match env pw = Inl e \<longrightarrow> q = Inl e \<and> calls w' = calls w) \<and>
         (PASSWORD_SCHEMA_check_match env pw = Inr () \<longrightarrow>
           (\<forall>c. \<not> fault_due w \<longrightarrow> files w path = Some c \<longrightarrow> valid_utf8 env c \<longrightarrow>
              calls w' = calls w @ [Call_decrypt_key c pw] \<and>
              (case decrypt_key env c pw of
                   Inl e \<Rightarrow> q = Inl e
                 | Inr k \<Rightarrow>
                     q = (if keytype k = ''ed25519''
                          then Inr (k\<lparr>keyid_hash_algorithms := Some (HASH_ALGORITHMS env)\<rparr>)
                          else Inl (FormatError (''Invalid key type loaded: '' @ repr env (keytype k)))))))"
    proof (rule impI)
      assume g: "PATH_SCHEMA_check_match env path = Inr ()"
      from g have g1: "PATH_SCHEMA_check_match env path = Inr ()" by simp
      note pf = run_E [OF import_ed25519_password_spec run, rule_format, OF g1]
      have x: "(\<forall>e. PASSWORD_SCHEMA_check_match env pw = Inl e \<longrightarrow> q = Inl e \<and> calls w' = calls w)"
      proof (intro allI impI)
        fix e assume "PASSWORD_SCHEMA_check_match env pw = Inl e"
        then show "q = Inl e \<and> calls w' = calls w"
          by (rule pf [THEN conjunct1, rule_format, OF rp])
      qed
      have y: "PASSWORD_SCHEMA_check_match env pw = Inr () \<longrightarrow>
           (\<forall>c. \<not> fault_due w \<longrightarrow> files w path = Some c \<longrightarrow> valid_utf8 env c \<longrightarrow>
              calls w' = calls w @ [Call_decrypt_key c pw] \<and>
              (case decrypt_key env c pw of
                   Inl e \<Rightarrow> q = Inl e
                 | Inr k \<Rightarrow>
                     q = (if keytype k = ''ed25519''
                          then Inr (k\<lparr>keyid_hash_algorithms := Some (HASH_ALGORITHMS env)\<rparr>)
                          else Inl (FormatError (''Invalid key type loaded: '' @ repr env (keytype k))))))"
      proof (rule impI)
        assume gate: "PASSWORD_SCHEMA_check_match env pw = Inr ()"
      show "\<forall>c. \<not> fault_due w \<longrightarrow> files w path = Some c \<longrightarrow> valid_utf8 env c \<longrightarrow>
              calls w' = calls w @ [Call_decrypt_key c pw] \<and>
              (case decrypt_key env c pw of
                   Inl e \<Rightarrow> q = Inl e
                 | Inr k \<Rightarrow>
                     q = (if keytype k = ''ed25519''
                          then Inr (k\<lparr>keyid_hash_algorithms := Some (HASH_ALGORITHMS env)\<rparr>)
                          else Inl (FormatError (''Invalid key type loaded: '' @ repr env (keytype k)))))"
      proof (intro allI impI)
        fix c
        assume nf: "\<not> fault_due w" and f: "files w path = Some c" and u: "valid_utf8 env c"
        have cs: "calls w' = calls w @ [Call_decrypt_key c pw]"
          by (rule import_ed25519_reaches [OF run rp g1 gate nf f u])
        have o: "(case decrypt_key env c pw of
                   Inl e \<Rightarrow> q = Inl e
                 | Inr k \<Rightarrow>
                     q = (if keytype k = ''ed25519''
                          then Inr (k\<lparr>keyid_hash_algorithms := Some (HASH_ALGORITHMS env)\<rparr>)
                          else Inl (FormatError (''Invalid key type loaded: '' @ repr env (keytype k)))))"
          by (rule import_ed25519_outcome [OF run cs])
        show "calls w' = calls w @ [Call_decrypt_key c pw] \<and>
              (case decrypt_key env c pw of
                   Inl e \<Rightarrow> q = Inl e
                 | Inr k \<Rightarrow>
                     q = (if keytype k = ''ed25519''
                          then Inr (k\<lparr>keyid_hash_algorithms := Some (HASH_ALGORITHMS env)\<rparr>)
                          else Inl (FormatError (''Invalid key type loaded: '' @ repr env (keytype k)))))"
          by (rule conjI [OF cs o])
      qed
      qed
      show "(\<forall>e. PASSWORD_SCHEMA_check_match env pw = Inl e \<longrightarrow> q = Inl e \<and> calls w' = calls w) \<and>
         (PASSWORD_SCHEMA_check_match env pw = Inr () \<longrightarrow>
           (\<forall>c. \<not> fault_due w \<longrightarrow> files w path = Some c \<longrightarrow> valid_utf8 env c \<longrightarrow>
              calls w' = calls w @ [Call_decrypt_key c pw] \<and>
              (case decrypt_key env c pw of
                   Inl e \<Rightarrow> q = Inl e
                 | Inr k \<Rightarrow>
                     q = (if keytype k = ''ed25519''
                          then Inr (k\<lparr>keyid_hash_algorithms := Some (HASH_ALGORITHMS env)\<rparr>)
                          else Inl (FormatError (''Invalid key type loaded: '' @ repr env (keytype k)))))))"
        by (rule conjI [OF x y])
    qed
    from import_ed25519_given [OF run] fwd show "tty_pos w' = tty_pos w \<and> stderr w' = stderr w \<and> stdout w' = stdout w \<and>
      (calls w' = calls w \<or> (\<exists>c. calls w' = calls w @ [Call_decrypt_key c pw])) \<and>
      (PATH_SCHEMA_check_match env path = Inr () \<longrightarrow>
         (\<forall>e. PASSWORD_SCHEMA_check_match env pw = Inl e \<longrightarrow> q = Inl e \<and> calls w' = calls w) \<and>
         (PASSWORD_SCHEMA_check_match env pw = Inr () \<longrightarrow>
           (\<forall>c. \<not> fault_due w \<longrightarrow> files w path = Some c \<longrightarrow> valid_utf8 env c \<longrightarrow>
              calls w' = calls w @ [Call_decrypt_key c pw] \<and>
              (case decrypt_key env c pw of
                   Inl e \<Rightarrow> q = Inl e
                 | Inr k \<Rightarrow>
                     q = (if keytype k = ''ed25519''
                          then Inr (k\<lparr>keyid_hash_algorithms := Some (HASH_ALGORITHMS env)\<rparr>)
                          else Inl (FormatError (''Invalid key type loaded: '' @ repr env (keytype k))))))))"
      by (simp only: simp_thms)
  qed
  have p_4: "import_ed25519_privatekey_from_file env path None w = Some (q, w') \<and>
      PATH_SCHEMA_check_match env path = Inr () \<longrightarrow>
      stderr w' = stderr w @
        [''Enter a password for the encrypted Ed25519 key ('' @ Fore_RED @
           os_path_basename path @ Fore_RESET @ ''): ''] \<and>
      stdout w' = stdout w \<and>
      tty_pos w' = (if tty_in w (tty_pos w) = None then tty_pos w else tty_pos w + 1) \<and>
      (tty_in w (tty_pos w) = None \<longrightarrow> q = Inl EOFError)"
  proof (rule impI)
    assume h: "import_ed25519_privatekey_from_file env path None w = Some (q, w') \<and>
      PATH_SCHEMA_check_match env path = Inr ()"
    then have run: "import_ed25519_privatekey_from_file env path None w = Some (q, w')"
      by simp
    from h have g1: "PATH_SCHEMA_check_match env path = Inr ()" by simp
    have pn: "(None :: string option) = None"
      by simp
    note pf = run_E [OF import_ed25519_password_spec run, rule_format, OF g1]
    note t = pf [THEN conjunct2, rule_format, OF pn]
    from import_ed25519_prompted [OF run] h t show "stderr w' = stderr w @
        [''Enter a password for the encrypted Ed25519 key ('' @ Fore_RED @
           os_path_basename path @ Fore_RESET @ ''): ''] \<and>
      stdout w' = stdout w \<and>
      tty_pos w' = (if tty_in w (tty_pos w) = None then tty_pos w else tty_pos w + 1) \<and>
      (tty_in w (tty_pos w) = None \<longrightarrow> q = Inl EOFError)"
      by simp
  qed
  have g_5: "import_ecdsa_privatekey_from_file env path (Some pw) w = Some (q, w') \<longrightarrow>
      tty_pos w' = tty_pos w \<and> stderr w' = stderr w \<and> stdout w' = stdout w \<and>
      (calls w' = calls w \<or> (\<exists>c. calls w' = calls w @ [Call_decrypt_key c pw])) \<and>
      (PATH_SCHEMA_check_match env path = Inr () \<longrightarrow>
         (\<forall>e. PASSWORD_SCHEMA_check_match env pw = Inl e \<longrightarrow> q = Inl e \<and> calls w' = calls w) \<and>
         (PASSWORD_SCHEMA_check_match env pw = Inr () \<longrightarrow>
           (\<forall>c. \<not> fault_due w \<longrightarrow> files w path = Some c \<longrightarrow> valid_utf8 env c \<longrightarrow>
              calls w' = calls w @ [Call_decrypt_key c pw] \<and>
              (case decrypt_key env c pw of
                   Inl e \<Rightarrow> q = Inl e
                 | Inr k \<Rightarrow>
                     q = (if keytype k = ''ecdsa-sha2-nistp256''
                          then Inr (k\<lparr>keyid_hash_algorithms := Some (HASH_ALGORITHMS env)\<rparr>)
                          else Inl (FormatError (''Invalid key type loaded: '' @ repr env (keytype k))))))))"
  proof (rule impI)
    assume run: "import_ecdsa_privatekey_from_file env path (Some pw) w = Some (q, w')"
    have rp: "resolved_password (Some pw) w = Some pw"
      by (simp add: resolved_password_def)
    have fwd: "PATH_SCHEMA_check_match env path = Inr () \<longrightarrow>
         (\<forall>e. PASSWORD_SCHEMA_check_match env pw = Inl e \<longrightarrow> q = Inl e \<and> calls w' = calls w) \<and>
         (PASSWORD_SCHEMA_check_match env pw = Inr () \<longrightarrow>
           (\<forall>c. \<not> fault_due w \<longrightarrow> files w path = Some c \<longrightarrow> valid_utf8 env c \<longrightarrow>
              calls w' = calls w @ [Call_decrypt_key c pw] \<and>
              (case decrypt_key env c pw of
                   Inl e \<Rightarrow> q = Inl e
                 | Inr k \<Rightarrow>
                     q = (if keytype k = ''ecdsa-sha2-nistp256''
                          then Inr (k\<lparr>keyid_hash_algorithms := Some (HASH_ALGORITHMS env)\<rparr>)
                          else Inl (FormatError (''Invalid key type loaded: '' @ repr env (keytype k)))))))"
    proof (rule impI)
      assume g: "PATH_SCHEMA_check_match env path = Inr ()"
      from g have g1: "PATH_SCHEMA_check_match env path = Inr ()" by simp
      note pf = run_E [OF import_ecdsa_password_spec run, rule_format, OF g1]
      have x: "(\<forall>e. PASSWORD_SCHEMA_check_match env pw = Inl e \<longrightarrow> q = Inl e \<and> calls w' = calls w)"
      proof (intro allI impI)
        fix e assume "PASSWORD_SCHEMA_check_match env pw = Inl e"
        then show "q = Inl e \<and> calls w' = calls w"
          by (rule pf [THEN conjunct1, rule_format, OF rp])
      qed
      have y: "PASSWORD_SCHEMA_check_match env pw = Inr () \<longrightarrow>
           (\<forall>c. \<not> fault_due w \<longrightarrow> files w path = Some c \<longrightarrow> valid_utf8 env c \<longrightarrow>
              calls w' = calls w @ [Call_decrypt_key c pw] \<and>
              (case decrypt_key env c pw of
                   Inl e \<Rightarrow> q = Inl e
                 | Inr k \<Rightarrow>
                     q = (if keytype k = ''ecdsa-sha2-nistp256''
                          then Inr (k\<lparr>keyid_hash_algorithms := Some (HASH_ALGORITHMS env)\<rparr>)
                          else Inl (FormatError (''Invalid key type loaded: '' @ repr env (keytype k))))))"
      proof (rule impI)
        assume gate: "PASSWORD_SCHEMA_check_match env pw = Inr ()"
      show "\<forall>c. \<not> fault_due w \<longrightarrow> files w path = Some c \<longrightarrow> valid_utf8 env c \<longrightarrow>
              calls w' = calls w @ [Call_decrypt_key c pw] \<and>
              (case decrypt_key env c pw of
                   Inl e \<Rightarrow> q = Inl e
                 | Inr k \<Rightarrow>
                     q = (if keytype k = ''ecdsa-sha2-nistp256''
                          then Inr (k\<lparr>keyid_hash_algorithms := Some (HASH_ALGORITHMS env)\<rparr>)
                          else Inl (FormatError (''Invalid key type loaded: '' @ repr env (keytype k)))))"
      proof (intro allI impI)
        fix c
        assume nf: "\<not> fault_due w" and f: "files w path = Some c" and u: "valid_utf8 env c"
        have cs: "calls w' = calls w @ [Call_decrypt_key c pw]"
          by (rule import_ecdsa_reaches [OF run rp g1 gate nf f u])
        have o: "(case decrypt_key env c pw of
                   Inl e \<Rightarrow> q = Inl e
                 | Inr k \<Rightarrow>
                     q = (if keytype k = ''ecdsa-sha2-nistp256''
                          then Inr (k\<lparr>keyid_hash_algorithms := Some (HASH_ALGORITHMS env)\<rparr>)
                          else Inl (FormatError (''Invalid key type loaded: '' @ repr env (keytype k)))))"
          by (rule import_ecdsa_outcome [OF run cs])
        show "calls w' = calls w @ [Call_decrypt_key c pw] \<and>
              (case decrypt_key env c pw of
                   Inl e \<Rightarrow> q = Inl e
                 | Inr k \<Rightarrow>
                     q = (if keytype k = ''ecdsa-sha2-nistp256''
                          then Inr (k\<lparr>keyid_hash_algorithms := Some (HASH_ALGORITHMS env)\<rparr>)
                          else Inl (FormatError (''Invalid key type loaded: '' @ repr env (keytype k)))))"
          by (rule conjI [OF cs o])
      qed
      qed
      show "(\<forall>e. PASSWORD_SCHEMA_check_match env pw = Inl e \<longrightarrow> q = Inl e \<and> calls w' = calls w) \<and>
         (PASSWORD_SCHEMA_check_match env pw = Inr () \<longrightarrow>
           (\<forall>c. \<not> fault_due w \<longrightarrow> files w path = Some c \<longrightarrow> valid_utf8 env c \<longrightarrow>
              calls w' = calls w @ [Call_decrypt_key c pw] \<and>
              (case decrypt_key env c pw of
                   Inl e \<Rightarrow> q = Inl e
                 | Inr k \<Rightarrow>
                     q = (if keytype k = ''ecdsa-sha2-nistp256''
                          then Inr (k\<lparr>keyid_hash_algorithms := Some (HASH_ALGORITHMS env)\<rparr>)
                          else Inl (FormatError (''Invalid key type loaded: '' @ repr env (keytype k)))))))"
        by (rule conjI [OF x y])
    qed
    from import_ecdsa_given [OF run] fwd show "tty_pos w' = tty_pos w \<and> stderr w' = stderr w \<and> stdout w' = stdout w \<and>
      (calls w' = calls w \<or> (\<exists>c. calls w' = calls w @ [Call_decrypt_key c pw])) \<and>
      (PATH_SCHEMA_check_match env path = Inr () \<longrightarrow>
         (\<forall>e. PASSWORD_SCHEMA_check_match env pw = Inl e \<longrightarrow> q = Inl e \<and> calls w' = calls w) \<and>
         (PASSWORD_SCHEMA_check_match env pw = Inr () \<longrightarrow>
           (\<forall>c. \<not> fault_due w \<longrightarrow> files w path = Some c \<longrightarrow> valid_utf8 env c \<longrightarrow>
              calls w' = calls w @ [Call_decrypt_key c pw] \<and>
              (case decrypt_key env c pw of
                   Inl e \<Rightarrow> q = Inl e
                 | Inr k \<Rightarrow>
                     q = (if keytype k = ''ecdsa-sha2-nistp256''
                          then Inr (k\<lparr>keyid_hash_algorithms := Some (HASH_ALGORITHMS env)\<rparr>)
                          else Inl (FormatError (''Invalid key type loaded: '' @ repr env (keytype k))))))))"
      by (simp only: simp_thms)
  qed
  have p_5: "import_ecdsa_privatekey_from_file env path None w = Some (q, w') \<and>
      PATH_SCHEMA_check_match env path = Inr () \<longrightarrow>
      stderr w' = stderr w @
        [''Enter a password for the encrypted ECDSA key ('' @ Fore_RED @
           os_path_basename path @ Fore_RESET @ ''): ''] \<and>
      stdout w' = stdout w \<and>
      tty_pos w' = (if tty_in w (tty_pos w) = None then tty_pos w else tty_pos w + 1) \<and>
      (tty_in w (tty_pos w) = None \<longrightarrow> q = Inl EOFError)"
  proof (rule impI)
    assume h: "import_ecdsa_privatekey_from_file env path None w = Some (q, w') \<and>
      PATH_SCHEMA_check_match env path = Inr ()"
    then have run: "import_ecdsa_privatekey_from_file env path None w = Some (q, w')"
      by simp
    from h have g1: "PATH_SCHEMA_check_match env path = Inr ()" by simp
    have pn: "(None :: string option) = None"
      by simp
    note pf = run_E [OF import_ecdsa_password_spec run, rule_format, OF g1]
    note t = pf [THEN conjunct2, rule_format, OF pn]
    from import_ecdsa_prompted [OF run] h t show "stderr w' = stderr w @
        [''Enter a password for the encrypted ECDSA key ('' @ Fore_RED @
           os_path_basename path @ Fore_RESET @ ''): ''] \<and>
      stdout w' = stdout w \<and>
      tty_pos w' = (if tty_in w (tty_pos w) = None then tty_pos w else tty_pos w + 1) \<and>
      (tty_in w (tty_pos w) = None \<longrightarrow> q = Inl EOFError)"
      by simp
  qed
  show ?thesis
    by (rule conjI [OF g_0 conjI [OF p_0 conjI [OF g_1 conjI [OF p_1 conjI [OF g_2 conjI [OF p_2 conjI [OF g_3 conjI [OF p_3 conjI [OF g_4 conjI [OF p_4 conjI [OF g_5 p_5]]]]]]]]]]])
qed

theorem given_password_never_prompts_witness:
  "(\<exists>r w'. generate_and_write_rsa_keypair demo_env (Some ''k'') DEFAULT_RSA_KEY_BITS (Some ''pw'') demo_world = Some (r, w') \<and>
      tty_pos w' = 0 \<and>
      stderr w' = [] \<and>
      stdout w' = [] \<and>
      calls w' = [Call_create_rsa_encrypted_pem ''PRIVATE-PEM'' ''pw''] \<and>
      r = Inr ''k'' \<and>
      files w' ''k'' = Some ''ENC[pw]PRIVATE-PEM'') \<and>
   (\<exists>r w'. generate_and_write_rsa_keypair demo_env (Some ''k'') DEFAULT_RSA_KEY_BITS (Some []) demo_world = Some (r, w') \<and>
      tty_pos w' = 0 \<and>
      stderr w' = [] \<and>
      calls w' = [] \<and>
      r = Inr ''k'' \<and>
      files w' ''k'' = Some ''PRIVATE-PEM'') \<and>
   (\<exists>r w'. generate_and_write_ed25519_keypair demo_env (Some ''k'') (Some []) demo_world = Some (r, w') \<and>
      tty_pos w' = 0 \<and>
      stderr w' = [] \<and>
      calls w' = [Call_encrypt_key demo_ed25519_key []] \<and>
      r = Inr ''k'' \<and>
      files w' ''k'' = Some ''ENC[]ed25519'') \<and>
   (\<exists>r w'. generate_and_write_ecdsa_keypair demo_env (Some ''k'') (Some ''pw'') demo_world = Some (r, w') \<and>
      tty_pos w' = 0 \<and>
      stderr w' = [] \<and>
      calls w' = [Call_encrypt_key demo_ecdsa_key ''pw''] \<and>
      r = Inr ''k'' \<and>
      files w' ''k'' = Some ''ENC[pw]ecdsa-sha2-nistp256'') \<and>
   (\<exists>q w'. import_rsa_privatekey_from_file demo_env ''k'' (Some []) ''rsassa-pss-sha256''
        (demo_world\<lparr>files := [''k'' \<mapsto> ''PRIVATE-PEM'']\<rparr>) = Some (q, w') \<and>
      tty_pos w' = 0 \<and>
      stderr w' = [] \<and>
      calls w' = [Call_import_rsakey_from_private_pem ''PRIVATE-PEM'' ''rsassa-pss-sha256'' None] \<and>
      q = Inr demo_rsa_key) \<and>
   (\<exists>q w'. import_rsa_privatekey_from_file demo_env ''k'' (Some ''pw'') ''rsassa-pss-sha256''
        (demo_world\<lparr>files := [''k'' \<mapsto> ''ENC[pw]PRIVATE-PEM'']\<rparr>) = Some (q, w') \<and>
      tty_pos w' = 0 \<and>
      stderr w' = [] \<and>
      calls w' = [Call_import_rsakey_from_private_pem ''ENC[pw]PRIVATE-PEM'' ''rsassa-pss-sha256'' (Some ''pw'')] \<and>
      q = Inr demo_rsa_key) \<and>
   (\<exists>q w'. import_ed25519_privatekey_from_file demo_env ''k'' (Some [])
        (demo_world\<lparr>files := [''k'' \<mapsto> ''ENC[]ed25519'']\<rparr>) = Some (q, w') \<and>
      tty_pos w' = 0 \<and>
      stderr w' = [] \<and>
      calls w' = [Call_decrypt_key ''ENC[]ed25519'' []] \<and>
      q = Inr (demo_ed25519_key\<lparr>keyid_hash_algorithms := Some [''sha256'', ''sha512'']\<rparr>)) \<and>
   (\<exists>q w'. import_ecdsa_privatekey_from_file demo_env ''k'' (Some ''pw'')
        (demo_world\<lparr>files := [''k'' \<mapsto> ''ENC[pw]ecdsa-sha2-nistp256'']\<rparr>) = Some (q, w') \<and>
      tty_pos w' = 0 \<and>
      stderr w' = [] \<and>
      calls w' = [Call_decrypt_key ''ENC[pw]ecdsa-sha2-nistp256'' ''pw''] \<and>
      q = Inr (demo_ecdsa_key\<lparr>keyid_hash_algorithms := Some [''sha256'', ''sha512'']\<rparr>)) \<and>
   (\<exists>q w'. import_ed25519_privatekey_from_file
        (demo_env\<lparr>PASSWORD_SCHEMA_check_match :=
           (\<lambda>p. if p = ''bad'' then Inl (FormatError ''password'') else Inr ())\<rparr>)
        ''k'' (Some ''bad'') (demo_world\<lparr>files := [''k'' \<mapsto> ''ENC[bad]ed25519'']\<rparr>) = Some (q, w') \<and>
      stderr w' = [] \<and>
      calls w' = [] \<and>
      q = Inl (FormatError ''password'')) \<and>
   (\<exists>r w'. generate_and_write_ed25519_keypair
        (demo_env\<lparr>PASSWORD_SCHEMA_check_match :=
           (\<lambda>p. if p = ''bad'' then Inl (FormatError ''password'') else Inr ())\<rparr>)
        (Some ''k'') (Some ''bad'') demo_world = Some (r, w') \<and>
      stderr w' = [] \<and>
      calls w' = [] \<and>
      files w' = Map.empty \<and>
      r = Inl (FormatError ''password'')) \<and>
   (\<exists>r w'. generate_and_write_rsa_keypair demo_env (Some ''k'') DEFAULT_RSA_KEY_BITS None
        (demo_world\<lparr>tty_in := typing [''a'']\<rparr>) = Some (r, w') \<and>
      stderr w' = [''Enter a password for the encrypted RSA key ('' @ Fore_RED @ ''k'' @ Fore_RESET @ ''): ''] \<and>
      stdout w' = [] \<and>
      tty_pos w' = 1) \<and>
   (\<exists>r w'. generate_and_write_ed25519_keypair demo_env (Some ''k'') None
        (demo_world\<lparr>tty_in := typing [''a'']\<rparr>) = Some (r, w') \<and>
      stderr w' = [''Enter a password for the Ed25519 key ('' @ Fore_RED @ ''k'' @ Fore_RESET @ ''): ''] \<and>
      stdout w' = [] \<and>
      tty_pos w' = 1) \<and>
   (\<exists>r w'. generate_and_write_ecdsa_keypair demo_env (Some ''k'') None
        (demo_world\<lparr>tty_in := typing [''a'']\<rparr>) = Some (r, w') \<and>
      stderr w' = [''Enter a password for the ECDSA key ('' @ Fore_RED @ ''k'' @ Fore_RESET @ ''): ''] \<and>
      stdout w' = [] \<and>
      tty_pos w' = 1) \<and>
   (\<exists>q w'. import_rsa_privatekey_from_file demo_env ''k'' None ''rsassa-pss-sha256''
        (demo_world\<lparr>tty_in := typing [''a'']\<rparr>) = Some (q, w') \<and>
      stderr w' = [''Enter a password for the encrypted RSA file ('' @ Fore_RED @ ''k'' @ Fore_RESET @ ''): ''] \<and>
      stdout w' = [] \<and>
      tty_pos w' = 1) \<and>
   (\<exists>q w'. import_ed25519_privatekey_from_file demo_env ''k'' None
        (demo_world\<lparr>tty_in := typing [''a'']\<rparr>) = Some (q, w') \<and>
      stderr w' = [''Enter a password for the encrypted Ed25519 key ('' @ Fore_RED @ ''k'' @ Fore_RESET @ ''): ''] \<and>
      stdout w' = [] \<and>
      tty_pos w' = 1) \<and>
   (\<exists>q w'. import_ecdsa_privatekey_from_file demo_env ''k'' None
        (demo_world\<lparr>tty_in := typing [''a'']\<rparr>) = Some (q, w') \<and>
      stderr w' = [''Enter a password for the encrypted ECDSA key ('' @ Fore_RED @ ''k'' @ Fore_RESET @ ''): ''] \<and>
      stdout w' = [] \<and>
      tty_pos w' = 1) \<and>
   (\<exists>r w'. generate_and_write_ed25519_keypair demo_env (Some ''k'') None demo_world = Some (r, w') \<and>
      tty_pos w' = 0 \<and>
      r = Inl EOFError)"
proof -
  have i0: "\<exists>r w'. generate_and_write_rsa_keypair demo_env (Some ''k'') DEFAULT_RSA_KEY_BITS (Some ''pw'') demo_world = Some (r, w') \<and>
      tty_pos w' = 0 \<and>
      stderr w' = [] \<and>
      stdout w' = [] \<and>
      calls w' = [Call_create_rsa_encrypted_pem ''PRIVATE-PEM'' ''pw''] \<and>
      r = Inr ''k'' \<and>
      files w' ''k'' = Some ''ENC[pw]PRIVATE-PEM''"
  proof -
    obtain r w' where run: "generate_and_write_rsa_keypair demo_env (Some ''k'') DEFAULT_RSA_KEY_BITS (Some ''pw'') demo_world = Some (r, w')"
      using generate_rsa_returns by blast
    from given_password_never_prompts [where pw = "''pw''", THEN conjunct1, rule_format, OF run]
    have "tty_pos w' = 0 \<and>
      stderr w' = [] \<and>
      stdout w' = [] \<and>
      calls w' = [Call_create_rsa_encrypted_pem ''PRIVATE-PEM'' ''pw''] \<and>
      r = Inr ''k'' \<and>
      files w' ''k'' = Some ''ENC[pw]PRIVATE-PEM''"
      by (simp add: demo_env_def demo_world_def demo_rsa_key_def demo_ed25519_key_def demo_ecdsa_key_def
          used_filepath_def DEFAULT_RSA_KEY_BITS_def fault_due_def typing_def os_path_basename_def)
    with run show ?thesis
      by (intro exI [of _ r] exI [of _ w']) simp
  qed
  have i1: "\<exists>r w'. generate_and_write_rsa_keypair demo_env (Some ''k'') DEFAULT_RSA_KEY_BITS (Some []) demo_world = Some (r, w') \<and>
      tty_pos w' = 0 \<and>
      stderr w' = [] \<and>
      calls w' = [] \<and>
      r = Inr ''k'' \<and>
      files w' ''k'' = Some ''PRIVATE-PEM''"
  proof -
    obtain r w' where run: "generate_and_write_rsa_keypair demo_env (Some ''k'') DEFAULT_RSA_KEY_BITS (Some []) demo_world = Some (r, w')"
      using generate_rsa_returns by blast
    from given_password_never_prompts [where pw = "[]", THEN conjunct1, rule_format, OF run]
    have "tty_pos w' = 0 \<and>
      stderr w' = [] \<and>
      calls w' = [] \<and>
      r = Inr ''k'' \<and>
      files w' ''k'' = Some ''PRIVATE-PEM''"
      by (simp add: demo_env_def demo_world_def demo_rsa_key_def demo_ed25519_key_def demo_ecdsa_key_def
          used_filepath_def DEFAULT_RSA_KEY_BITS_def fault_due_def typing_def os_path_basename_def)
    with run show ?thesis
      by (intro exI [of _ r] exI [of _ w']) simp
  qed
  have i2: "\<exists>r w'. generate_and_write_ed25519_keypair demo_env (Some ''k'') (Some []) demo_world = Some (r, w') \<and>
      tty_pos w' = 0 \<and>
      stderr w' = [] \<and>
      calls w' = [Call_encrypt_key demo_ed25519_key []] \<and>
      r = Inr ''k'' \<and>
      files w' ''k'' = Some ''ENC[]ed25519''"
  proof -
    obtain r w' where run: "generate_and_write_ed25519_keypair demo_env (Some ''k'') (Some []) demo_world = Some (r, w')"
      using generate_ed25519_returns by blast
    from given_password_never_prompts [where pw = "[]", THEN conjunct2, THEN conjunct2, THEN conjunct1, rule_format, OF run]
    have "tty_pos w' = 0 \<and>
      stderr w' = [] \<and>
      calls w' = [Call_encrypt_key demo_ed25519_key []] \<and>
      r = Inr ''k'' \<and>
      files w' ''k'' = Some ''ENC[]ed25519''"
      by (simp add: demo_env_def demo_world_def demo_rsa_key_def demo_ed25519_key_def demo_ecdsa_key_def
          used_filepath_def DEFAULT_RSA_KEY_BITS_def fault_due_def typing_def os_path_basename_def)
    with run show ?thesis
      by (intro exI [of _ r] exI [of _ w']) simp
  qed
  have i3: "\<exists>r w'. generate_and_write_ecdsa_keypair demo_env (Some ''k'') (Some ''pw'') demo_world = Some (r, w') \<and>
      tty_pos w' = 0 \<and>
      stderr w' = [] \<and>
      calls w' = [Call_encrypt_key demo_ecdsa_key ''pw''] \<and>
      r = Inr ''k'' \<and>
      files w' ''k'' = Some ''ENC[pw]ecdsa-sha2-nistp256''"
  proof -
    obtain r w' where run: "generate_and_write_ecdsa_keypair demo_env (Some ''k'') (Some ''pw'') demo_world = Some (r, w')"
      using generate_ecdsa_returns by blast
    from given_password_never_prompts [where pw = "''pw''", THEN conjunct2, THEN conjunct2, THEN conjunct2, THEN conjunct2, THEN conjunct1, rule_format, OF run]
    have "tty_pos w' = 0 \<and>
      stderr w' = [] \<and>
      calls w' = [Call_encrypt_key demo_ecdsa_key ''pw''] \<and>
      r = Inr ''k'' \<and>
      files w' ''k'' = Some ''ENC[pw]ecdsa-sha2-nistp256''"
      by (simp add: demo_env_def demo_world_def demo_rsa_key_def demo_ed25519_key_def demo_ecdsa_key_def
          used_filepath_def DEFAULT_RSA_KEY_BITS_def fault_due_def typing_def os_path_basename_def)
    with run show ?thesis
      by (intro exI [of _ r] exI [of _ w']) simp
  qed
  have i4: "\<exists>q w'. import_rsa_privatekey_from_file demo_env ''k'' (Some []) ''rsassa-pss-sha256''
        (demo_world\<lparr>files := [''k'' \<mapsto> ''PRIVATE-PEM'']\<rparr>) = Some (q, w') \<and>
      tty_pos w' = 0 \<and>
      stderr w' = [] \<and>
      calls w' = [Call_import_rsakey_from_private_pem ''PRIVATE-PEM'' ''rsassa-pss-sha256'' None] \<and>
      q = Inr demo_rsa_key"
  proof -
    obtain q w' where run: "import_rsa_privatekey_from_file demo_env ''k'' (Some []) ''rsassa-pss-sha256''
        (demo_world\<lparr>files := [''k'' \<mapsto> ''PRIVATE-PEM'']\<rparr>) = Some (q, w')"
      using import_rsa_returns by blast
    from given_password_never_prompts [where pw = "[]", THEN conjunct2, THEN conjunct2, THEN conjunct2, THEN conjunct2, THEN conjunct2, THEN conjunct2, THEN conjunct1, rule_format, OF run]
    have "tty_pos w' = 0 \<and>
      stderr w' = [] \<and>
      calls w' = [Call_import_rsakey_from_private_pem ''PRIVATE-PEM'' ''rsassa-pss-sha256'' None] \<and>
      q = Inr demo_rsa_key"
      by (simp add: demo_env_def demo_world_def demo_rsa_key_def demo_ed25519_key_def demo_ecdsa_key_def
          used_filepath_def DEFAULT_RSA_KEY_BITS_def fault_due_def typing_def os_path_basename_def)
    with run show ?thesis
      by (intro exI [of _ q] exI [of _ w']) simp
  qed
  have i5: "\<exists>q w'. import_rsa_privatekey_from_file demo_env ''k'' (Some ''pw'') ''rsassa-pss-sha256''
        (demo_world\<lparr>files := [''k'' \<mapsto> ''ENC[pw]PRIVATE-PEM'']\<rparr>) = Some (q, w') \<and>
      tty_pos w' = 0 \<and>
      stderr w' = [] \<and>
      calls w' = [Call_import_rsakey_from_private_pem ''ENC[pw]PRIVATE-PEM'' ''rsassa-pss-sha256'' (Some ''pw'')] \<and>
      q = Inr demo_rsa_key"
  proof -
    obtain q w' where run: "import_rsa_privatekey_from_file demo_env ''k'' (Some ''pw'') ''rsassa-pss-sha256''
        (demo_world\<lparr>files := [''k'' \<mapsto> ''ENC[pw]PRIVATE-PEM'']\<rparr>) = Some (q, w')"
      using import_rsa_returns by blast
    from given_password_never_prompts [where pw = "''pw''", THEN conjunct2, THEN conjunct2, THEN conjunct2, THEN conjunct2, THEN conjunct2, THEN conjunct2, THEN conjunct1, rule_format, OF run]
    have "tty_pos w' = 0 \<and>
      stderr w' = [] \<and>
      calls w' = [Call_import_rsakey_from_private_pem ''ENC[pw]PRIVATE-PEM'' ''rsassa-pss-sha256'' (Some ''pw'')] \<and>
      q = Inr demo_rsa_key"
      by (simp add: demo_env_def demo_world_def demo_rsa_key_def demo_ed25519_key_def demo_ecdsa_key_def
          used_filepath_def DEFAULT_RSA_KEY_BITS_def fault_due_def typing_def os_path_basename_def)
    with run show ?thesis
      by (intro exI [of _ q] exI [of _ w']) simp
  qed
  have i6: "\<exists>q w'. import_ed25519_privatekey_from_file demo_env ''k'' (Some [])
        (demo_world\<lparr>files := [''k'' \<mapsto> ''ENC[]ed25519'']\<rparr>) = Some (q, w') \<and>
      tty_pos w' = 0 \<and>
      stderr w' = [] \<and>
      calls w' = [Call_decrypt_key ''ENC[]ed25519'' []] \<and>
      q = Inr (demo_ed25519_key\<lparr>keyid_hash_algorithms := Some [''sha256'', ''sha512'']\<rparr>)"
  proof -
    obtain q w' where run: "import_ed25519_privatekey_from_file demo_env ''k'' (Some [])
        (demo_world\<lparr>files := [''k'' \<mapsto> ''ENC[]ed25519'']\<rparr>) = Some (q, w')"
      using import_ed25519_returns by blast
    from given_password_never_prompts [where pw = "[]", THEN conjunct2, THEN conjunct2, THEN conjunct2, THEN conjunct2, THEN conjunct2, THEN conjunct2, THEN conjunct2, THEN conjunct2, THEN conjunct1, rule_format, OF run]
    have "tty_pos w' = 0 \<and>
      stderr w' = [] \<and>
      calls w' = [Call_decrypt_key ''ENC[]ed25519'' []] \<and>
      q = Inr (demo_ed25519_key\<lparr>keyid_hash_algorithms := Some [''sha256'', ''sha512'']\<rparr>)"
      by (simp add: demo_env_def demo_world_def demo_rsa_key_def demo_ed25519_key_def demo_ecdsa_key_def
          used_filepath_def DEFAULT_RSA_KEY_BITS_def fault_due_def typing_def os_path_basename_def)
    with run show ?thesis
      by (intro exI [of _ q] exI [of _ w']) simp
  qed
  have i7: "\<exists>q w'. import_ecdsa_privatekey_from_file demo_env ''k'' (Some ''pw'')
        (demo_world\<lparr>files := [''k'' \<mapsto> ''ENC[pw]ecdsa-sha2-nistp256'']\<rparr>) = Some (q, w') \<and>
      tty_pos w' = 0 \<and>
      stderr w' = [] \<and>
      calls w' = [Call_decrypt_key ''ENC[pw]ecdsa-sha2-nistp256'' ''pw''] \<and>
      q = Inr (demo_ecdsa_key\<lparr>keyid_hash_algorithms := Some [''sha256'', ''sha512'']\<rparr>)"
  proof -
    obtain q w' where run: "import_ecdsa_privatekey_from_file demo_env ''k'' (Some ''pw'')
        (demo_world\<lparr>files := [''k'' \<mapsto> ''ENC[pw]ecdsa-sha2-nistp256'']\<rparr>) = Some (q, w')"
      using import_ecdsa_returns by blast
    from given_password_never_prompts [where pw = "''pw''", THEN conjunct2, THEN conjunct2, THEN conjunct2, THEN conjunct2, THEN conjunct2, THEN conjunct2, THEN conjunct2, THEN conjunct2, THEN conjunct2, THEN conjunct2, THEN conjunct1, rule_format, OF run]
    have "tty_pos w' = 0 \<and>
      stderr w' = [] \<and>
      calls w' = [Call_decrypt_key ''ENC[pw]ecdsa-sha2-nistp256'' ''pw''] \<and>
      q = Inr (demo_ecdsa_key\<lparr>keyid_hash_algorithms := Some [''sha256'', ''sha512'']\<rparr>)"
      by (simp add: demo_env_def demo_world_def demo_rsa_key_def demo_ed25519_key_def demo_ecdsa_key_def
          used_filepath_def DEFAULT_RSA_KEY_BITS_def fault_due_def typing_def os_path_basename_def)
    with run show ?thesis
      by (intro exI [of _ q] exI [of _ w']) simp
  qed
  have i8: "\<exists>q w'. import_ed25519_privatekey_from_file
        (demo_env\<lparr>PASSWORD_SCHEMA_check_match :=
           (\<lambda>p. if p = ''bad'' then Inl (FormatError ''password'') else Inr ())\<rparr>)
        ''k'' (Some ''bad'') (demo_world\<lparr>files := [''k'' \<mapsto> ''ENC[bad]ed25519'']\<rparr>) = Some (q, w') \<and>
      stderr w' = [] \<and>
      calls w' = [] \<and>
      q = Inl (FormatError ''password'')"
  proof -
    obtain q w' where run: "import_ed25519_privatekey_from_file
        (demo_env\<lparr>PASSWORD_SCHEMA_check_match :=
           (\<lambda>p. if p = ''bad'' then Inl (FormatError ''password'') else Inr ())\<rparr>)
        ''k'' (Some ''bad'') (demo_world\<lparr>files := [''k'' \<mapsto> ''ENC[bad]ed25519'']\<rparr>) = Some (q, w')"
      using import_ed25519_returns by blast
    from given_password_never_prompts [where pw = "''bad''", THEN conjunct2, THEN conjunct2, THEN conjunct2, THEN conjunct2, THEN conjunct2, THEN conjunct2, THEN conjunct2, THEN conjunct2, THEN conjunct1, rule_format, OF run]
    have "stderr w' = [] \<and>
      calls w' = [] \<and>
      q = Inl (FormatError ''password'')"
      by (simp add: demo_env_def demo_world_def demo_rsa_key_def demo_ed25519_key_def demo_ecdsa_key_def
          used_filepath_def DEFAULT_RSA_KEY_BITS_def fault_due_def typing_def os_path_basename_def)
    with run show ?thesis
      by (intro exI [of _ q] exI [of _ w']) simp
  qed
  have i9: "\<exists>r w'. generate_and_write_ed25519_keypair
        (demo_env\<lparr>PASSWORD_SCHEMA_check_match :=
           (\<lambda>p. if p = ''bad'' then Inl (FormatError ''password'') else Inr ())\<rparr>)
        (Some ''k'') (Some ''bad'') demo_world = Some (r, w') \<and>
      stderr w' = [] \<and>
      calls w' = [] \<and>
      files w' = Map.empty \<and>
      r = Inl (FormatError ''password'')"
  proof -
    obtain r w' where run: "generate_and_write_ed25519_keypair
        (demo_env\<lparr>PASSWORD_SCHEMA_check_match :=
           (\<lambda>p. if p = ''bad'' then Inl (FormatError ''password'') else Inr ())\<rparr>)
        (Some ''k'') (Some ''bad'') demo_world = Some (r, w')"
      using generate_ed25519_returns by blast
    from given_password_never_prompts [where pw = "''bad''", THEN conjunct2, THEN conjunct2, THEN conjunct1, rule_format, OF run]
    have "stderr w' = [] \<and>
      calls w' = [] \<and>
      files w' = Map.empty \<and>
      r = Inl (FormatError ''password'')"
      by (simp add: demo_env_def demo_world_def demo_rsa_key_def demo_ed25519_key_def demo_ecdsa_key_def
          used_filepath_def DEFAULT_RSA_KEY_BITS_def fault_due_def typing_def os_path_basename_def)
    with run show ?thesis
      by (intro exI [of _ r] exI [of _ w']) simp
  qed
  have i10: "\<exists>r w'. generate_and_write_rsa_keypair demo_env (Some ''k'') DEFAULT_RSA_KEY_BITS None
        (demo_world\<lparr>tty_in := typing [''a'']\<rparr>) = Some (r, w') \<and>
      stderr w' = [''Enter a password for the encrypted RSA key ('' @ Fore_RED @ ''k'' @ Fore_RESET @ ''): ''] \<and>
      stdout w' = [] \<and>
      tty_pos w' = 1"
  proof -
    obtain r w' where run: "generate_and_write_rsa_keypair demo_env (Some ''k'') DEFAULT_RSA_KEY_BITS None
        (demo_world\<lparr>tty_in := typing [''a'']\<rparr>) = Some (r, w')"
      using generate_rsa_returns by blast
    have gates: "RSAKEYBITS_SCHEMA_check_match demo_env DEFAULT_RSA_KEY_BITS = Inr () \<and>
      PATH_SCHEMA_check_match demo_env (used_filepath (Some ''k'') (keyid (generate_rsa_key demo_env DEFAULT_RSA_KEY_BITS)) (demo_world\<lparr>tty_in := typing [''a'']\<rparr>)) = Inr ()"
      by (simp add: demo_env_def DEFAULT_RSA_KEY_BITS_def)
    from given_password_never_prompts [THEN conjunct2, THEN conjunct1, rule_format, OF conjI [OF run gates]]
    have "stderr w' = [''Enter a password for the encrypted RSA key ('' @ Fore_RED @ ''k'' @ Fore_RESET @ ''): ''] \<and>
      stdout w' = [] \<and>
      tty_pos w' = 1"
      by (simp add: demo_env_def demo_world_def demo_rsa_key_def demo_ed25519_key_def demo_ecdsa_key_def
          used_filepath_def DEFAULT_RSA_KEY_BITS_def fault_due_def typing_def os_path_basename_def
          Fore_RED_def Fore_RESET_def)
    with run show ?thesis
      by (intro exI [of _ r] exI [of _ w']) simp
  qed
  have i11: "\<exists>r w'. generate_and_write_ed25519_keypair demo_env (Some ''k'') None
        (demo_world\<lparr>tty_in := typing [''a'']\<rparr>) = Some (r, w') \<and>
      stderr w' = [''Enter a password for the Ed25519 key ('' @ Fore_RED @ ''k'' @ Fore_RESET @ ''): ''] \<and>
      stdout w' = [] \<and>
      tty_pos w' = 1"
  proof -
    obtain r w' where run: "generate_and_write_ed25519_keypair demo_env (Some ''k'') None
        (demo_world\<lparr>tty_in := typing [''a'']\<rparr>) = Some (r, w')"
      using generate_ed25519_returns by blast
    have gates: "PATH_SCHEMA_check_match demo_env (used_filepath (Some ''k'') (keyid (generate_ed25519_key demo_env)) (demo_world\<lparr>tty_in := typing [''a'']\<rparr>)) = Inr ()"
      by (simp add: demo_env_def DEFAULT_RSA_KEY_BITS_def)
    from given_password_never_prompts [THEN conjunct2, THEN conjunct2, THEN conjunct2, THEN conjunct1, rule_format, OF conjI [OF run gates]]
    have "stderr w' = [''Enter a password for the Ed25519 key ('' @ Fore_RED @ ''k'' @ Fore_RESET @ ''): ''] \<and>
      stdout w' = [] \<and>
      tty_pos w' = 1"
      by (simp add: demo_env_def demo_world_def demo_rsa_key_def demo_ed25519_key_def demo_ecdsa_key_def
          used_filepath_def DEFAULT_RSA_KEY_BITS_def fault_due_def typing_def os_path_basename_def
          Fore_RED_def Fore_RESET_def)
    with run show ?thesis
      by (intro exI [of _ r] exI [of _ w']) simp
  qed
  have i12: "\<exists>r w'. generate_and_write_ecdsa_keypair demo_env (Some ''k'') None
        (demo_world\<lparr>tty_in := typing [''a'']\<rparr>) = Some (r, w') \<and>
      stderr w' = [''Enter a password for the ECDSA key ('' @ Fore_RED @ ''k'' @ Fore_RESET @ ''): ''] \<and>
      stdout w' = [] \<and>
      tty_pos w' = 1"
  proof -
    obtain r w' where run: "generate_and_write_ecdsa_keypair demo_env (Some ''k'') None
        (demo_world\<lparr>tty_in := typing [''a'']\<rparr>) = Some (r, w')"
      using generate_ecdsa_returns by blast
    have gates: "PATH_SCHEMA_check_match demo_env (used_filepath (Some ''k'') (keyid (generate_ecdsa_key demo_env)) (demo_world\<lparr>tty_in := typing [''a'']\<rparr>)) = Inr ()"
      by (simp add: demo_env_def DEFAULT_RSA_KEY_BITS_def)
    from given_password_never_prompts [THEN conjunct2, THEN conjunct2, THEN conjunct2, THEN conjunct2, THEN conjunct2, THEN conjunct1, rule_format, OF conjI [OF run gates]]
    have "stderr w' = [''Enter a password for the ECDSA key ('' @ Fore_RED @ ''k'' @ Fore_RESET @ ''): ''] \<and>
      stdout w' = [] \<and>
      tty_pos w' = 1"
      by (simp add: demo_env_def demo_world_def demo_rsa_key_def demo_ed25519_key_def demo_ecdsa_key_def
          used_filepath_def DEFAULT_RSA_KEY_BITS_def fault_due_def typing_def os_path_basename_def
          Fore_RED_def Fore_RESET_def)
    with run show ?thesis
      by (intro exI [of _ r] exI [of _ w']) simp
  qed
  have i13: "\<exists>q w'. import_rsa_privatekey_from_file demo_env ''k'' None ''rsassa-pss-sha256''
        (demo_world\<lparr>tty_in := typing [''a'']\<rparr>) = Some (q, w') \<and>
      stderr w' = [''Enter a password for the encrypted RSA file ('' @ Fore_RED @ ''k'' @ Fore_RESET @ ''): ''] \<and>
      stdout w' = [] \<and>
      tty_pos w' = 1"
  proof -
    obtain q w' where run: "import_rsa_privatekey_from_file demo_env ''k'' None ''rsassa-pss-sha256''
        (demo_world\<lparr>tty_in := typing [''a'']\<rparr>) = Some (q, w')"
      using import_rsa_returns by blast
    have gates: "PATH_SCHEMA_check_match demo_env ''k'' = Inr () \<and>
      RSA_SCHEME_SCHEMA_check_match demo_env ''rsassa-pss-sha256'' = Inr ()"
      by (simp add: demo_env_def DEFAULT_RSA_KEY_BITS_def)
    from given_password_never_prompts [THEN conjunct2, THEN conjunct2, THEN conjunct2, THEN conjunct2, THEN conjunct2, THEN conjunct2, THEN conjunct2, THEN conjunct1, rule_format, OF conjI [OF run gates]]
    have "stderr w' = [''Enter a password for the encrypted RSA file ('' @ Fore_RED @ ''k'' @ Fore_RESET @ ''): ''] \<and>
      stdout w' = [] \<and>
      tty_pos w' = 1"
      by (simp add: demo_env_def demo_world_def demo_rsa_key_def demo_ed25519_key_def demo_ecdsa_key_def
          used_filepath_def DEFAULT_RSA_KEY_BITS_def fault_due_def typing_def os_path_basename_def
          Fore_RED_def Fore_RESET_def)
    with run show ?thesis
      by (intro exI [of _ q] exI [of _ w']) simp
  qed
  have i14: "\<exists>q w'. import_ed25519_privatekey_from_file demo_env ''k'' None
        (demo_world\<lparr>tty_in := typing [''a'']\<rparr>) = Some (q, w') \<and>
      stderr w' = [''Enter a password for the encrypted Ed25519 key ('' @ Fore_RED @ ''k'' @ Fore_RESET @ ''): ''] \<and>
      stdout w' = [] \<and>
      tty_pos w' = 1"
  proof -
    obtain q w' where run: "import_ed25519_privatekey_from_file demo_env ''k'' None
        (demo_world\<lparr>tty_in := typing [''a'']\<rparr>) = Some (q, w')"
      using import_ed25519_returns by blast
    have gates: "PATH_SCHEMA_check_match demo_env ''k'' = Inr ()"
      by (simp add: demo_env_def DEFAULT_RSA_KEY_BITS_def)
    from given_password_never_prompts [THEN conjunct2, THEN conjunct2, THEN conjunct2, THEN conjunct2, THEN conjunct2, THEN conjunct2, THEN conjunct2, THEN conjunct2, THEN conjunct2, THEN conjunct1, rule_format, OF conjI [OF run gates]]
    have "stderr w' = [''Enter a password for the encrypted Ed25519 key ('' @ Fore_RED @ ''k'' @ Fore_RESET @ ''): ''] \<and>
      stdout w' = [] \<and>
      tty_pos w' = 1"
      by (simp add: demo_env_def demo_world_def demo_rsa_key_def demo_ed25519_key_def demo_ecdsa_key_def
          used_filepath_def DEFAULT_RSA_KEY_BITS_def fault_due_def typing_def os_path_basename_def
          Fore_RED_def Fore_RESET_def)
    with run show ?thesis
      by (intro exI [of _ q] exI [of _ w']) simp
  qed
  have i15: "\<exists>q w'. import_ecdsa_privatekey_from_file demo_env ''k'' None
        (demo_world\<lparr>tty_in := typing [''a'']\<rparr>) = Some (q, w') \<and>
      stderr w' = [''Enter a password for the encrypted ECDSA key ('' @ Fore_RED @ ''k'' @ Fore_RESET @ ''): ''] \<and>
      stdout w' = [] \<and>
      tty_pos w' = 1"
  proof -
    obtain q w' where run: "import_ecdsa_privatekey_from_file demo_env ''k'' None
        (demo_world\<lparr>tty_in := typing [''a'']\<rparr>) = Some (q, w')"
      using import_ecdsa_returns by blast
    have gates: "PATH_SCHEMA_check_match demo_env ''k'' = Inr ()"
      by (simp add: demo_env_def DEFAULT_RSA_KEY_BITS_def)
    from given_password_never_prompts [THEN conjunct2, THEN conjunct2, THEN conjunct2, THEN conjunct2, THEN conjunct2, THEN conjunct2, THEN conjunct2, THEN conjunct2, THEN conjunct2, THEN conjunct2, THEN conjunct2, rule_format, OF conjI [OF run gates]]
    have "stderr w' = [''Enter a password for the encrypted ECDSA key ('' @ Fore_RED @ ''k'' @ Fore_RESET @ ''): ''] \<and>
      stdout w' = [] \<and>
      tty_pos w' = 1"
      by (simp add: demo_env_def demo_world_def demo_rsa_key_def demo_ed25519_key_def demo_ecdsa_key_def
          used_filepath_def DEFAULT_RSA_KEY_BITS_def fault_due_def typing_def os_path_basename_def
          Fore_RED_def Fore_RESET_def)
    with run show ?thesis
      by (intro exI [of _ q] exI [of _ w']) simp
  qed
  have i16: "\<exists>r w'. generate_and_write_ed25519_keypair demo_env (Some ''k'') None demo_world = Some (r, w') \<and>
      tty_pos w' = 0 \<and>
      r = Inl EOFError"
  proof -
    obtain r w' where run: "generate_and_write_ed25519_keypair demo_env (Some ''k'') None demo_world = Some (r, w')"
      using generate_ed25519_returns by blast
    have gates: "PATH_SCHEMA_check_match demo_env (used_filepath (Some ''k'') (keyid (generate_ed25519_key demo_env)) (demo_world)) = Inr ()"
      by (simp add: demo_env_def DEFAULT_RSA_KEY_BITS_def)
    from given_password_never_prompts [THEN conjunct2, THEN conjunct2, THEN conjunct2, THEN conjunct1, rule_format, OF conjI [OF run gates]]
    have "tty_pos w' = 0 \<and>
      r = Inl EOFError"
      by (simp add: demo_env_def demo_world_def demo_rsa_key_def demo_ed25519_key_def demo_ecdsa_key_def
          used_filepath_def DEFAULT_RSA_KEY_BITS_def fault_due_def typing_def os_path_basename_def
          Fore_RED_def Fore_RESET_def)
    with run show ?thesis
      by (intro exI [of _ r] exI [of _ w']) simp
  qed
  show ?thesis
    by (rule conjI [OF i0 conjI [OF i1 conjI [OF i2 conjI [OF i3 conjI [OF i4 conjI [OF i5 conjI [OF i6 conjI [OF i7 conjI [OF i8 conjI [OF i9 conjI [OF i10 conjI [OF i11 conjI [OF i12 conjI [OF i13 conjI [OF i14 conjI [OF i15 i16]]]]]]]]]]]]]]]])
qed

text \<open>
  C9. With \<open>confirm = True\<close>, \<open>_get_password\<close> returns a password only when the two
  entries of a round are equal; every round whose entries differ prints the notice
  \<^verbatim>\<open>Mismatch; try again.\<close> and prompts again. After \<open>k\<close> such rounds and a round with two
  equal entries \<open>p\<close> it returns \<open>p\<close>, for every \<open>k\<close>: there is no bound on the number of
  attempts, and when every round differs the call does not return.
\<close>

theorem get_password_confirm_loop:
  "((\<forall>j<k. mismatch_round w j) \<and> entry w (2 * k) = Some p \<and> entry w (2 * k + 1) = Some p \<longrightarrow>
      get_password prompt True w =
        Some (Inr p,
          w\<lparr>tty_pos := tty_pos w + 2 * Suc k,
            stderr := stderr w @ concat (replicate (Suc k) [prompt, ''Confirm: '']),
            stdout := stdout w @ replicate k ''Mismatch; try again.''\<rparr>)) \<and>
   (get_password prompt True w = Some (Inr q, w') \<longrightarrow>
      (\<exists>n. (\<forall>j<n. mismatch_round w j) \<and> entry w (2 * n) = Some q \<and>
           entry w (2 * n + 1) = Some q \<and>
           stdout w' = stdout w @ replicate n ''Mismatch; try again.'')) \<and>
   ((\<forall>j. mismatch_round w j) \<longrightarrow> get_password prompt True w = None)"
proof (intro conjI impI)
  assume "(\<forall>j<k. mismatch_round w j) \<and> entry w (2 * k) = Some p \<and> entry w (2 * k + 1) = Some p"
  then show "get_password prompt True w =
        Some (Inr p,
          w\<lparr>tty_pos := tty_pos w + 2 * Suc k,
            stderr := stderr w @ concat (replicate (Suc k) [prompt, ''Confirm: '']),
            stdout := stdout w @ replicate k ''Mismatch; try again.''\<rparr>)"
    by (intro get_password_confirm_returns) simp_all
next
  assume r: "get_password prompt True w = Some (Inr q, w')"
  from get_password_confirm_result [OF r] obtain n where
    n: "\<forall>j<n. mismatch_round w j" "entry w (2 * n) = Some q" "entry w (2 * n + 1) = Some q"
    by (auto simp: round_outcome_def)
  then have "get_password prompt True w =
        Some (Inr q,
          w\<lparr>tty_pos := tty_pos w + 2 * Suc n,
            stderr := stderr w @ concat (replicate (Suc n) [prompt, ''Confirm: '']),
            stdout := stdout w @ replicate n ''Mismatch; try again.''\<rparr>)"
    by (intro get_password_confirm_returns) simp_all
  with r have "w' =
          w\<lparr>tty_pos := tty_pos w + 2 * Suc n,
            stderr := stderr w @ concat (replicate (Suc n) [prompt, ''Confirm: '']),
            stdout := stdout w @ replicate n ''Mismatch; try again.''\<rparr>"
    by simp
  then have "stdout w' = stdout w @ replicate n ''Mismatch; try again.''"
    by simp
  with n show "\<exists>n. (\<forall>j<n. mismatch_round w j) \<and> entry w (2 * n) = Some q \<and>
           entry w (2 * n + 1) = Some q \<and>
           stdout w' = stdout w @ replicate n ''Mismatch; try again.''"
    by blast
next
  assume "\<forall>j. mismatch_round w j"
  then show "get_password prompt True w = None"
    by (rule get_password_confirm_diverges)
qed

theorem get_password_confirm_loop_witness:
  "get_password ''Password: '' True (demo_world\<lparr>tty_in := typing [''a'', ''b'', ''c'', ''c'']\<rparr>) =
     Some (Inr ''c'',
       demo_world\<lparr>tty_in := typing [''a'', ''b'', ''c'', ''c''], tty_pos := 4,
         stderr := [''Password: '', ''Confirm: '', ''Password: '', ''Confirm: ''],
         stdout := [''Mismatch; try again.'']\<rparr>) \<and>
   get_password ''Password: '' True
     (demo_world\<lparr>tty_in := (\<lambda>n. Some (if even n then ''a'' else ''b''))\<rparr>) = None"
proof -
  let ?w = "demo_world\<lparr>tty_in := typing [''a'', ''b'', ''c'', ''c'']\<rparr>"
  let ?v = "demo_world\<lparr>tty_in := (\<lambda>n. Some (if even n then ''a'' else ''b''))\<rparr>"
  have h1: "(\<forall>j<Suc 0. mismatch_round ?w j) \<and> entry ?w (2 * Suc 0) = Some ''c'' \<and>
      entry ?w (2 * Suc 0 + 1) = Some ''c''"
    by (simp add: mismatch_round_def entry_def typing_def demo_world_def)
  have h2: "\<forall>j. mismatch_round ?v j"
    by (simp add: mismatch_round_def entry_def demo_world_def)
  have r1: "get_password ''Password: '' True ?w =
     Some (Inr ''c'',
       demo_world\<lparr>tty_in := typing [''a'', ''b'', ''c'', ''c''], tty_pos := 4,
         stderr := [''Password: '', ''Confirm: '', ''Password: '', ''Confirm: ''],
         stdout := [''Mismatch; try again.'']\<rparr>)"
    using get_password_confirm_loop [where k = "Suc 0" and w = ?w and p = "''c''"
        and prompt = "''Password: ''"] h1
    by (simp add: demo_world_def)
  have r2: "get_password ''Password: '' True ?v = None"
    using get_password_confirm_loop [where w = ?v and prompt = "''Password: ''"] h2
    by blast
  show ?thesis using r1 r2 by simp
qed


text \<open>
  C10. Whatever a creation call writes at \<^verbatim>\<open><filepath>.pub\<close> holds no private key material.
  For RSA the file is the public PEM string. For Ed25519 and ECDSA it is the serialisation
  of the envelope with the fields \<^verbatim>\<open>keytype\<close>, \<^verbatim>\<open>scheme\<close> and \<^verbatim>\<open>keyval\<close>, the last with the
  single field \<^verbatim>\<open>public\<close>: the private field of the key is not in it. After the call the
  file is as it was before or holds that payload, and after a call that succeeds it holds
  that payload.
\<close>

theorem public_file_holds_no_private_material:
  "(generate_and_write_rsa_keypair env fp bits password w = Some (r, w') \<longrightarrow>
      (files w' (used_filepath fp (keyid (generate_rsa_key env bits)) w @ ''.pub'') =
         files w (used_filepath fp (keyid (generate_rsa_key env bits)) w @ ''.pub'') \<or>
       files w' (used_filepath fp (keyid (generate_rsa_key env bits)) w @ ''.pub'') =
         Some (kv_public (keyval (generate_rsa_key env bits)))) \<and>
      (\<forall>x. r = Inr x \<longrightarrow>
         files w' (x @ ''.pub'') =
           Some (kv_public (keyval (generate_rsa_key env bits))))) \<and>
   (generate_and_write_ed25519_keypair env fp password w = Some (s, v') \<longrightarrow>
      (files v' (used_filepath fp (keyid (generate_ed25519_key env)) w @ ''.pub'') =
         files w (used_filepath fp (keyid (generate_ed25519_key env)) w @ ''.pub'') \<or>
       files v' (used_filepath fp (keyid (generate_ed25519_key env)) w @ ''.pub'') =
         Some (json_dumps env (JObject
            [(''keytype'', JString (keytype (generate_ed25519_key env))),
             (''scheme'', JString (scheme (generate_ed25519_key env))),
             (''keyval'', JObject
                [(''public'', JString (kv_public (keyval (generate_ed25519_key env))))])]))) \<and>
      (\<forall>x. s = Inr x \<longrightarrow>
         files v' (x @ ''.pub'') =
           Some (json_dumps env (JObject
            [(''keytype'', JString (keytype (generate_ed25519_key env))),
             (''scheme'', JString (scheme (generate_ed25519_key env))),
             (''keyval'', JObject
                [(''public'', JString (kv_public (keyval (generate_ed25519_key env))))])])))) \<and>
   (generate_and_write_ecdsa_keypair env fp password w = Some (t, u') \<longrightarrow>
      (files u' (used_filepath fp (keyid (generate_ecdsa_key env)) w @ ''.pub'') =
         files w (used_filepath fp (keyid (generate_ecdsa_key env)) w @ ''.pub'') \<or>
       files u' (used_filepath fp (keyid (generate_ecdsa_key env)) w @ ''.pub'') =
         Some (json_dumps env (JObject
            [(''keytype'', JString (keytype (generate_ecdsa_key env))),
             (''scheme'', JString (scheme (generate_ecdsa_key env))),
             (''keyval'', JObject
                [(''public'', JString (kv_public (keyval (generate_ecdsa_key env))))])]))) \<and>
      (\<forall>x. t = Inr x \<longrightarrow>
         files u' (x @ ''.pub'') =
           Some (json_dumps env (JObject
            [(''keytype'', JString (keytype (generate_ecdsa_key env))),
             (''scheme'', JString (scheme (generate_ecdsa_key env))),
             (''keyval'', JObject
                [(''public'', JString (kv_public (keyval (generate_ecdsa_key env))))])]))))"
proof -
  have a1: "generate_and_write_rsa_keypair env fp bits password w = Some (r, w') \<longrightarrow>
      (files w' (used_filepath fp (keyid (generate_rsa_key env bits)) w @ ''.pub'') =
         files w (used_filepath fp (keyid (generate_rsa_key env bits)) w @ ''.pub'') \<or>
       files w' (used_filepath fp (keyid (generate_rsa_key env bits)) w @ ''.pub'') =
         Some (kv_public (keyval (generate_rsa_key env bits)))) \<and>
      (\<forall>x. r = Inr x \<longrightarrow>
         files w' (x @ ''.pub'') =
           Some (kv_public (keyval (generate_rsa_key env bits))))"
  proof (rule impI)
    assume h: "generate_and_write_rsa_keypair env fp bits password w = Some (r, w')"
    show "(files w' (used_filepath fp (keyid (generate_rsa_key env bits)) w @ ''.pub'') =
         files w (used_filepath fp (keyid (generate_rsa_key env bits)) w @ ''.pub'') \<or>
       files w' (used_filepath fp (keyid (generate_rsa_key env bits)) w @ ''.pub'') =
         Some (kv_public (keyval (generate_rsa_key env bits)))) \<and>
      (\<forall>x. r = Inr x \<longrightarrow>
         files w' (x @ ''.pub'') =
           Some (kv_public (keyval (generate_rsa_key env bits))))"
    proof (cases r)
      case (Inl e)
      with h have "generate_and_write_rsa_keypair env fp bits password w = Some (Inl e, w')"
        by simp
      from generate_rsa_failure [OF this] Inl show ?thesis
        by (auto simp: format_keyval_to_metadata_def)
    next
      case (Inr x)
      with h have "generate_and_write_rsa_keypair env fp bits password w = Some (Inr x, w')"
        by simp
      from generate_rsa_success [OF this] Inr show ?thesis
        by (auto simp: format_keyval_to_metadata_def split: if_splits)
    qed
  qed
  have a2: "generate_and_write_ed25519_keypair env fp password w = Some (s, v') \<longrightarrow>
      (files v' (used_filepath fp (keyid (generate_ed25519_key env)) w @ ''.pub'') =
         files w (used_filepath fp (keyid (generate_ed25519_key env)) w @ ''.pub'') \<or>
       files v' (used_filepath fp (keyid (generate_ed25519_key env)) w @ ''.pub'') =
         Some (json_dumps env (JObject
            [(''keytype'', JString (keytype (generate_ed25519_key env))),
             (''scheme'', JString (scheme (generate_ed25519_key env))),
             (''keyval'', JObject
                [(''public'', JString (kv_public (keyval (generate_ed25519_key env))))])]))) \<and>
      (\<forall>x. s = Inr x \<longrightarrow>
         files v' (x @ ''.pub'') =
           Some (json_dumps env (JObject
            [(''keytype'', JString (keytype (generate_ed25519_key env))),
             (''scheme'', JString (scheme (generate_ed25519_key env))),
             (''keyval'', JObject
                [(''public'', JString (kv_public (keyval (generate_ed25519_key env))))])])))"
  proof (rule impI)
    assume h: "generate_and_write_ed25519_keypair env fp password w = Some (s, v')"
    show "(files v' (used_filepath fp (keyid (generate_ed25519_key env)) w @ ''.pub'') =
         files w (used_filepath fp (keyid (generate_ed25519_key env)) w @ ''.pub'') \<or>
       files v' (used_filepath fp (keyid (generate_ed25519_key env)) w @ ''.pub'') =
         Some (json_dumps env (JObject
            [(''keytype'', JString (keytype (generate_ed25519_key env))),
             (''scheme'', JString (scheme (generate_ed25519_key env))),
             (''keyval'', JObject
                [(''public'', JString (kv_public (keyval (generate_ed25519_key env))))])]))) \<and>
      (\<forall>x. s = Inr x \<longrightarrow>
         files v' (x @ ''.pub'') =
           Some (json_dumps env (JObject
            [(''keytype'', JString (keytype (generate_ed25519_key env))),
             (''scheme'', JString (scheme (generate_ed25519_key env))),
             (''keyval'', JObject
                [(''public'', JString (kv_public (keyval (generate_ed25519_key env))))])])))"
    proof (cases s)
      case (Inl e)
      with h have "generate_and_write_ed25519_keypair env fp password w = Some (Inl e, v')"
        by simp
      from generate_ed25519_failure [OF this] Inl show ?thesis
        by (auto simp: format_keyval_to_metadata_def)
    next
      case (Inr x)
      with h have "generate_and_write_ed25519_keypair env fp password w = Some (Inr x, v')"
        by simp
      from generate_ed25519_success [OF this] Inr show ?thesis
        by (auto simp: format_keyval_to_metadata_def split: if_splits)
    qed
  qed
  have a3: "generate_and_write_ecdsa_keypair env fp password w = Some (t, u') \<longrightarrow>
      (files u' (used_filepath fp (keyid (generate_ecdsa_key env)) w @ ''.pub'') =
         files w (used_filepath fp (keyid (generate_ecdsa_key env)) w @ ''.pub'') \<or>
       files u' (used_filepath fp (keyid (generate_ecdsa_key env)) w @ ''.pub'') =
         Some (json_dumps env (JObject
            [(''keytype'', JString (keytype (generate_ecdsa_key env))),
             (''scheme'', JString (scheme (generate_ecdsa_key env))),
             (''keyval'', JObject
                [(''public'', JString (kv_public (keyval (generate_ecdsa_key env))))])]))) \<and>
      (\<forall>x. t = Inr x \<longrightarrow>
         files u' (x @ ''.pub'') =
           Some (json_dumps env (JObject
            [(''keytype'', JString (keytype (generate_ecdsa_key env))),
             (''scheme'', JString (scheme (generate_ecdsa_key env))),
             (''keyval'', JObject
                [(''public'', JString (kv_public (keyval (generate_ecdsa_key env))))])])))"
  proof (rule impI)
    assume h: "generate_and_write_ecdsa_keypair env fp password w = Some (t, u')"
    show "(files u' (used_filepath fp (keyid (generate_ecdsa_key env)) w @ ''.pub'') =
         files w (used_filepath fp (keyid (generate_ecdsa_key env)) w @ ''.pub'') \<or>
       files u' (used_filepath fp (keyid (generate_ecdsa_key env)) w @ ''.pub'') =
         Some (json_dumps env (JObject
            [(''keytype'', JString (keytype (generate_ecdsa_key env))),
             (''scheme'', JString (scheme (generate_ecdsa_key env))),
             (''keyval'', JObject
                [(''public'', JString (kv_public (keyval (generate_ecdsa_key env))))])]))) \<and>
      (\<forall>x. t = Inr x \<longrightarrow>
         files u' (x @ ''.pub'') =
           Some (json_dumps env (JObject
            [(''keytype'', JString (keytype (generate_ecdsa_key env))),
             (''scheme'', JString (scheme (generate_ecdsa_key env))),
             (''keyval'', JObject
                [(''public'', JString (kv_public (keyval (generate_ecdsa_key env))))])])))"
    proof (cases t)
      case (Inl e)
      with h have "generate_and_write_ecdsa_keypair env fp password w = Some (Inl e, u')"
        by simp
      from generate_ecdsa_failure [OF this] Inl show ?thesis
        by (auto simp: format_keyval_to_metadata_def)
    next
      case (Inr x)
      with h have "generate_and_write_ecdsa_keypair env fp password w = Some (Inr x, u')"
        by simp
      from generate_ecdsa_success [OF this] Inr show ?thesis
        by (auto simp: format_keyval_to_metadata_def split: if_splits)
    qed
  qed
  show ?thesis
    by (rule conjI [OF a1 conjI [OF a2 a3]])
qed

theorem public_file_holds_no_private_material_witness:
  "generate_and_write_rsa_keypair demo_env (Some ''k'') DEFAULT_RSA_KEY_BITS (Some ''pw'') demo_world =
     Some (Inr ''k'',
       demo_world\<lparr>files := [''k.pub'' \<mapsto> ''PUBLIC-PEM'', ''k'' \<mapsto> ''ENC[pw]PRIVATE-PEM''],
         calls := [Call_create_rsa_encrypted_pem ''PRIVATE-PEM'' ''pw'']\<rparr>) \<and>
   generate_and_write_ed25519_keypair demo_env (Some ''k'') (Some ''pw'') demo_world =
     Some (Inr ''k'',
       demo_world\<lparr>files := [''k.pub'' \<mapsto> ''{keytype:ed25519;scheme:ed25519;keyval:{public:edpub;};}'',
                           ''k'' \<mapsto> ''ENC[pw]ed25519''],
         calls := [Call_encrypt_key demo_ed25519_key ''pw'']\<rparr>) \<and>
   generate_and_write_ecdsa_keypair demo_env (Some ''k'') (Some ''pw'')
       (demo_world\<lparr>io_faults := [False, False, False, False, True]\<rparr>) =
     Some (Inl IOError,
       demo_world\<lparr>files := [''k.pub'' \<mapsto>
           ''{keytype:ecdsa-sha2-nistp256;scheme:ecdsa-sha2-nistp256;keyval:{public:ecpub;};}'']\<rparr>)"
proof -
  let ?w1 = "demo_world\<lparr>files := [''k.pub'' \<mapsto> ''PUBLIC-PEM'', ''k'' \<mapsto> ''ENC[pw]PRIVATE-PEM''],
         calls := [Call_create_rsa_encrypted_pem ''PRIVATE-PEM'' ''pw'']\<rparr>"
  let ?w2 = "demo_world\<lparr>files := [''k.pub'' \<mapsto> ''{keytype:ed25519;scheme:ed25519;keyval:{public:edpub;};}'',
                           ''k'' \<mapsto> ''ENC[pw]ed25519''],
         calls := [Call_encrypt_key demo_ed25519_key ''pw'']\<rparr>"
  obtain f1 where h1: "generate_and_write_rsa_keypair demo_env (Some ''k'') DEFAULT_RSA_KEY_BITS
      (Some ''pw'') demo_world =
     Some (Inr ''k'', demo_world\<lparr>files := f1,
         calls := [Call_create_rsa_encrypted_pem ''PRIVATE-PEM'' ''pw'']\<rparr>)"
      and k1: "f1 ''k'' = Some ''ENC[pw]PRIVATE-PEM''" and o1: "\<And>p. p \<noteq> ''k'' \<Longrightarrow> p \<noteq> ''k.pub'' \<Longrightarrow> f1 p = None"
    unfolding generate_and_write_rsa_keypair_def
    by (simp add: eval_defs DEFAULT_RSA_KEY_BITS_def)
  obtain f2 where h2: "generate_and_write_ed25519_keypair demo_env (Some ''k'') (Some ''pw'') demo_world =
     Some (Inr ''k'', demo_world\<lparr>files := f2, calls := [Call_encrypt_key demo_ed25519_key ''pw'']\<rparr>)"
      and k2: "f2 ''k'' = Some ''ENC[pw]ed25519''" and o2: "\<And>p. p \<noteq> ''k'' \<Longrightarrow> p \<noteq> ''k.pub'' \<Longrightarrow> f2 p = None"
    unfolding generate_and_write_ed25519_keypair_def
    by (simp add: eval_defs)
  obtain r3 f3 where h3: "generate_and_write_ecdsa_keypair demo_env (Some ''k'') (Some ''pw'')
       (demo_world\<lparr>io_faults := [False, False, False, False, True]\<rparr>) =
     Some (r3, demo_world\<lparr>files := f3\<rparr>)" and r3: "r3 = Inl IOError"
      and o3: "\<And>p. p \<noteq> ''k.pub'' \<Longrightarrow> f3 p = None" and n3: "f3 ''k.pub'' \<noteq> None"
    unfolding generate_and_write_ecdsa_keypair_def
    by (simp add: eval_defs)
  from public_file_holds_no_private_material [THEN conjunct1, rule_format, OF h1, THEN conjunct2,
      rule_format, OF refl]
  have p1: "f1 ''k.pub'' = Some ''PUBLIC-PEM''"
    by (simp add: demo_env_def demo_rsa_key_def demo_world_def)
  from public_file_holds_no_private_material [THEN conjunct2, THEN conjunct1, rule_format, OF h2,
      THEN conjunct2, rule_format, OF refl]
  have p2: "f2 ''k.pub'' = Some ''{keytype:ed25519;scheme:ed25519;keyval:{public:edpub;};}''"
    by (simp add: demo_env_def demo_ed25519_key_def demo_world_def)
  from public_file_holds_no_private_material [THEN conjunct2, THEN conjunct2, rule_format, OF h3,
      THEN conjunct1] n3
  have p3: "f3 ''k.pub'' =
      Some ''{keytype:ecdsa-sha2-nistp256;scheme:ecdsa-sha2-nistp256;keyval:{public:ecpub;};}''"
    by (simp add: demo_env_def demo_ecdsa_key_def demo_world_def used_filepath_def)
  have e1: "f1 = [''k.pub'' \<mapsto> ''PUBLIC-PEM'', ''k'' \<mapsto> ''ENC[pw]PRIVATE-PEM'']"
    using k1 o1 p1 by (intro ext) simp
  have e2: "f2 = [''k.pub'' \<mapsto> ''{keytype:ed25519;scheme:ed25519;keyval:{public:edpub;};}'',
                           ''k'' \<mapsto> ''ENC[pw]ed25519'']"
    using k2 o2 p2 by (intro ext) simp
  have e3: "f3 = [''k.pub'' \<mapsto>
           ''{keytype:ecdsa-sha2-nistp256;scheme:ecdsa-sha2-nistp256;keyval:{public:ecpub;};}'']"
    using o3 p3 by (intro ext) simp
  from h1 h2 h3 r3 e1 e2 e3 show ?thesis by simp
qed

end
